theory Spec2Isabelle
  imports Complex_Main "HOL-Library.Multiset"
begin

section \<open>Arrays, errors and the contractions used by the k-point UHF module\<close>

text \<open>
  The module works on numpy arrays of complex numbers. A matrix is the list of its rows,
  a stack of matrices (one per k-point) is a list of matrices, and a quantity with a
  leading spin axis of length two is a pair (alpha, beta). Floating-point numbers are
  idealised as exact reals and complex numbers, and every entry is held as a complex
  number. An ndarray is rectangular by construction, which the predicates \<open>is_mat\<close> and
  \<open>is_arr3\<close> express for lists; a list of rows keeps no shape for an array with an axis
  of length zero.

  Where the outcome of the code depends on the element type of an array (the in-place
  product of \<open>get_init_guess\<close> and the column assignment of \<open>canonicalize\<close>), the array
  carries its element type, \<open>float64\<close> or \<open>complex128\<close>, beside its entries. An operation
  on two arrays yields \<open>complex128\<close> as soon as one operand has it. Storing a complex
  number into a \<open>float64\<close> array by an indexed assignment keeps its real part (numpy
  warns and discards the imaginary part). The entries of a \<open>float64\<close> array are real
  numbers; no definition depends on it.
\<close>

type_synonym cmat = "complex list list"

type_synonym spin_arr = "cmat list \<times> cmat list"

datatype dtype = Float64 | Complex128

definition result_type :: "dtype \<Rightarrow> dtype \<Rightarrow> dtype" where
  "result_type a b = (if a = Complex128 \<or> b = Complex128 then Complex128 else Float64)"

definition cast_to :: "dtype \<Rightarrow> complex \<Rightarrow> complex" where
  "cast_to d x = (case d of Float64 \<Rightarrow> complex_of_real (Re x) | Complex128 \<Rightarrow> x)"

definition astype :: "dtype \<Rightarrow> cmat \<Rightarrow> cmat" where
  "astype d m = map (map (cast_to d)) m"

datatype py_error =
    IndexError
  | ValueError
  | TypeError
  | KeyError
  | IOError
  | ZeroDivisionError
  | RuntimeError real

definition dim1 :: "'a list list \<Rightarrow> nat" where
  "dim1 a = (case a of [] \<Rightarrow> 0 | r # _ \<Rightarrow> length r)"

definition dim2 :: "'a list list list \<Rightarrow> nat" where
  "dim2 a = (case a of [] \<Rightarrow> 0 | m # _ \<Rightarrow> dim1 m)"

definition is_mat :: "nat \<Rightarrow> nat \<Rightarrow> 'a list list \<Rightarrow> bool" where
  "is_mat r c m = (length m = r \<and> list_all (\<lambda>row. length row = c) m)"

definition is_arr3 :: "nat \<Rightarrow> nat \<Rightarrow> nat \<Rightarrow> 'a list list list \<Rightarrow> bool" where
  "is_arr3 k r c a = (length a = k \<and> list_all (is_mat r c) a)"

text \<open>
  \<^verbatim>\<open>np.einsum('kij,kji', a, b)\<close>: the sum over \<open>k\<close>, \<open>i\<close>, \<open>j\<close> of
  \<open>a[k,i,j] * b[k,j,i]\<close>. Operands whose axes do not match are rejected
  (numpy's stretching of axes of length one is not modelled).
\<close>

definition einsum_kij_kji :: "cmat list \<Rightarrow> cmat list \<Rightarrow> py_error + complex" where
  "einsum_kij_kji a b =
     (if length b = length a \<and> dim1 b = dim2 a \<and> dim2 b = dim1 a
      then Inr (\<Sum>k\<leftarrow>[0..<length a]. \<Sum>i\<leftarrow>[0..<dim1 a]. \<Sum>j\<leftarrow>[0..<dim2 a].
                  a ! k ! i ! j * b ! k ! j ! i)
      else Inl ValueError)"

section \<open>The mean-field object\<close>

text \<open>
  The fields of the mean-field object that the functions below read: the electron counts
  per spin, the k-points, whether the verbosity reaches the debug level
  (\<^verbatim>\<open>mf.verbose >= logger.DEBUG\<close>; the logger's constants are not part of this module),
  and the convergence settings. A level shift is a number, a tuple or list, or an ndarray.
\<close>

datatype level_shift_cfg =
    LS_float real
  | LS_seq "real list"
  | LS_ndarray "real list"

record kuhf =
  nelec :: "int \<times> int"
  kpts :: "real list list"
  verbose_debug :: bool
  diis_start_cycle :: int
  level_shift :: level_shift_cfg
  damp :: real

section \<open>Electronic energy\<close>

text \<open>
  \<^verbatim>\<open>
  nkpts = len(h1e_kpts)
  e1 = 1./nkpts * np.einsum('kij,kji', dm_kpts[0], h1e_kpts)
  e1+= 1./nkpts * np.einsum('kij,kji', dm_kpts[1], h1e_kpts)
  e_coul = 1./nkpts * np.einsum('kij,kji', dm_kpts[0], vhf_kpts[0]) * 0.5
  e_coul+= 1./nkpts * np.einsum('kij,kji', dm_kpts[1], vhf_kpts[1]) * 0.5
  if abs(e_coul.imag > 1.e-10):
      raise RuntimeError("Coulomb energy has imaginary part, "
                         "something is wrong!", e_coul.imag)
  e1 = e1.real
  e_coul = e_coul.real
  return e1+e_coul, e_coul
  \<close>
  The three arguments are taken as given (the defaults that are fetched from the
  mean-field object when an argument is \<open>None\<close> are resolved by the caller), and the
  debug log line has no effect on the result.
\<close>

definition py_float_div :: "real \<Rightarrow> nat \<Rightarrow> py_error + complex" where
  "py_float_div x n = (if n = 0 then Inl ZeroDivisionError else Inr (of_real (x / real n)))"

text \<open>\<^verbatim>\<open>abs\<close> applied to a Boolean: \<open>True\<close> counts as 1 and \<open>False\<close> as 0.\<close>

definition abs_bool :: "bool \<Rightarrow> int" where
  "abs_bool b = \<bar>if b then 1 else 0\<bar>"

definition truthy :: "int \<Rightarrow> bool" where
  "truthy n = (n \<noteq> 0)"

definition bind_err :: "py_error + 'a \<Rightarrow> ('a \<Rightarrow> py_error + 'b) \<Rightarrow> py_error + 'b" where
  "bind_err m f = (case m of Inl e \<Rightarrow> Inl e | Inr x \<Rightarrow> f x)"

definition energy_elec ::
  "spin_arr \<Rightarrow> cmat list \<Rightarrow> spin_arr \<Rightarrow> py_error + real \<times> real" where
  "energy_elec dm_kpts h1e_kpts vhf_kpts =
     (let nkpts = length h1e_kpts in
      bind_err (py_float_div 1 nkpts) (\<lambda>w1.
      bind_err (einsum_kij_kji (fst dm_kpts) h1e_kpts) (\<lambda>t1.
      let e1 = w1 * t1 in
      bind_err (py_float_div 1 nkpts) (\<lambda>w2.
      bind_err (einsum_kij_kji (snd dm_kpts) h1e_kpts) (\<lambda>t2.
      let e1 = e1 + w2 * t2 in
      bind_err (py_float_div 1 nkpts) (\<lambda>w3.
      bind_err (einsum_kij_kji (fst dm_kpts) (fst vhf_kpts)) (\<lambda>t3.
      let e_coul = w3 * t3 * (1 / 2) in
      bind_err (py_float_div 1 nkpts) (\<lambda>w4.
      bind_err (einsum_kij_kji (snd dm_kpts) (snd vhf_kpts)) (\<lambda>t4.
      let e_coul = e_coul + w4 * t4 * (1 / 2) in
      if truthy (abs_bool (1 / 10 ^ 10 < Im e_coul))
      then Inl (RuntimeError (Im e_coul))
      else Inr (Re e1 + Re e_coul, Re e_coul))))))))))"

text \<open>
  The closed formulas of the energy, written with a matrix product and a trace:
  \<open>e1 = (1/nkpts) \<Sum>k [tr(D\<alpha>[k] H[k]) + tr(D\<beta>[k] H[k])]\<close> and
  \<open>e_coul = (1/nkpts) \<Sum>k [tr(D\<alpha>[k] V\<alpha>[k]) + tr(D\<beta>[k] V\<beta>[k])] / 2\<close>.
\<close>

definition mat_mul :: "cmat \<Rightarrow> cmat \<Rightarrow> cmat" where
  "mat_mul a b =
     map (\<lambda>i. map (\<lambda>l. \<Sum>j\<leftarrow>[0..<length b]. a ! i ! j * b ! j ! l) [0..<dim1 b]) [0..<length a]"

definition trace :: "cmat \<Rightarrow> complex" where
  "trace m = (\<Sum>i\<leftarrow>[0..<length m]. m ! i ! i)"

definition e1_formula :: "nat \<Rightarrow> spin_arr \<Rightarrow> cmat list \<Rightarrow> complex" where
  "e1_formula nkpts dm h =
     (1 / of_nat nkpts) *
     (\<Sum>k\<leftarrow>[0..<nkpts]. trace (mat_mul (fst dm ! k) (h ! k)) + trace (mat_mul (snd dm ! k) (h ! k)))"

definition e_coul_formula :: "nat \<Rightarrow> spin_arr \<Rightarrow> spin_arr \<Rightarrow> complex" where
  "e_coul_formula nkpts dm v =
     (1 / of_nat nkpts) *
     (\<Sum>k\<leftarrow>[0..<nkpts].
         trace (mat_mul (fst dm ! k) (fst v ! k)) + trace (mat_mul (snd dm ! k) (snd v ! k))) / 2"


section \<open>Occupation numbers\<close>

text \<open>Indexing a sequence the way Python does: a negative index counts from the end.\<close>

definition py_index :: "'a list \<Rightarrow> int \<Rightarrow> py_error + 'a" where
  "py_index xs i =
     (if 0 \<le> i \<and> i < int (length xs) then Inr (xs ! nat i)
      else if - int (length xs) \<le> i \<and> i < 0 then Inr (xs ! nat (int (length xs) + i))
      else Inl IndexError)"

text \<open>\<^verbatim>\<open>np.hstack\<close> of a sequence of one-dimensional arrays; an empty sequence is refused.\<close>

definition hstack :: "'a list list \<Rightarrow> py_error + 'a list" where
  "hstack xs = (if xs = [] then Inl ValueError else Inr (concat xs))"

text \<open>\<^verbatim>\<open>(mo_e <= fermi).astype(np.double)\<close>\<close>

definition le_mask :: "real \<Rightarrow> real list \<Rightarrow> real list" where
  "le_mask fermi mo_e = map (\<lambda>e. if e \<le> fermi then 1 else 0) mo_e"

text \<open>
  The arguments of the HOMO/LUMO log line are evaluated before the logger is called:
  \<^verbatim>\<open>mo_energy[nocc]\<close> is read when \<^verbatim>\<open>nocc < len(mo_energy)\<close>.
\<close>

definition homo_lumo_info :: "real list \<Rightarrow> int \<Rightarrow> py_error + unit" where
  "homo_lumo_info mo_energy nocc =
     (if nocc < int (length mo_energy)
      then bind_err (py_index mo_energy nocc) (\<lambda>_. Inr ())
      else Inr ())"

text \<open>
  One loop of the debug listing: for every k-point \<open>k\<close> of the mean-field object it reads
  \<^verbatim>\<open>mo_energy_kpts[s][k][mo_occ_kpts[s][k] > 0]\<close> (and the same with \<^verbatim>\<open>== 0\<close>), which
  needs an entry \<open>k\<close> in both lists. The occupations of a k-point have the length of its
  energies, so the mask always fits.
\<close>

definition debug_listing :: "nat \<Rightarrow> real list list \<Rightarrow> real list list \<Rightarrow> py_error + unit" where
  "debug_listing n mo_e mo_occ =
     (if n \<le> length mo_e \<and> n \<le> length mo_occ then Inr () else Inl IndexError)"

text \<open>
  \<^verbatim>\<open>
  nkpts = len(mo_energy_kpts[0])
  nocc_a = mf.nelec[0] * nkpts
  mo_energy = np.sort(np.hstack(mo_energy_kpts[0]))
  fermi_a = mo_energy[nocc_a-1]
  mo_occ_kpts = [[], []]
  for mo_e in mo_energy_kpts[0]:
      mo_occ_kpts[0].append((mo_e <= fermi_a).astype(np.double))
  ... (log HOMO/LUMO)
  if mf.nelec[1] > 0:
      nocc_b = mf.nelec[1] * nkpts
      mo_energy = np.sort(np.hstack(mo_energy_kpts[1]))
      fermi_b = mo_energy[nocc_b-1]
      for mo_e in mo_energy_kpts[1]:
          mo_occ_kpts[1].append((mo_e <= fermi_b).astype(np.double))
      ... (log HOMO/LUMO)
  if mf.verbose >= logger.DEBUG:
      ... (list alpha, then beta, energies per k-point of mf.kpts)
  return mo_occ_kpts
  \<close>
\<close>

definition occ_channel :: "int \<Rightarrow> int \<Rightarrow> real list list \<Rightarrow> py_error + real list list" where
  "occ_channel n nkpts mo_energy_kpts =
     (let nocc = n * nkpts in
      bind_err (hstack mo_energy_kpts) (\<lambda>pooled.
      let mo_energy = sort pooled in
      bind_err (py_index mo_energy (nocc - 1)) (\<lambda>fermi.
      let mo_occ = map (le_mask fermi) mo_energy_kpts in
      bind_err (homo_lumo_info mo_energy nocc) (\<lambda>_.
      Inr mo_occ))))"

definition get_occ ::
  "kuhf \<Rightarrow> real list list \<times> real list list \<Rightarrow> py_error + real list list \<times> real list list" where
  "get_occ mf mo_energy_kpts =
     (let nkpts = int (length (fst mo_energy_kpts)) in
      bind_err (occ_channel (fst (nelec mf)) nkpts (fst mo_energy_kpts)) (\<lambda>occ_a.
      bind_err (if snd (nelec mf) > 0
                then occ_channel (snd (nelec mf)) nkpts (snd mo_energy_kpts)
                else Inr []) (\<lambda>occ_b.
      bind_err (if verbose_debug mf
                then bind_err (debug_listing (length (kpts mf)) (fst mo_energy_kpts) occ_a) (\<lambda>_.
                     debug_listing (length (kpts mf)) (snd mo_energy_kpts) occ_b)
                else Inr ()) (\<lambda>_.
      Inr (occ_a, occ_b)))))"

text \<open>The Fermi level and the cutoff condition of the specification.\<close>

definition fermi_level :: "int \<Rightarrow> real list list \<Rightarrow> real" where
  "fermi_level n mo_energy_kpts =
     sort (concat mo_energy_kpts) ! nat (n * int (length mo_energy_kpts) - 1)"

definition no_tie_at_cutoff :: "int \<Rightarrow> real list list \<Rightarrow> bool" where
  "no_tie_at_cutoff n mo_energy_kpts =
     (let s = sort (concat mo_energy_kpts); nocc = nat (n * int (length mo_energy_kpts))
      in nocc < length s \<longrightarrow> s ! (nocc - 1) < s ! nocc)"

definition total_occ :: "real list list \<Rightarrow> real" where
  "total_occ mo_occ = sum_list (map sum_list mo_occ)"

section \<open>Density matrices\<close>

text \<open>
  Elementwise product of a matrix with a one-dimensional array, which numpy aligns with
  the last axis: lengths must agree unless one of them is 1, and an axis of length 1 is
  stretched.
\<close>

definition mul_last_axis :: "cmat \<Rightarrow> real list \<Rightarrow> py_error + cmat" where
  "mul_last_axis m v =
     (if length v = dim1 m then Inr (map (\<lambda>row. map2 (\<lambda>x w. x * of_real w) row v) m)
      else if length v = 1 then Inr (map (\<lambda>row. map (\<lambda>x. x * of_real (v ! 0)) row) m)
      else if dim1 m = 1 then Inr (map (\<lambda>row. map (\<lambda>w. row ! 0 * of_real w) v) m)
      else Inl ValueError)"

definition mat_T :: "cmat \<Rightarrow> cmat" where
  "mat_T m = map (\<lambda>j. map (\<lambda>i. m ! i ! j) [0..<length m]) [0..<dim1 m]"

definition mat_conj :: "cmat \<Rightarrow> cmat" where
  "mat_conj m = map (map cnj) m"

definition np_dot :: "cmat \<Rightarrow> cmat \<Rightarrow> py_error + cmat" where
  "np_dot a b = (if dim1 a = length b then Inr (mat_mul a b) else Inl ValueError)"

fun traverse :: "('a \<Rightarrow> py_error + 'b) \<Rightarrow> 'a list \<Rightarrow> py_error + 'b list" where
  "traverse f [] = Inr []"
| "traverse f (x # xs) =
     bind_err (f x) (\<lambda>y. bind_err (traverse f xs) (\<lambda>ys. Inr (y # ys)))"

text \<open>
  \<^verbatim>\<open>
  nkpts = len(mo_occ_kpts[0])
  nao, nmo = mo_coeff_kpts[0][0].shape
  def make_dm(mos, occs):
      return [np.dot(mos[k]*occs[k], mos[k].T.conj()) for k in range(nkpts)]
  dm_kpts =(make_dm(mo_coeff_kpts[0], mo_occ_kpts[0]) +
            make_dm(mo_coeff_kpts[1], mo_occ_kpts[1]))
  return lib.asarray(dm_kpts).reshape(2,nkpts,nao,nao)
  \<close>
  The final reshape succeeds when the \<open>2 * nkpts\<close> blocks are all \<open>nao \<times> nao\<close>; the
  first \<open>nkpts\<close> of them are then the alpha blocks.
\<close>

definition make_dm :: "nat \<Rightarrow> cmat list \<Rightarrow> real list list \<Rightarrow> py_error + cmat list" where
  "make_dm nkpts mos occs =
     traverse (\<lambda>k.
       bind_err (py_index mos (int k)) (\<lambda>mo.
       bind_err (py_index occs (int k)) (\<lambda>occ.
       bind_err (mul_last_axis mo occ) (\<lambda>scaled.
       np_dot scaled (mat_conj (mat_T mo)))))) [0..<nkpts]"

definition reshape_spin :: "cmat list \<Rightarrow> nat \<Rightarrow> nat \<Rightarrow> py_error + spin_arr" where
  "reshape_spin blocks nkpts nao =
     (if length blocks = 2 * nkpts \<and> list_all (is_mat nao nao) blocks
      then Inr (take nkpts blocks, drop nkpts blocks)
      else Inl ValueError)"

definition make_rdm1 ::
  "spin_arr \<Rightarrow> real list list \<times> real list list \<Rightarrow> py_error + spin_arr" where
  "make_rdm1 mo_coeff_kpts mo_occ_kpts =
     (let nkpts = length (fst mo_occ_kpts) in
      bind_err (py_index (fst mo_coeff_kpts) 0) (\<lambda>mo0.
      let nao = length mo0 in
      bind_err (make_dm nkpts (fst mo_coeff_kpts) (fst mo_occ_kpts)) (\<lambda>dm_a.
      bind_err (make_dm nkpts (snd mo_coeff_kpts) (snd mo_occ_kpts)) (\<lambda>dm_b.
      reshape_spin (dm_a @ dm_b) nkpts nao))))"

text \<open>
  The density of the specification, \<open>D = C \<cdot> diag(occ) \<cdot> C\<^sup>H\<close>, and Hermiticity.
\<close>

definition diag_mat :: "real list \<Rightarrow> cmat" where
  "diag_mat v =
     map (\<lambda>i. map (\<lambda>j. if i = j then of_real (v ! i) else 0) [0..<length v]) [0..<length v]"

definition conj_transpose :: "cmat \<Rightarrow> cmat" where
  "conj_transpose m = map (\<lambda>j. map (\<lambda>i. cnj (m ! i ! j)) [0..<length m]) [0..<dim1 m]"

definition density_formula :: "cmat \<Rightarrow> real list \<Rightarrow> cmat" where
  "density_formula c occ = mat_mul (mat_mul c (diag_mat occ)) (conj_transpose c)"

definition hermitian :: "cmat \<Rightarrow> bool" where
  "hermitian m = (m = conj_transpose m)"

section \<open>Fock matrix\<close>

text \<open>
  \<^verbatim>\<open>shifta, shiftb = level_shift_factor\<close> for a tuple, list or ndarray, and
  \<^verbatim>\<open>shifta = shiftb = level_shift_factor\<close> for a number. Unpacking needs exactly two
  entries.
\<close>

definition unpack_shift :: "level_shift_cfg \<Rightarrow> py_error + real \<times> real" where
  "unpack_shift c =
     (case c of
        LS_float x \<Rightarrow> Inr (x, x)
      | LS_seq xs \<Rightarrow> (if length xs = 2 then Inr (xs ! 0, xs ! 1) else Inl ValueError)
      | LS_ndarray xs \<Rightarrow> (if length xs = 2 then Inr (xs ! 0, xs ! 1) else Inl ValueError))"

text \<open>
  The test \<^verbatim>\<open>if abs(level_shift_factor) > 1e-4\<close>: \<^verbatim>\<open>abs\<close> is not defined on a tuple
  or a list (TypeError); on an ndarray it works entrywise, and the truth value of the
  resulting Boolean array is refused unless it has a single entry (ValueError).
\<close>

definition shift_exceeds :: "level_shift_cfg \<Rightarrow> py_error + bool" where
  "shift_exceeds c =
     (case c of
        LS_float x \<Rightarrow> Inr (1 / 10 ^ 4 < \<bar>x\<bar>)
      | LS_seq xs \<Rightarrow> Inl TypeError
      | LS_ndarray xs \<Rightarrow>
          (if length xs = 1 then Inr (1 / 10 ^ 4 < \<bar>xs ! 0\<bar>) else Inl ValueError))"

definition mat_add :: "cmat \<Rightarrow> cmat \<Rightarrow> cmat" where
  "mat_add a b = map2 (map2 (+)) a b"

text \<open>
  \<^verbatim>\<open>h1e_kpts + vhf_kpts\<close>: the core Hamiltonian \<open>(nkpts, nao, nao)\<close> is added to both
  spin components of the potential \<open>(2, nkpts, nao, nao)\<close>. Operands whose axes do not
  match are rejected (stretching of axes of length one is not modelled).
\<close>

definition same_shape3 :: "cmat list \<Rightarrow> cmat list \<Rightarrow> bool" where
  "same_shape3 a b = (is_arr3 (length a) (dim1 a) (dim2 a) a \<and> is_arr3 (length a) (dim1 a) (dim2 a) b)"

definition add_spin :: "cmat list \<Rightarrow> spin_arr \<Rightarrow> py_error + spin_arr" where
  "add_spin h v =
     (if same_shape3 h (fst v) \<and> same_shape3 h (snd v)
      then Inr (map2 mat_add h (fst v), map2 mat_add h (snd v))
      else Inl ValueError)"

text \<open>
  \<^verbatim>\<open>
  if isinstance(level_shift_factor, (tuple, list, np.ndarray)):
      shifta, shiftb = level_shift_factor
  else:
      shifta = shiftb = level_shift_factor
  f_kpts = h1e_kpts + vhf_kpts
  if diis and cycle >= diis_start_cycle:
      f_kpts = diis.update(s_kpts, dm_kpts, f_kpts, mf, h1e_kpts, vhf_kpts)
  if abs(level_shift_factor) > 1e-4:
      f_kpts =([mol_hf.level_shift(s, dm_kpts[0,k], f_kpts[0,k], shifta)
                for k, s in enumerate(s_kpts)],
               [mol_hf.level_shift(s, dm_kpts[1,k], f_kpts[1,k], shiftb)
                for k, s in enumerate(s_kpts)])
  return lib.asarray(f_kpts)
  \<close>
  The molecular level-shift routine and the extrapolator's \<^verbatim>\<open>update\<close> belong to other
  modules; they are the parameters \<open>lshift\<close> and \<open>diis\<close> (\<open>None\<close> when no extrapolator
  is passed). An argument left at \<open>None\<close> is read from the mean-field object.
\<close>

definition shift_spin ::
  "(cmat \<Rightarrow> cmat \<Rightarrow> cmat \<Rightarrow> real \<Rightarrow> cmat) \<Rightarrow> cmat list \<Rightarrow> cmat list \<Rightarrow> cmat list \<Rightarrow> real
     \<Rightarrow> py_error + cmat list" where
  "shift_spin lshift s_kpts dm f shift =
     traverse (\<lambda>k.
       bind_err (py_index dm (int k)) (\<lambda>d.
       bind_err (py_index f (int k)) (\<lambda>fk.
       Inr (lshift (s_kpts ! k) d fk shift)))) [0..<length s_kpts]"

definition get_fock ::
  "(cmat \<Rightarrow> cmat \<Rightarrow> cmat \<Rightarrow> real \<Rightarrow> cmat) \<Rightarrow> kuhf \<Rightarrow> cmat list \<Rightarrow> cmat list \<Rightarrow> spin_arr \<Rightarrow> spin_arr
     \<Rightarrow> int \<Rightarrow> (cmat list \<Rightarrow> spin_arr \<Rightarrow> spin_arr \<Rightarrow> cmat list \<Rightarrow> spin_arr \<Rightarrow> spin_arr) option
     \<Rightarrow> int option \<Rightarrow> level_shift_cfg option \<Rightarrow> real option \<Rightarrow> py_error + spin_arr" where
  "get_fock lshift mf h1e_kpts s_kpts vhf_kpts dm_kpts cycle diis start_opt shift_opt damp_opt =
     (let start = (case start_opt of None \<Rightarrow> diis_start_cycle mf | Some c \<Rightarrow> c);
          level_shift_factor = (case shift_opt of None \<Rightarrow> level_shift mf | Some c \<Rightarrow> c);
          damp_factor = (case damp_opt of None \<Rightarrow> damp mf | Some d \<Rightarrow> d)
      in
      bind_err (unpack_shift level_shift_factor) (\<lambda>(shifta, shiftb).
      bind_err (add_spin h1e_kpts vhf_kpts) (\<lambda>f0.
      let f_kpts = (case diis of
                      Some update \<Rightarrow>
                        if start \<le> cycle then update s_kpts dm_kpts f0 h1e_kpts vhf_kpts else f0
                    | None \<Rightarrow> f0)
      in
      bind_err (shift_exceeds level_shift_factor) (\<lambda>exceeds.
      if exceeds
      then bind_err (shift_spin lshift s_kpts (fst dm_kpts) (fst f_kpts) shifta) (\<lambda>fa.
           bind_err (shift_spin lshift s_kpts (snd dm_kpts) (snd f_kpts) shiftb) (\<lambda>fb.
           Inr (fa, fb)))
      else Inr f_kpts))))"

section \<open>Initial guess\<close>

text \<open>
  The arrays of this function carry their element type: an in-place product into a
  \<open>float64\<close> array with a \<open>complex128\<close> factor is refused by numpy (same-kind casting),
  which is a TypeError.
\<close>

text \<open>
  The cell is described elsewhere; the initial guess reads its number of atoms
  (\<^verbatim>\<open>getattr(cell, 'natm', 0)\<close>), its dimension and its electron counts. The
  molecular guesses \<^verbatim>\<open>self.init_guess_by_atom(cell)\<close> and
  \<^verbatim>\<open>self.init_guess_by_minao(cell)\<close> (each a pair of \<open>nao \<times> nao\<close> matrices, independent
  of the k-points), the checkpoint guess \<^verbatim>\<open>self.from_chk()\<close> and the overlap matrices
  \<^verbatim>\<open>self.get_ovlp(cell)\<close> come from other modules and are collected in \<open>guess_env\<close>.
  So does the outcome of \<^verbatim>\<open>mol_uhf.UHF.init_guess_by_1e(cell)\<close>: the method is taken
  from the class and called with the cell in the place of the mean-field object, and its
  outcome is a value or an exception.
\<close>

record cell =
  cell_natm :: nat
  cell_dimension :: int
  cell_nelec :: "int \<times> int"

record guess_env =
  mol_init_guess_by_1e :: "py_error + dtype \<times> (cmat \<times> cmat)"
  init_guess_by_atom :: "dtype \<times> (cmat \<times> cmat)"
  init_guess_by_minao :: "dtype \<times> (cmat \<times> cmat)"
  from_chk :: "py_error + dtype \<times> spin_arr"
  get_ovlp :: "dtype \<times> cmat list"

text \<open>
  What the function logs is recorded as a list of events, each with the argument of its
  message; how the text of a message is formatted is not modelled.
\<close>

datatype log_event =
    Info_no_atom
  | Warn_hcore_low_dim
  | Warn_chk_failed
  | Warn_nelec_error complex

text \<open>\<^verbatim>\<open>str.lower\<close> on the ASCII letters.\<close>

definition lower_char :: "char \<Rightarrow> char" where
  "lower_char c =
     (case map_of (zip ''ABCDEFGHIJKLMNOPQRSTUVWXYZ'' ''abcdefghijklmnopqrstuvwxyz'') c of
        Some d \<Rightarrow> d
      | None \<Rightarrow> c)"

definition lower :: "string \<Rightarrow> string" where
  "lower s = map lower_char s"

definition startswith :: "string \<Rightarrow> string \<Rightarrow> bool" where
  "startswith s p = (take (length p) s = p)"

text \<open>
  \<^verbatim>\<open>
  def init_guess_by_1e(self, cell=None):
      if cell is None: cell = self.cell
      if cell.dimension < 3:
          logger.warn(self, 'Hcore initial guess is not recommended in '
                      'the SCF of low-dimensional systems.')
      return mol_uhf.UHF.init_guess_by_1e(cell)
  \<close>
\<close>

definition init_guess_by_1e ::
  "guess_env \<Rightarrow> cell \<Rightarrow> py_error + log_event list \<times> dtype \<times> (cmat \<times> cmat)" where
  "init_guess_by_1e env c =
     bind_err (mol_init_guess_by_1e env) (\<lambda>dm.
     Inr ((if cell_dimension c < 3 then [Warn_hcore_low_dim] else []), dm))"

text \<open>
  The choice of the guess: either a k-point-independent pair \<open>dm\<close> (left) or a
  checkpoint density \<open>dm_kpts\<close> (right).
  \<^verbatim>\<open>
  dm_kpts = None
  if key.lower() == '1e':
      dm = self.init_guess_by_1e(cell)
  elif getattr(cell, 'natm', 0) == 0:
      logger.info(self, 'No atom found in cell. Use 1e initial guess')
      dm = self.init_guess_by_1e(cell)
  elif key.lower() == 'atom':
      dm = self.init_guess_by_atom(cell)
  elif key.lower().startswith('chk'):
      try:
          dm_kpts = self.from_chk()
      except (IOError, KeyError):
          logger.warn(self, 'Fail in reading %s. Use MINAO initial guess', self.chkfile)
          dm = self.init_guess_by_minao(cell)
  else:
      dm = self.init_guess_by_minao(cell)
  \<close>
\<close>

definition choose_guess ::
  "guess_env \<Rightarrow> cell \<Rightarrow> string
     \<Rightarrow> py_error + log_event list \<times> (dtype \<times> (cmat \<times> cmat) + dtype \<times> spin_arr)" where
  "choose_guess env c key =
     (if lower key = ''1e'' then
        bind_err (init_guess_by_1e env c) (\<lambda>(msgs, dm). Inr (msgs, Inl dm))
      else if cell_natm c = 0 then
        bind_err (init_guess_by_1e env c) (\<lambda>(msgs, dm). Inr (Info_no_atom # msgs, Inl dm))
      else if lower key = ''atom'' then Inr ([], Inl (init_guess_by_atom env))
      else if startswith (lower key) ''chk'' then
        (case from_chk env of
           Inr dm_kpts \<Rightarrow> Inr ([], Inr dm_kpts)
         | Inl IOError \<Rightarrow> Inr ([Warn_chk_failed], Inl (init_guess_by_minao env))
         | Inl KeyError \<Rightarrow> Inr ([Warn_chk_failed], Inl (init_guess_by_minao env))
         | Inl e \<Rightarrow> Inl e)
      else Inr ([], Inl (init_guess_by_minao env)))"

text \<open>
  \<^verbatim>\<open>
  nao = dm[0].shape[-1]
  nkpts = len(self.kpts)
  dm_kpts = lib.asarray([dm]*nkpts).reshape(nkpts,2,nao,nao)
  dm_kpts = dm_kpts.transpose(1,0,2,3)
  dm_kpts[0,:] *= 1.01
  dm_kpts[1,:] *= 0.99  # To break spin symmetry
  \<close>
  The reshape needs both matrices of the guess to be \<open>nao \<times> nao\<close>. The product with a
  real number keeps the element type.
\<close>

definition mat_scale :: "cmat \<Rightarrow> complex \<Rightarrow> cmat" where
  "mat_scale m c = map (map (\<lambda>x. x * c)) m"

definition spread_guess :: "nat \<Rightarrow> dtype \<times> (cmat \<times> cmat) \<Rightarrow> py_error + dtype \<times> spin_arr" where
  "spread_guess nkpts tdm =
     (let dm = snd tdm; nao = dim1 (fst dm) in
      if is_mat nao nao (fst dm) \<and> is_mat nao nao (snd dm)
      then let dm_kpts = (replicate nkpts (fst dm), replicate nkpts (snd dm)) in
           Inr (fst tdm,
                (map (\<lambda>m. mat_scale m (101 / 100)) (fst dm_kpts),
                 map (\<lambda>m. mat_scale m (99 / 100)) (snd dm_kpts)))
      else Inl ValueError)"

text \<open>
  \<^verbatim>\<open>np.einsum('xkij,kji->xk', dm_kpts, ovlp)\<close>: for each spin \<open>x\<close> and k-point \<open>k\<close>
  the sum over \<open>i\<close>, \<open>j\<close> of \<open>dm_kpts[x,k,i,j] * ovlp[k,j,i]\<close>.
\<close>

definition contract_ij_ji :: "cmat \<Rightarrow> cmat \<Rightarrow> complex" where
  "contract_ij_ji a b = (\<Sum>i\<leftarrow>[0..<length a]. \<Sum>j\<leftarrow>[0..<dim1 a]. a ! i ! j * b ! j ! i)"

definition einsum_xkij_kji :: "spin_arr \<Rightarrow> cmat list \<Rightarrow> py_error + complex list \<times> complex list" where
  "einsum_xkij_kji a b =
     (if length (fst a) = length b \<and> dim1 (fst a) = dim2 b \<and> dim2 (fst a) = dim1 b
         \<and> length (snd a) = length b \<and> dim1 (snd a) = dim2 b \<and> dim2 (snd a) = dim1 b
      then Inr (map (\<lambda>k. contract_ij_ji (fst a ! k) (b ! k)) [0..<length b],
                map (\<lambda>k. contract_ij_ji (snd a ! k) (b ! k)) [0..<length b])
      else Inl ValueError)"

text \<open>
  \<^verbatim>\<open>
  if cell.dimension < 3:
      ne = np.einsum('xkij,kji->xk', dm_kpts, self.get_ovlp(cell))
      nelec = np.asarray(cell.nelec).reshape(2,1)
      if np.any(abs(ne - nelec) > 1e-7):
          logger.warn(self, 'Big error detected in the electron number '
                      ..., ne.mean())
          dm_kpts *= (nelec/ne).reshape(2,-1,1,1)
  return dm_kpts
  \<close>
  The counts \<open>ne\<close> have the element type that the density and the overlap give together,
  and so has the factor \<open>nelec/ne\<close>. Dividing by a count of exactly zero does not raise:
  numpy warns and produces an infinite or undefined factor, and the product then holds
  entries that are not numbers. The arrays of the model hold numbers only, so that
  outcome is the separate value \<open>Non_finite_dm\<close>.
\<close>

datatype guess_dm = Finite_dm "dtype \<times> spin_arr" | Non_finite_dm

definition nelec_mismatch :: "complex list \<times> complex list \<Rightarrow> int \<times> int \<Rightarrow> bool" where
  "nelec_mismatch ne n =
     (list_ex (\<lambda>x. 1 / 10 ^ 7 < cmod (x - of_int (fst n))) (fst ne)
      \<or> list_ex (\<lambda>x. 1 / 10 ^ 7 < cmod (x - of_int (snd n))) (snd ne))"

definition ne_mean :: "complex list \<times> complex list \<Rightarrow> complex" where
  "ne_mean ne = (sum_list (fst ne) + sum_list (snd ne)) / of_nat (length (fst ne) + length (snd ne))"

definition rescale_values :: "int \<times> int \<Rightarrow> complex list \<times> complex list \<Rightarrow> spin_arr \<Rightarrow> spin_arr" where
  "rescale_values n ne dm_kpts =
     (map2 (\<lambda>m x. mat_scale m (of_int (fst n) / x)) (fst dm_kpts) (fst ne),
      map2 (\<lambda>m x. mat_scale m (of_int (snd n) / x)) (snd dm_kpts) (snd ne))"

definition rescale_nelec ::
  "int \<times> int \<Rightarrow> dtype \<times> (complex list \<times> complex list) \<Rightarrow> dtype \<times> spin_arr \<Rightarrow> py_error + guess_dm" where
  "rescale_nelec n tne tdm =
     (if fst tdm = Float64 \<and> fst tne = Complex128 then Inl TypeError
      else if list_ex (\<lambda>x. x = 0) (fst (snd tne)) \<or> list_ex (\<lambda>x. x = 0) (snd (snd tne))
      then Inr Non_finite_dm
      else Inr (Finite_dm (fst tdm, rescale_values n (snd tne) (snd tdm))))"

definition get_init_guess ::
  "guess_env \<Rightarrow> kuhf \<Rightarrow> cell \<Rightarrow> string \<Rightarrow> py_error + log_event list \<times> guess_dm" where
  "get_init_guess env mf c key =
     bind_err (choose_guess env c key) (\<lambda>(msgs, g).
     bind_err (case g of
                 Inl dm \<Rightarrow> spread_guess (length (kpts mf)) dm
               | Inr dm_kpts \<Rightarrow> Inr dm_kpts) (\<lambda>dm_kpts.
     if cell_dimension c < 3
     then bind_err (einsum_xkij_kji (snd dm_kpts) (snd (get_ovlp env))) (\<lambda>ne.
          if nelec_mismatch ne (cell_nelec c)
          then bind_err (rescale_nelec (cell_nelec c)
                           (result_type (fst dm_kpts) (fst (get_ovlp env)), ne) dm_kpts) (\<lambda>dm'.
               Inr (msgs @ [Warn_nelec_error (ne_mean ne)], dm'))
          else Inr (msgs, Finite_dm dm_kpts))
     else Inr (msgs, Finite_dm dm_kpts)))"

text \<open>The electron count of the specification, \<open>ne[s,k] = tr(dm[s,k] \<cdot> S[k])\<close>.\<close>

definition ne_formula :: "cmat list \<Rightarrow> cmat list \<Rightarrow> nat \<Rightarrow> complex" where
  "ne_formula dm s k = trace (mat_mul (dm ! k) (s ! k))"

section \<open>Initial guess from a checkpoint\<close>

text \<open>
  The checkpoint loader \<^verbatim>\<open>chkfile.load_scf\<close> and the orbital projector
  \<^verbatim>\<open>addons.project_mo_nr2nr\<close> belong to other modules. The loaded record is an input of
  the model: a dictionary whose entries \<open>'kpt'\<close>, \<open>'kpts'\<close>, \<open>'mo_coeff'\<close> and \<open>'mo_occ'\<close>
  may be present or not, with orbital arrays of two, three or four axes and occupation
  arrays of one, two or three. The projector is a parameter; the code calls it with one
  matrix and \<open>None\<close>, and with a list of matrices and a list of displacement vectors.
  K-points are rows of three numbers.
\<close>

datatype mo_data = Mo2 cmat | Mo3 "cmat list" | Mo4 "cmat list list"

datatype occ_data = Occ1 "real list" | Occ2 "real list list" | Occ3 "real list list list"

record scf_rec =
  rec_kpt :: "real list option"
  rec_kpts :: "real list list option"
  rec_mo_coeff :: "mo_data option"
  rec_mo_occ :: "occ_data option"

record projector =
  project_single :: "cmat \<Rightarrow> cmat"
  project_list :: "cmat list \<Rightarrow> real list list \<Rightarrow> cmat list"

definition getitem :: "'a option \<Rightarrow> py_error + 'a" where
  "getitem v = (case v of None \<Rightarrow> Inl KeyError | Some x \<Rightarrow> Inr x)"

text \<open>\<^verbatim>\<open>scf_rec['kpt'].reshape(-1,3)\<close>\<close>

fun reshape_rows3 :: "real list \<Rightarrow> py_error + real list list" where
  "reshape_rows3 [] = Inr []"
| "reshape_rows3 (a # b # c # r) = bind_err (reshape_rows3 r) (\<lambda>rows. Inr ([a, b, c] # rows))"
| "reshape_rows3 _ = Inl ValueError"

text \<open>
  \<^verbatim>\<open>np.allclose(a, b)\<close> with the default tolerances: every entry satisfies
  \<open>|a - b| \<le> 1e-8 + 1e-5 * |b|\<close>.
\<close>

definition isclose :: "real \<Rightarrow> real \<Rightarrow> bool" where
  "isclose a b = (\<bar>a - b\<bar> \<le> 1 / 10 ^ 8 + 1 / 10 ^ 5 * \<bar>b\<bar>)"

definition allclose :: "real list list \<Rightarrow> real list list \<Rightarrow> bool" where
  "allclose a b = list_all2 (list_all2 isclose) a b"

definition allclose_zero :: "real list list \<Rightarrow> bool" where
  "allclose_zero a = list_all (list_all (\<lambda>x. isclose x 0)) a"

definition same_shape2 :: "real list list \<Rightarrow> real list list \<Rightarrow> bool" where
  "same_shape2 a b = (length a = length b \<and> dim1 a = dim1 b)"

text \<open>
  The arrays of a checkpoint without a \<open>'kpts'\<close> entry get a leading k-point axis of
  length one:
  \<^verbatim>\<open>
  if mo.ndim == 2:
      mo = np.expand_dims(mo, axis=0)
      mo_occ = np.expand_dims(mo_occ, axis=0)
  else:  # UHF
      mo = [np.expand_dims(mo[0], axis=0), np.expand_dims(mo[1], axis=0)]
      mo_occ = [np.expand_dims(mo_occ[0], axis=0), np.expand_dims(mo_occ[1], axis=0)]
  \<close>
  A record whose arrays have the number of axes of none of the four kinds of calculation
  (RHF, UHF, KRHF, KUHF) is outside the model; it is answered with \<open>out_of_model\<close>.
\<close>

definition out_of_model :: "py_error + 'a" where
  "out_of_model = Inl ValueError"

definition expand_single :: "mo_data \<Rightarrow> occ_data \<Rightarrow> py_error + mo_data \<times> occ_data" where
  "expand_single mo mo_occ =
     (case mo of
        Mo2 m \<Rightarrow> (case mo_occ of Occ1 v \<Rightarrow> Inr (Mo3 [m], Occ2 [v]) | _ \<Rightarrow> out_of_model)
      | Mo3 ms \<Rightarrow>
          (case mo_occ of
             Occ2 vs \<Rightarrow>
               bind_err (py_index ms 0) (\<lambda>m0.
               bind_err (py_index ms 1) (\<lambda>m1.
               bind_err (py_index vs 0) (\<lambda>v0.
               bind_err (py_index vs 1) (\<lambda>v1.
               Inr (Mo4 [[m0], [m1]], Occ3 [[v0], [v1]])))))
           | _ \<Rightarrow> out_of_model)
      | Mo4 _ \<Rightarrow> out_of_model)"

text \<open>Unpacking a sequence into two names needs exactly two entries.\<close>

definition unpack2 :: "'a list \<Rightarrow> py_error + 'a \<times> 'a" where
  "unpack2 xs = (if length xs = 2 then Inr (xs ! 0, xs ! 1) else Inl ValueError)"

definition index01 :: "'a list \<Rightarrow> py_error + 'a \<times> 'a" where
  "index01 xs = bind_err (py_index xs 0) (\<lambda>a. bind_err (py_index xs 1) (\<lambda>b. Inr (a, b)))"

text \<open>
  The density builder of a matching mesh:
  \<^verbatim>\<open>
  def makedm(mos, occs):
      moa, mob = mos
      mos =([fproj(mo, None) for mo in moa],
            [fproj(mo, None) for mo in mob])
      return make_rdm1(mos, occs)
  \<close>
\<close>

definition makedm_same_mesh ::
  "projector \<Rightarrow> bool \<Rightarrow> cmat list list \<Rightarrow> real list list list \<Rightarrow> py_error + spin_arr" where
  "makedm_same_mesh P project mos occs =
     bind_err (unpack2 mos) (\<lambda>(moa, mob).
     let fproj = (\<lambda>mo. if project then project_single P mo else mo) in
     bind_err (index01 occs) (\<lambda>occ_pair.
     make_rdm1 (map fproj moa, map fproj mob) occ_pair))"

text \<open>
  The density builder of a different mesh:
  \<^verbatim>\<open>
  def makedm(mos, occs):
      where = [np.argmin(lib.norm(chk_kpts-kpt, axis=1)) for kpt in kpts]
      moa, mob = mos
      occa, occb = occs
      dkpts = [chk_kpts[w]-kpts[i] for i,w in enumerate(where)]
      mos = (fproj([moa[w] for w in where], dkpts),
             fproj([mob[w] for w in where], dkpts))
      occs = ([occa[i] for i in where], [occb[i] for i in where])
      return make_rdm1(mos, occs)
  \<close>
  \<^verbatim>\<open>np.argmin\<close> returns the first position of the least entry and refuses an empty array.
  The target k-points \<^verbatim>\<open>kpts\<close> of the enclosing function are the argument
  \<open>target_kpts\<close>.
\<close>

definition vec_sub :: "real list \<Rightarrow> real list \<Rightarrow> real list" where
  "vec_sub a b = map2 (-) a b"

definition lib_norm :: "real list \<Rightarrow> real" where
  "lib_norm v = sqrt (\<Sum>x\<leftarrow>v. x * x)"

fun argmin_from :: "nat \<Rightarrow> real \<Rightarrow> nat \<Rightarrow> real list \<Rightarrow> nat" where
  "argmin_from best v i [] = best"
| "argmin_from best v i (x # xs) =
     (if x < v then argmin_from i x (Suc i) xs else argmin_from best v (Suc i) xs)"

definition argmin :: "real list \<Rightarrow> py_error + nat" where
  "argmin xs = (case xs of [] \<Rightarrow> Inl ValueError | x # rest \<Rightarrow> Inr (argmin_from 0 x 1 rest))"

definition nearest :: "real list list \<Rightarrow> real list \<Rightarrow> py_error + nat" where
  "nearest chk_kpts kpt = argmin (map (\<lambda>c. lib_norm (vec_sub c kpt)) chk_kpts)"

definition makedm_other_mesh ::
  "projector \<Rightarrow> bool \<Rightarrow> real list list \<Rightarrow> real list list \<Rightarrow> cmat list list \<Rightarrow> real list list list
     \<Rightarrow> py_error + spin_arr" where
  "makedm_other_mesh P project chk_kpts target_kpts mos occs =
     bind_err (traverse (nearest chk_kpts) target_kpts) (\<lambda>where.
     bind_err (unpack2 mos) (\<lambda>(moa, mob).
     bind_err (unpack2 occs) (\<lambda>(occa, occb).
     bind_err (traverse (\<lambda>(i, w). bind_err (py_index chk_kpts (int w)) (\<lambda>c. Inr (vec_sub c (target_kpts ! i))))
                 (enumerate 0 where)) (\<lambda>dkpts.
     let fproj = (\<lambda>ms. if project then project_list P ms dkpts else ms) in
     bind_err (traverse (\<lambda>w. py_index moa (int w)) where) (\<lambda>sel_a.
     bind_err (traverse (\<lambda>w. py_index mob (int w)) where) (\<lambda>sel_b.
     bind_err (traverse (\<lambda>i. py_index occa (int i)) where) (\<lambda>occ_a.
     bind_err (traverse (\<lambda>i. py_index occb (int i)) where) (\<lambda>occ_b.
     make_rdm1 (fproj sel_a, fproj sel_b) (occ_a, occ_b)))))))))"

text \<open>
  The occupations of a restricted checkpoint are split into two spins:
  \<^verbatim>\<open>
  mo_occa = [(occ>1e-8).astype(np.double) for occ in mo_occ]
  mo_occb = [occ-mo_occa[k] for k,occ in enumerate(mo_occ)]
  \<close>
\<close>

definition gt_mask :: "real list \<Rightarrow> real list" where
  "gt_mask occ = map (\<lambda>x. if 1 / 10 ^ 8 < x then 1 else 0) occ"

definition split_occ :: "real list list \<Rightarrow> real list list \<times> real list list" where
  "split_occ mo_occ =
     (let mo_occa = map gt_mask mo_occ in (mo_occa, map2 vec_sub mo_occ mo_occa))"

text \<open>
  The target k-points and the k-points of the checkpoint:
  \<^verbatim>\<open>
  if kpts is None:
      kpts = scf_rec['kpts']
  if 'kpt' in scf_rec:
      chk_kpts = scf_rec['kpt'].reshape(-1,3)
  elif 'kpts' in scf_rec:
      chk_kpts = scf_rec['kpts']
  else:
      chk_kpts = np.zeros((1,3))
  \<close>
\<close>

definition target_kpts :: "scf_rec \<Rightarrow> real list list option \<Rightarrow> py_error + real list list" where
  "target_kpts r kpts_arg = (case kpts_arg of None \<Rightarrow> getitem (rec_kpts r) | Some k \<Rightarrow> Inr k)"

definition chk_kpts_of :: "scf_rec \<Rightarrow> py_error + real list list" where
  "chk_kpts_of r =
     (case rec_kpt r of
        Some v \<Rightarrow> reshape_rows3 v
      | None \<Rightarrow> (case rec_kpts r of Some ks \<Rightarrow> Inr ks | None \<Rightarrow> Inr [[0, 0, 0]]))"

text \<open>
  The orbitals and occupations handed to the density builder, one entry per spin:
  \<^verbatim>\<open>
  mo = scf_rec['mo_coeff']
  mo_occ = scf_rec['mo_occ']
  if 'kpts' not in scf_rec:  # gamma point or single k-point
      ...
  if hasattr(mo[0], 'ndim') and mo[0].ndim == 2:  # KRHF
      mo_occa = [(occ>1e-8).astype(np.double) for occ in mo_occ]
      mo_occb = [occ-mo_occa[k] for k,occ in enumerate(mo_occ)]
      dm = makedm((mo, mo), (mo_occa, mo_occb))
  else:  # KUHF
      dm = makedm(mo, mo_occ)
  \<close>
\<close>

definition chk_orbitals :: "scf_rec \<Rightarrow> py_error + cmat list list \<times> real list list list" where
  "chk_orbitals r =
     bind_err (getitem (rec_mo_coeff r)) (\<lambda>mo0.
     bind_err (getitem (rec_mo_occ r)) (\<lambda>mo_occ0.
     bind_err (if rec_kpts r = None then expand_single mo0 mo_occ0 else Inr (mo0, mo_occ0)) (\<lambda>(mo, mo_occ).
     case mo of
       Mo3 ms \<Rightarrow>
         (if ms = [] then Inl IndexError
          else case mo_occ of
                 Occ2 vs \<Rightarrow>
                   (case split_occ vs of (mo_occa, mo_occb) \<Rightarrow> Inr ([ms, ms], [mo_occa, mo_occb]))
               | _ \<Rightarrow> out_of_model)
     | Mo4 mss \<Rightarrow>
         (if mss = [] then Inl IndexError
          else case mo_occ of Occ3 vss \<Rightarrow> Inr (mss, vss) | _ \<Rightarrow> out_of_model)
     | Mo2 _ \<Rightarrow> out_of_model)))"

text \<open>
  Everything up to the last test: the target k-points and the density before it is
  (possibly) made real. The builder is chosen by
  \<^verbatim>\<open>if kpts.shape == chk_kpts.shape and np.allclose(kpts, chk_kpts)\<close>.
\<close>

definition chk_density ::
  "projector \<Rightarrow> bool \<Rightarrow> scf_rec \<Rightarrow> real list list option \<Rightarrow> py_error + real list list \<times> spin_arr" where
  "chk_density P project r kpts_arg =
     bind_err (target_kpts r kpts_arg) (\<lambda>kpts.
     bind_err (chk_kpts_of r) (\<lambda>chk_kpts.
     bind_err (chk_orbitals r) (\<lambda>(mos, occs).
     let makedm = (if same_shape2 kpts chk_kpts \<and> allclose kpts chk_kpts
                   then makedm_same_mesh P project
                   else makedm_other_mesh P project chk_kpts kpts) in
     bind_err (makedm mos occs) (\<lambda>dm.
     Inr (kpts, dm)))))"

text \<open>
  \<^verbatim>\<open>
  # Real DM for gamma point
  if np.allclose(kpts, 0):
      dm = dm.real
  return dm
  \<close>
\<close>

definition mat_real :: "cmat \<Rightarrow> cmat" where
  "mat_real m = map (map (\<lambda>x. of_real (Re x))) m"

definition dm_real :: "spin_arr \<Rightarrow> spin_arr" where
  "dm_real dm = (map mat_real (fst dm), map mat_real (snd dm))"

definition init_guess_by_chkfile ::
  "projector \<Rightarrow> bool \<Rightarrow> scf_rec \<Rightarrow> real list list option \<Rightarrow> py_error + spin_arr" where
  "init_guess_by_chkfile P project r kpts_arg =
     bind_err (chk_density P project r kpts_arg) (\<lambda>(kpts, dm).
     Inr (if allclose_zero kpts then dm_real dm else dm))"

text \<open>A density all of whose entries have imaginary part zero.\<close>

definition purely_real :: "spin_arr \<Rightarrow> bool" where
  "purely_real dm =
     (list_all (list_all (list_all (\<lambda>z. Im z = 0))) (fst dm)
      \<and> list_all (list_all (list_all (\<lambda>z. Im z = 0))) (snd dm))"

text \<open>The Euclidean distance between two k-points.\<close>

definition kdist :: "real list \<Rightarrow> real list \<Rightarrow> real" where
  "kdist a b = sqrt (\<Sum>x\<leftarrow>map2 (-) a b. x * x)"

text \<open>
  Position \<open>w\<close> holds the first checkpoint k-point of least Euclidean distance to the
  target k-point: no checkpoint k-point is nearer, and every earlier one is farther.
\<close>

definition first_nearest :: "real list list \<Rightarrow> real list \<Rightarrow> nat \<Rightarrow> bool" where
  "first_nearest chk_kpts kpt w =
     (w < length chk_kpts
      \<and> (\<forall>j<length chk_kpts. kdist (chk_kpts ! w) kpt \<le> kdist (chk_kpts ! j) kpt)
      \<and> (\<forall>j<w. kdist (chk_kpts ! w) kpt < kdist (chk_kpts ! j) kpt))"

section \<open>Canonicalization\<close>

text \<open>
  Indexing with a Boolean mask. \<^verbatim>\<open>m[:,idx]\<close> keeps the columns whose mask entry is true;
  \<^verbatim>\<open>es[idx] = e\<close> and \<^verbatim>\<open>cs[:,idx] = x\<close> write the given values, in order, to the
  positions whose mask entry is true. The mask must have the length of the indexed axis
  and the number of values must be the number of true entries.
\<close>

definition select :: "bool list \<Rightarrow> 'a list \<Rightarrow> 'a list" where
  "select idx xs = map snd (filter fst (zip idx xs))"

definition select_cols :: "bool list \<Rightarrow> cmat \<Rightarrow> py_error + cmat" where
  "select_cols idx m =
     (if length idx = dim1 m then Inr (map (select idx) m) else Inl IndexError)"

fun scatter :: "bool list \<Rightarrow> 'a list \<Rightarrow> 'a list \<Rightarrow> 'a list" where
  "scatter (True # bs) (v # vs) (x # xs) = v # scatter bs vs xs"
| "scatter (False # bs) vs (x # xs) = x # scatter bs vs xs"
| "scatter _ _ xs = xs"

definition count_nonzero :: "bool list \<Rightarrow> nat" where
  "count_nonzero idx = length (filter id idx)"

definition assign_mask :: "bool list \<Rightarrow> 'a list \<Rightarrow> 'a list \<Rightarrow> py_error + 'a list" where
  "assign_mask idx vs xs =
     (if length idx \<noteq> length xs then Inl IndexError
      else if length vs \<noteq> count_nonzero idx then Inl ValueError
      else Inr (scatter idx vs xs))"

definition assign_cols :: "bool list \<Rightarrow> cmat \<Rightarrow> cmat \<Rightarrow> py_error + cmat" where
  "assign_cols idx vs m =
     (if length idx \<noteq> dim1 m then Inl IndexError
      else if length vs \<noteq> length m \<or> dim1 vs \<noteq> count_nonzero idx then Inl ValueError
      else Inr (map2 (scatter idx) vs m))"

text \<open>
  \<^verbatim>\<open>
  def eig_(fock, mo_coeff_kpts, idx, es, cs):
      if np.count_nonzero(idx) > 0:
          orb = mo_coeff_kpts[:,idx]
          f1 = reduce(np.dot, (orb.T.conj(), fock, orb))
          e, c = scipy.linalg.eigh(f1)
          es[idx] = e
          cs[:,idx] = np.dot(orb, c)
  \<close>
  The local function \<^verbatim>\<open>eig_\<close> is \<open>eig_sub\<close> here (a name cannot end in an underscore).
  The eigensolver of the linear-algebra library is the parameter \<open>eigh\<close>. The arrays
  \<open>es\<close> and \<open>cs\<close> are updated in place; the model returns the updated pair. The
  assignment \<^verbatim>\<open>cs[:,idx] = np.dot(orb, c)\<close> stores the product with the element type
  \<open>d\<close> of \<open>cs\<close>.
\<close>

definition eig_sub ::
  "(cmat \<Rightarrow> real list \<times> cmat) \<Rightarrow> dtype \<Rightarrow> cmat \<Rightarrow> cmat \<Rightarrow> bool list \<Rightarrow> real list \<times> cmat
     \<Rightarrow> py_error + real list \<times> cmat" where
  "eig_sub eigh d fock mo idx st =
     (if 0 < count_nonzero idx then
        bind_err (select_cols idx mo) (\<lambda>orb.
        bind_err (np_dot (mat_conj (mat_T orb)) fock) (\<lambda>t.
        bind_err (np_dot t orb) (\<lambda>f1.
        case eigh f1 of (e, c) \<Rightarrow>
        bind_err (assign_mask idx e (fst st)) (\<lambda>es.
        bind_err (np_dot orb c) (\<lambda>oc.
        bind_err (assign_cols idx (astype d oc) (snd st)) (\<lambda>cs.
        Inr (es, cs)))))))
      else Inr st)"

text \<open>
  One spin channel of the loop:
  \<^verbatim>\<open>
  for k, mo in enumerate(mo_coeff_kpts[0]):
      mo1 = np.empty_like(mo)
      mo_e = np.empty_like(mo_occ_kpts[0][k])
      occidxa = mo_occ_kpts[0][k] == 1
      viridxa = ~occidxa
      eig_(fock[0][k], mo, occidxa, mo_e, mo1)
      eig_(fock[0][k], mo, viridxa, mo_e, mo1)
      mo_coeff[0].append(mo1)
      mo_energy[0].append(mo_e)
  \<close>
  The fresh arrays are not initialised by numpy; the model fills them with zeros, and
  every entry is overwritten by one of the two calls. \<^verbatim>\<open>np.empty_like(mo)\<close> has the
  element type \<open>d\<close> of the coefficients \<open>mo\<close>, whatever the element type of the Fock
  matrix.
\<close>

definition canonicalize_block ::
  "(cmat \<Rightarrow> real list \<times> cmat) \<Rightarrow> dtype \<Rightarrow> cmat \<Rightarrow> cmat \<Rightarrow> real list
     \<Rightarrow> py_error + real list \<times> cmat" where
  "canonicalize_block eigh d fock mo occ =
     (let mo1 = map (map (\<lambda>_. 0)) mo;
          mo_e = map (\<lambda>_. 0) occ;
          occidx = map (\<lambda>x. x = 1) occ;
          viridx = map Not occidx
      in bind_err (eig_sub eigh d fock mo occidx (mo_e, mo1)) (\<lambda>st.
         eig_sub eigh d fock mo viridx st))"

definition canonicalize_spin ::
  "(cmat \<Rightarrow> real list \<times> cmat) \<Rightarrow> dtype \<Rightarrow> cmat list \<Rightarrow> real list list \<Rightarrow> cmat list
     \<Rightarrow> py_error + (real list \<times> cmat) list" where
  "canonicalize_spin eigh d mos occs focks =
     traverse (\<lambda>(k, mo).
       bind_err (py_index occs (int k)) (\<lambda>occ.
       bind_err (py_index focks (int k)) (\<lambda>fock.
       canonicalize_block eigh d fock mo occ))) (enumerate 0 mos)"

text \<open>
  \<^verbatim>\<open>
  def canonicalize(mf, mo_coeff_kpts, mo_occ_kpts, fock=None):
      if fock is None:
          dm = mf.make_rdm1(mo_coeff_kpts, mo_occ_kpts)
          fock = mf.get_hcore() + mf.get_jk(mf.cell, dm)
      ...
      return mo_energy, mo_coeff
  \<close>
  The Fock matrix that is built from the core Hamiltonian and the Coulomb and exchange
  service when none is passed is the parameter \<open>build_fock\<close>. The coefficients are one
  array (\<^verbatim>\<open>np.asarray(mo_coeff_kpts)\<close>) with one element type \<open>d\<close>, which every returned
  coefficient matrix has too.
\<close>

definition canonicalize ::
  "(cmat \<Rightarrow> real list \<times> cmat) \<Rightarrow> (spin_arr \<Rightarrow> spin_arr) \<Rightarrow> dtype \<times> spin_arr
     \<Rightarrow> real list list \<times> real list list \<Rightarrow> spin_arr option
     \<Rightarrow> py_error + (real list list \<times> real list list) \<times> dtype \<times> spin_arr" where
  "canonicalize eigh build_fock mo_coeff_kpts mo_occ_kpts fock_arg =
     (let d = fst mo_coeff_kpts; mo = snd mo_coeff_kpts in
      bind_err (case fock_arg of
                  Some f \<Rightarrow> Inr f
                | None \<Rightarrow> bind_err (make_rdm1 mo mo_occ_kpts) (\<lambda>dm. Inr (build_fock dm))) (\<lambda>fock.
      bind_err (canonicalize_spin eigh d (fst mo) (fst mo_occ_kpts) (fst fock)) (\<lambda>ra.
      bind_err (canonicalize_spin eigh d (snd mo) (snd mo_occ_kpts) (snd fock)) (\<lambda>rb.
      Inr ((map fst ra, map fst rb), d, (map snd ra, map snd rb))))))"

text \<open>
  What is assumed of the eigensolver: for a Hermitian \<open>n \<times> n\<close> matrix it returns \<open>n\<close>
  eigenvalues and an \<open>n \<times> n\<close> unitary matrix of eigenvectors.
\<close>

definition mat_id :: "nat \<Rightarrow> cmat" where
  "mat_id n = map (\<lambda>i. map (\<lambda>j. if i = j then 1 else 0) [0..<n]) [0..<n]"

definition unitary :: "nat \<Rightarrow> cmat \<Rightarrow> bool" where
  "unitary n c =
     (is_mat n n c \<and> mat_mul c (conj_transpose c) = mat_id n
      \<and> mat_mul (conj_transpose c) c = mat_id n)"

definition eigh_unitary :: "(cmat \<Rightarrow> real list \<times> cmat) \<Rightarrow> bool" where
  "eigh_unitary eigh =
     (\<forall>n m. 0 < n \<and> is_mat n n m \<and> hermitian m \<longrightarrow>
        length (fst (eigh m)) = n \<and> unitary n (snd (eigh m)))"

text \<open>
  A set of columns (given by a mask) of \<open>c\<close> is a unitary rotation of the same columns
  of \<open>mo\<close>: no other column contributes to them.
\<close>

definition rotated_within :: "bool list \<Rightarrow> cmat \<Rightarrow> cmat \<Rightarrow> bool" where
  "rotated_within idx mo c =
     (if count_nonzero idx = 0 then True
      else \<exists>U. unitary (count_nonzero idx) U
                \<and> map (select idx) c = mat_mul (map (select idx) mo) U)"

text \<open>Auxiliary notions for the proofs: a row times a matrix, and the product of a row
  with the conjugate of another.\<close>

definition row_times :: "complex list \<Rightarrow> cmat \<Rightarrow> complex list" where
  "row_times r b = map (\<lambda>l. \<Sum>j\<leftarrow>[0..<length b]. r ! j * b ! j ! l) [0..<dim1 b]"

definition row_dotc :: "complex list \<Rightarrow> complex list \<Rightarrow> complex" where
  "row_dotc a b = sum_list (map2 (\<lambda>x y. x * cnj y) a b)"

text \<open>
  An array whose entries are real numbers, and an eigensolver that returns real
  eigenvectors for such a matrix (as the library does for a \<open>float64\<close> argument).
\<close>

definition real_mat :: "cmat \<Rightarrow> bool" where
  "real_mat m = list_all (list_all (\<lambda>x. Im x = 0)) m"

definition eigh_real :: "(cmat \<Rightarrow> real list \<times> cmat) \<Rightarrow> bool" where
  "eigh_real eigh = (\<forall>m. real_mat m \<longrightarrow> real_mat (snd (eigh m)))"

text \<open>
  A concrete eigensolver for the examples. The Hermitian matrix \<open>fock_2x2\<close> has the
  eigenvalues 0 and 25 with the eigenvectors \<open>(3, 4i)/5\<close> and \<open>(4i, 3)/5\<close>, each fixed up
  to a complex factor \<open>p\<close>, \<open>q\<close> of modulus one. For this matrix \<open>eigh_2x2 p q\<close> returns
  them; for another matrix it returns the diagonal and the identity (an
  eigendecomposition when the matrix is diagonal).
\<close>

definition fock_2x2 :: cmat where
  "fock_2x2 = [[16, 12 * \<i>], [- (12 * \<i>), 9]]"

definition eigh_2x2 :: "complex \<Rightarrow> complex \<Rightarrow> cmat \<Rightarrow> real list \<times> cmat" where
  "eigh_2x2 p q m =
     (if m = fock_2x2
      then ([0, 25], [[3 / 5 * p, 4 / 5 * \<i> * q], [4 / 5 * \<i> * p, 3 / 5 * q]])
      else (map (\<lambda>i. Re (m ! i ! i)) [0..<length m], mat_id (length m)))"


section \<open>Properties of the array operations\<close>


lemma is_mat_nth: "is_mat r c m \<Longrightarrow> i < r \<Longrightarrow> length (m ! i) = c"
  by (simp add: is_mat_def list_all_length)

lemma is_mat_dim1: "is_mat r c m \<Longrightarrow> 0 < r \<Longrightarrow> dim1 m = c"
  by (cases m) (auto simp: is_mat_def dim1_def)

lemma is_mat_square_dim1: "is_mat n n m \<Longrightarrow> dim1 m = n"
  by (cases m) (auto simp: is_mat_def dim1_def)

lemma sum_list_map_cong:
  fixes f g :: "'a \<Rightarrow> 'b::monoid_add"
  shows "(\<And>x. x \<in> set xs \<Longrightarrow> f x = g x) \<Longrightarrow> sum_list (map f xs) = sum_list (map g xs)"
  by (simp cong: map_cong)

lemma trace_mat_mul:
  assumes "is_mat n n a" "is_mat n n b"
  shows "trace (mat_mul a b) = (\<Sum>i\<leftarrow>[0..<n]. \<Sum>j\<leftarrow>[0..<n]. a ! i ! j * b ! j ! i)"
proof -
  have la: "length a = n" and lb: "length b = n" using assms by (simp_all add: is_mat_def)
  have db: "dim1 b = n" using assms(2) by (rule is_mat_square_dim1)
  show ?thesis
  proof -
    have "\<And>i. i \<in> set [0..<n] \<Longrightarrow>
            mat_mul a b ! i ! i = (\<Sum>j\<leftarrow>[0..<n]. a ! i ! j * b ! j ! i)"
      by (simp add: mat_mul_def la lb db)
    then have "(\<Sum>i\<leftarrow>[0..<n]. mat_mul a b ! i ! i)
             = (\<Sum>i\<leftarrow>[0..<n]. \<Sum>j\<leftarrow>[0..<n]. a ! i ! j * b ! j ! i)"
      by (rule sum_list_map_cong)
    moreover have "length (mat_mul a b) = n" by (simp add: mat_mul_def la)
    ultimately show ?thesis by (simp add: trace_def)
  qed
qed

lemma is_arr3_nth: "is_arr3 k r c a \<Longrightarrow> i < k \<Longrightarrow> is_mat r c (a ! i)"
  by (simp add: is_arr3_def list_all_length)

lemma is_arr3_dims:
  "is_arr3 k n n a \<Longrightarrow> 0 < k \<Longrightarrow> length a = k \<and> dim1 a = n \<and> dim2 a = n"
  by (cases a) (auto simp: is_arr3_def dim1_def dim2_def is_mat_def split: list.splits)

lemma einsum_trace:
  assumes "is_arr3 k n n a" "is_arr3 k n n b"
  shows "einsum_kij_kji a b = Inr (\<Sum>x\<leftarrow>[0..<k]. trace (mat_mul (a ! x) (b ! x)))"
proof -
  have "(\<Sum>x\<leftarrow>[0..<k]. \<Sum>i\<leftarrow>[0..<n]. \<Sum>j\<leftarrow>[0..<n]. a ! x ! i ! j * b ! x ! j ! i)
      = (\<Sum>x\<leftarrow>[0..<k]. trace (mat_mul (a ! x) (b ! x)))"
    by (rule sum_list_map_cong)
       (simp add: trace_mat_mul [OF is_arr3_nth [OF assms(1)] is_arr3_nth [OF assms(2)]])
  then show ?thesis
  proof (cases "k = 0")
    case True
    with assms show ?thesis
      by (simp add: einsum_kij_kji_def is_arr3_def dim1_def dim2_def)
  next
    case False
    with \<open>_ = _\<close> is_arr3_dims [OF assms(1)] is_arr3_dims [OF assms(2)]
    show ?thesis by (simp add: einsum_kij_kji_def)
  qed
qed

subsection \<open>Electronic energy\<close>

text \<open>
  With \<open>nkpts\<close> stacks of \<open>nao \<times> nao\<close> matrices on every argument, the contraction
  \<^verbatim>\<open>'kij,kji'\<close> is the sum of the traces of the per-k-point products, and the code
  raises exactly when the imaginary part of the Coulomb energy is above \<open>1e-10\<close>.
\<close>

lemma energy_elec_closed_form:
  assumes k: "0 < nkpts"
    and da: "is_arr3 nkpts nao nao (fst dm)" and db: "is_arr3 nkpts nao nao (snd dm)"
    and h: "is_arr3 nkpts nao nao h"
    and va: "is_arr3 nkpts nao nao (fst v)" and vb: "is_arr3 nkpts nao nao (snd v)"
  shows "energy_elec dm h v =
     (if 1 / 10 ^ 10 < Im (e_coul_formula nkpts dm v)
      then Inl (RuntimeError (Im (e_coul_formula nkpts dm v)))
      else Inr (Re (e1_formula nkpts dm h) + Re (e_coul_formula nkpts dm v),
                Re (e_coul_formula nkpts dm v)))"
proof -
  have len: "length h = nkpts" using h by (simp add: is_arr3_def)
  have w: "py_float_div 1 nkpts = Inr (1 / of_nat nkpts)"
    using k by (simp add: py_float_div_def)
  have e1: "1 / of_nat nkpts * (\<Sum>x\<leftarrow>[0..<nkpts]. trace (mat_mul (fst dm ! x) (h ! x)))
          + 1 / of_nat nkpts * (\<Sum>x\<leftarrow>[0..<nkpts]. trace (mat_mul (snd dm ! x) (h ! x)))
          = e1_formula nkpts dm h"
    by (simp add: e1_formula_def sum_list_addf distrib_left)
  have ec: "1 / of_nat nkpts * (\<Sum>x\<leftarrow>[0..<nkpts]. trace (mat_mul (fst dm ! x) (fst v ! x))) * (1 / 2)
          + 1 / of_nat nkpts * (\<Sum>x\<leftarrow>[0..<nkpts]. trace (mat_mul (snd dm ! x) (snd v ! x))) * (1 / 2)
          = e_coul_formula nkpts dm v"
    by (simp add: e_coul_formula_def sum_list_addf distrib_left add_divide_distrib)
  show ?thesis
    unfolding energy_elec_def Let_def len w bind_err_def
      einsum_trace [OF da h] einsum_trace [OF db h] einsum_trace [OF da va] einsum_trace [OF db vb]
      sum.case e1 ec
    by (simp add: truthy_def abs_bool_def)
qed

text \<open>
  Claim C4. For fixed density, core-Hamiltonian and effective-potential inputs of
  matching shape, whenever the imaginary-part check lets the call return, \<open>energy_elec\<close>
  returns the pair of reals \<open>(Re e1 + Re e_coul, Re e_coul)\<close>, where \<open>e1\<close> and
  \<open>e_coul\<close> are the trace formulas
  \<open>(1/nkpts) \<Sum>k [tr(D\<alpha>[k] H[k]) + tr(D\<beta>[k] H[k])]\<close> and
  \<open>(1/nkpts) \<Sum>k [tr(D\<alpha>[k] V\<alpha>[k]) + tr(D\<beta>[k] V\<beta>[k])] / 2\<close>.
  The result is a function of the three inputs alone.
\<close>

theorem energy_elec_returns_real_pair:
  assumes "0 < nkpts"
    and "is_arr3 nkpts nao nao (fst dm)" and "is_arr3 nkpts nao nao (snd dm)"
    and "is_arr3 nkpts nao nao h"
    and "is_arr3 nkpts nao nao (fst v)" and "is_arr3 nkpts nao nao (snd v)"
    and "\<not> 1 / 10 ^ 10 < Im (e_coul_formula nkpts dm v)"
  shows "energy_elec dm h v =
           Inr (Re (e1_formula nkpts dm h) + Re (e_coul_formula nkpts dm v),
                Re (e_coul_formula nkpts dm v))"
  using energy_elec_closed_form [OF assms(1-6)] assms(7) by simp

lemmas eval_arr = is_arr3_def is_mat_def e1_formula_def e_coul_formula_def trace_def mat_mul_def
  dim1_def dim2_def upt_rec [of _ "numeral _"] upt_rec [of 0 1] upt_rec [of 1 1]

theorem energy_elec_returns_real_pair_witness:
  "energy_elec ([[[1, \<i>], [- \<i>, 1]]], [[[1, 0], [0, 0]]]) [[[2, 0], [0, 3]]]
               ([[[1, 0], [0, 1]]], [[[4, 0], [0, 0]]]) = Inr (10, 3)"
  using energy_elec_returns_real_pair [of 1 2 "([[[1, \<i>], [- \<i>, 1]]], [[[1, 0], [0, 0]]])"
      "[[[2, 0], [0, 3]]]" "([[[1, 0], [0, 1]]], [[[4, 0], [0, 0]]])"]
  by (simp add: eval_arr)

text \<open>
  Claim C1. The claim asks for an error whenever the magnitude of the imaginary part of
  the Coulomb energy exceeds \<open>1e-10\<close>. The code takes the absolute value of the
  comparison instead of the absolute value of the imaginary part, so a negative imaginary
  part is never detected: with one k-point, one orbital, \<open>D\<alpha> = [[1]]\<close> and
  \<open>V\<alpha> = [[-2i]]\<close> the Coulomb energy is \<open>-i\<close> and the call returns \<open>(0, 0)\<close>.
\<close>

theorem energy_elec_negative_imaginary_part_not_raised:
  "energy_elec ([[[1]]], [[[0]]]) [[[0]]] ([[[- 2 * \<i>]]], [[[0]]]) = Inr (0, 0)
   \<and> Im (e_coul_formula 1 ([[[1]]], [[[0]]]) ([[[- 2 * \<i>]]], [[[0]]])) = - 1
   \<and> 1 / 10 ^ 10 < \<bar>Im (e_coul_formula 1 ([[[1]]], [[[0]]]) ([[[- 2 * \<i>]]], [[[0]]]))\<bar>"
  by (simp add: energy_elec_def einsum_kij_kji_def py_float_div_def bind_err_def truthy_def abs_bool_def eval_arr)



subsection \<open>Occupation numbers\<close>

text \<open>
  In an ascending list without a tie at position \<open>n\<close>, the entries that do not exceed
  the entry of rank \<open>n - 1\<close> are exactly the first \<open>n\<close>.
\<close>

lemma sorted_filter_le_take:
  fixes s :: "real list"
  assumes "sorted s" "1 \<le> n" "n \<le> length s" "n < length s \<longrightarrow> s ! (n - 1) < s ! n"
  shows "filter (\<lambda>e. e \<le> s ! (n - 1)) s = take n s"
proof -
  have lo: "\<forall>e \<in> set (take n s). e \<le> s ! (n - 1)"
  proof
    fix e assume "e \<in> set (take n s)"
    then obtain i where i: "i < n" "e = s ! i"
      using assms(3) by (auto simp: in_set_conv_nth)
    then show "e \<le> s ! (n - 1)"
      using assms(1,3) by (auto intro!: sorted_nth_mono)
  qed
  have hi: "\<forall>e \<in> set (drop n s). \<not> e \<le> s ! (n - 1)"
  proof
    fix e assume "e \<in> set (drop n s)"
    then obtain i where i: "i < length s - n" "e = s ! (n + i)"
      by (auto simp: in_set_conv_nth)
    then have "n < length s" by simp
    with assms(4) have lt: "s ! (n - 1) < s ! n" by simp
    have "s ! n \<le> s ! (n + i)"
      using assms(1) i by (auto intro!: sorted_nth_mono)
    with lt i show "\<not> e \<le> s ! (n - 1)" by simp
  qed
  have "filter (\<lambda>e. e \<le> s ! (n - 1)) s
      = filter (\<lambda>e. e \<le> s ! (n - 1)) (take n s) @ filter (\<lambda>e. e \<le> s ! (n - 1)) (drop n s)"
    by (metis append_take_drop_id filter_append)
  also have "\<dots> = take n s"
    using lo hi by simp
  finally show ?thesis .
qed

lemma length_filter_sort:
  fixes xs :: "real list"
  shows "length (filter P (sort xs)) = length (filter P xs)"
proof -
  have "mset (filter P (sort xs)) = mset (filter P xs)" by simp
  then show ?thesis by (metis size_mset)
qed

lemma sum_list_le_mask: "sum_list (le_mask f xs) = real (length (filter (\<lambda>e. e \<le> f) xs))"
  by (induction xs) (simp_all add: le_mask_def)

lemma total_occ_le_mask:
  "total_occ (map (le_mask f) xss) = real (length (filter (\<lambda>e. e \<le> f) (concat xss)))"
  by (induction xss) (simp_all add: total_occ_def sum_list_le_mask)

lemma occ_channel_ok:
  assumes n: "0 < n" and k: "nkpts = int (length es)" and ne: "es \<noteq> []"
    and r: "n * nkpts \<le> int (length (concat es))"
  shows "occ_channel n nkpts es = Inr (map (le_mask (fermi_level n es)) es)"
proof -
  have pos: "0 < n * nkpts" using n ne k by simp
  have idx: "py_index (sort (concat es)) (n * nkpts - 1) = Inr (fermi_level n es)"
    using pos r k by (simp add: py_index_def fermi_level_def)
  have info: "homo_lumo_info (sort (concat es)) (n * nkpts) = Inr ()"
    using pos by (simp add: homo_lumo_info_def py_index_def bind_err_def)
  show ?thesis
    by (simp add: occ_channel_def hstack_def ne bind_err_def idx info)
qed

lemma fermi_filling_count:
  assumes n: "0 < n" and ne: "es \<noteq> []"
    and r: "n * int (length es) \<le> int (length (concat es))"
    and t: "no_tie_at_cutoff n es"
  shows "total_occ (map (le_mask (fermi_level n es)) es) = real_of_int (n * int (length es))"
proof -
  let ?s = "sort (concat es)" and ?m = "nat (n * int (length es))"
  have m1: "1 \<le> ?m" using n ne by (simp add: Suc_le_eq zero_less_nat_eq)
  have m2: "?m \<le> length ?s" using r by simp
  have f: "fermi_level n es = ?s ! (?m - 1)"
    using m1 by (simp add: fermi_level_def nat_diff_distrib')
  have "length (filter (\<lambda>e. e \<le> ?s ! (?m - 1)) ?s) = ?m"
    using sorted_filter_le_take [of ?s ?m] m1 m2 t
    by (simp add: no_tie_at_cutoff_def Let_def)
  then have "length (filter (\<lambda>e. e \<le> fermi_level n es) (concat es)) = ?m"
    by (simp add: f length_filter_sort)
  then show ?thesis
    using n by (simp add: total_occ_le_mask)
qed

text \<open>
  Fermi filling. When every channel's cutoff rank lies inside its pooled energies and the
  debug listing is either off or finds a populated beta channel, \<open>get_occ\<close> returns, for
  each channel with electrons, the mask of the energies up to the energy of rank
  \<open>nelec * nkpts - 1\<close> of the pooled ascending sequence, and without a tie at the cutoff
  the occupations of the channel sum to \<open>nelec * nkpts\<close>.
\<close>

lemma get_occ_fermi_filling:
  assumes ne: "fst es \<noteq> []" and len: "length (snd es) = length (fst es)"
    and a: "0 < fst (nelec mf)"
    and ra: "fst (nelec mf) * int (length (fst es)) \<le> int (length (concat (fst es)))"
    and rb: "snd (nelec mf) * int (length (snd es)) \<le> int (length (concat (snd es)))"
    and dbg: "verbose_debug mf \<longrightarrow> 0 < snd (nelec mf) \<and> length (kpts mf) \<le> length (fst es)"
  shows "get_occ mf es =
           Inr (map (le_mask (fermi_level (fst (nelec mf)) (fst es))) (fst es),
                if 0 < snd (nelec mf)
                then map (le_mask (fermi_level (snd (nelec mf)) (snd es))) (snd es) else [])"
    and "no_tie_at_cutoff (fst (nelec mf)) (fst es) \<Longrightarrow>
           total_occ (map (le_mask (fermi_level (fst (nelec mf)) (fst es))) (fst es))
             = real_of_int (fst (nelec mf) * int (length (fst es)))"
    and "0 < snd (nelec mf) \<Longrightarrow> no_tie_at_cutoff (snd (nelec mf)) (snd es) \<Longrightarrow>
           total_occ (map (le_mask (fermi_level (snd (nelec mf)) (snd es))) (snd es))
             = real_of_int (snd (nelec mf) * int (length (snd es)))"
proof -
  have ne': "snd es \<noteq> []" using ne len by auto
  have ca: "occ_channel (fst (nelec mf)) (int (length (fst es))) (fst es)
              = Inr (map (le_mask (fermi_level (fst (nelec mf)) (fst es))) (fst es))"
    using a ne ra by (intro occ_channel_ok) simp_all
  have cb: "0 < snd (nelec mf) \<Longrightarrow>
            occ_channel (snd (nelec mf)) (int (length (fst es))) (snd es)
              = Inr (map (le_mask (fermi_level (snd (nelec mf)) (snd es))) (snd es))"
    using ne' rb len by (intro occ_channel_ok) simp_all
  show "get_occ mf es =
           Inr (map (le_mask (fermi_level (fst (nelec mf)) (fst es))) (fst es),
                if 0 < snd (nelec mf)
                then map (le_mask (fermi_level (snd (nelec mf)) (snd es))) (snd es) else [])"
    using dbg len by (simp add: get_occ_def ca cb bind_err_def debug_listing_def)
  show "no_tie_at_cutoff (fst (nelec mf)) (fst es) \<Longrightarrow>
           total_occ (map (le_mask (fermi_level (fst (nelec mf)) (fst es))) (fst es))
             = real_of_int (fst (nelec mf) * int (length (fst es)))"
    using a ne ra by (intro fermi_filling_count)
  show "0 < snd (nelec mf) \<Longrightarrow> no_tie_at_cutoff (snd (nelec mf)) (snd es) \<Longrightarrow>
           total_occ (map (le_mask (fermi_level (snd (nelec mf)) (snd es))) (snd es))
             = real_of_int (snd (nelec mf) * int (length (snd es)))"
    using ne' rb by (intro fermi_filling_count)
qed

text \<open>
  Claim C2. The claim promises the Fermi filling for every channel with electrons. With
  \<open>nelec = (1, 0)\<close> the beta occupations are left as the empty list; at debug verbosity
  the listing then reads \<^verbatim>\<open>mo_occ_kpts[1][0]\<close> and the call ends in an IndexError
  instead of returning the alpha occupations. The same input below debug verbosity
  returns them, as \<open>get_occ_fermi_filling\<close> states in general.
\<close>

theorem get_occ_debug_listing_fails_without_beta:
  "get_occ \<lparr>nelec = (1, 0), kpts = [[0, 0, 0]], verbose_debug = True,
             diis_start_cycle = 1, level_shift = LS_float 0, damp = 0\<rparr>
           ([[1 / 10, 1 / 2]], [[1 / 5, 3 / 5]]) = Inl IndexError
   \<and> get_occ \<lparr>nelec = (1, 0), kpts = [[0, 0, 0]], verbose_debug = False,
             diis_start_cycle = 1, level_shift = LS_float 0, damp = 0\<rparr>
           ([[1 / 10, 1 / 2]], [[1 / 5, 3 / 5]]) = Inr ([[1, 0]], [])
   \<and> sort (concat [[1 / 10, 1 / (2::real)]]) ! 0 < sort (concat [[1 / 10, 1 / 2]]) ! 1"
  by (simp add: get_occ_def occ_channel_def hstack_def bind_err_def py_index_def
      homo_lumo_info_def le_mask_def debug_listing_def)



subsection \<open>Density matrices\<close>

lemma mat_mul_nth:
  "i < length a \<Longrightarrow> l < dim1 b \<Longrightarrow>
     mat_mul a b ! i ! l = (\<Sum>j\<leftarrow>[0..<length b]. a ! i ! j * b ! j ! l)"
  by (simp add: mat_mul_def)

lemma is_mat_mat_mul: "is_mat (length a) (dim1 b) (mat_mul a b)"
  by (simp add: is_mat_def mat_mul_def list_all_length)

lemma is_mat_eqI:
  assumes "is_mat r c a" "is_mat r c b"
    and "\<And>i j. i < r \<Longrightarrow> j < c \<Longrightarrow> a ! i ! j = b ! i ! j"
  shows "a = b"
proof (rule nth_equalityI)
  show "length a = length b" using assms(1,2) by (simp add: is_mat_def)
next
  fix i assume i: "i < length a"
  then have ir: "i < r" using assms(1) by (simp add: is_mat_def)
  show "a ! i = b ! i"
  proof (rule nth_equalityI)
    show "length (a ! i) = length (b ! i)"
      using assms(1,2) ir by (simp add: is_mat_nth)
  next
    fix j assume "j < length (a ! i)"
    then have "j < c" using assms(1) ir by (simp add: is_mat_nth)
    then show "a ! i ! j = b ! i ! j" using assms(3) ir by simp
  qed
qed

lemma sum_list_delta:
  fixes f :: "nat \<Rightarrow> complex"
  assumes "j < n"
  shows "(\<Sum>m\<leftarrow>[0..<n]. f m * (if m = j then g m else 0)) = f j * g j"
  using assms
proof (induction n)
  case 0
  then show ?case by simp
next
  case (Suc n)
  show ?case
  proof (cases "j = n")
    case True
    have "(\<Sum>m\<leftarrow>[0..<n]. f m * (if m = j then g m else 0)) = (\<Sum>m\<leftarrow>[0..<n]. 0)"
      by (rule sum_list_map_cong) (simp add: True)
    then show ?thesis using True by simp
  next
    case False
    with Suc show ?thesis by simp
  qed
qed

lemma cnj_sum_list: "cnj (sum_list xs) = sum_list (map cnj xs)"
  by (induction xs) simp_all

lemma is_mat_diag: "is_mat (length v) (length v) (diag_mat v)"
  by (simp add: is_mat_def diag_mat_def list_all_length)

lemma conj_transpose_conv: "conj_transpose m = mat_conj (mat_T m)"
  by (simp add: conj_transpose_def mat_conj_def mat_T_def)

lemma is_mat_conj_transpose: "is_mat r c m \<Longrightarrow> 0 < r \<Longrightarrow> is_mat c r (conj_transpose m)"
  using is_mat_dim1 [of r c m] by (simp add: is_mat_def conj_transpose_def list_all_length)

lemma conj_transpose_nth:
  "is_mat r c m \<Longrightarrow> 0 < r \<Longrightarrow> j < c \<Longrightarrow> i < r \<Longrightarrow> conj_transpose m ! j ! i = cnj (m ! i ! j)"
  using is_mat_dim1 [of r c m] by (simp add: conj_transpose_def is_mat_def)

lemma mul_last_axis_diag:
  assumes c: "is_mat nao nmo c" and nao: "0 < nao" and occ: "length occ = nmo"
  shows "mul_last_axis c occ = Inr (mat_mul c (diag_mat occ))"
    and "is_mat nao nmo (mat_mul c (diag_mat occ))"
    and "\<And>i j. i < nao \<Longrightarrow> j < nmo \<Longrightarrow> mat_mul c (diag_mat occ) ! i ! j = c ! i ! j * of_real (occ ! j)"
proof -
  have lc: "length c = nao" using c by (simp add: is_mat_def)
  have d1: "dim1 c = nmo" using c nao by (rule is_mat_dim1)
  have dd: "dim1 (diag_mat occ) = nmo"
    using is_mat_square_dim1 [OF is_mat_diag] occ by simp
  have ld: "length (diag_mat occ) = nmo" using occ by (simp add: diag_mat_def)
  show m: "is_mat nao nmo (mat_mul c (diag_mat occ))"
    using is_mat_mat_mul [of c "diag_mat occ"] by (simp add: lc dd)
  show e: "\<And>i j. i < nao \<Longrightarrow> j < nmo \<Longrightarrow>
             mat_mul c (diag_mat occ) ! i ! j = c ! i ! j * of_real (occ ! j)"
  proof -
    fix i j assume ij: "i < nao" "j < nmo"
    have "(\<Sum>m\<leftarrow>[0..<nmo]. c ! i ! m * diag_mat occ ! m ! j)
        = (\<Sum>m\<leftarrow>[0..<nmo]. c ! i ! m * (if m = j then of_real (occ ! m) else 0))"
      by (rule sum_list_map_cong) (use ij occ in \<open>simp add: diag_mat_def\<close>)
    also have "\<dots> = c ! i ! j * of_real (occ ! j)"
      using ij by (simp add: sum_list_delta)
    finally show "mat_mul c (diag_mat occ) ! i ! j = c ! i ! j * of_real (occ ! j)"
      using ij by (simp add: mat_mul_nth lc dd ld)
  qed
  have s: "is_mat nao nmo (map (\<lambda>row. map2 (\<lambda>x w. x * of_real w) row occ) c)"
    using c occ by (simp add: is_mat_def list_all_length)
  have "map (\<lambda>row. map2 (\<lambda>x w. x * of_real w) row occ) c = mat_mul c (diag_mat occ)"
  proof (rule is_mat_eqI [OF s m])
    fix i j assume ij: "i < nao" "j < nmo"
    then show "map (\<lambda>row. map2 (\<lambda>x w. x * of_real w) row occ) c ! i ! j
             = mat_mul c (diag_mat occ) ! i ! j"
      using c occ by (simp add: e lc is_mat_nth)
  qed
  then show "mul_last_axis c occ = Inr (mat_mul c (diag_mat occ))"
    using occ by (simp add: mul_last_axis_def d1)
qed

lemma density_formula_shape:
  assumes c: "is_mat nao nmo c" and nao: "0 < nao" and nmo: "0 < nmo" and occ: "length occ = nmo"
  shows "is_mat nao nao (density_formula c occ)"
    and "\<And>i l. i < nao \<Longrightarrow> l < nao \<Longrightarrow>
           density_formula c occ ! i ! l
             = (\<Sum>j\<leftarrow>[0..<nmo]. c ! i ! j * of_real (occ ! j) * cnj (c ! l ! j))"
proof -
  note s = mul_last_axis_diag [OF c nao occ]
  have ct: "is_mat nmo nao (conj_transpose c)" using c nao by (rule is_mat_conj_transpose)
  have d1: "dim1 (conj_transpose c) = nao" using ct nmo by (rule is_mat_dim1)
  have l1: "length (conj_transpose c) = nmo" using ct by (simp add: is_mat_def)
  have ls: "length (mat_mul c (diag_mat occ)) = nao" using s(2) by (simp add: is_mat_def)
  show "is_mat nao nao (density_formula c occ)"
    using is_mat_mat_mul [of "mat_mul c (diag_mat occ)" "conj_transpose c"]
    by (simp add: density_formula_def ls d1)
  fix i l assume il: "i < nao" "l < nao"
  have "(\<Sum>j\<leftarrow>[0..<nmo]. mat_mul c (diag_mat occ) ! i ! j * conj_transpose c ! j ! l)
      = (\<Sum>j\<leftarrow>[0..<nmo]. c ! i ! j * of_real (occ ! j) * cnj (c ! l ! j))"
    by (rule sum_list_map_cong)
       (use il in \<open>simp add: s(3) conj_transpose_nth [OF c nao]\<close>)
  then show "density_formula c occ ! i ! l
             = (\<Sum>j\<leftarrow>[0..<nmo]. c ! i ! j * of_real (occ ! j) * cnj (c ! l ! j))"
    using il by (simp add: density_formula_def mat_mul_nth ls d1 l1)
qed

lemma density_formula_hermitian:
  assumes c: "is_mat nao nmo c" and nao: "0 < nao" and nmo: "0 < nmo" and occ: "length occ = nmo"
  shows "hermitian (density_formula c occ)"
proof -
  note d = density_formula_shape [OF c nao nmo occ]
  have t: "is_mat nao nao (conj_transpose (density_formula c occ))"
    using d(1) nao by (rule is_mat_conj_transpose)
  have "density_formula c occ = conj_transpose (density_formula c occ)"
  proof (rule is_mat_eqI [OF d(1) t])
    fix i l assume il: "i < nao" "l < nao"
    have "cnj (\<Sum>j\<leftarrow>[0..<nmo]. c ! l ! j * of_real (occ ! j) * cnj (c ! i ! j))
        = (\<Sum>j\<leftarrow>[0..<nmo]. c ! i ! j * of_real (occ ! j) * cnj (c ! l ! j))"
      by (simp add: cnj_sum_list comp_def mult_ac)
    then show "density_formula c occ ! i ! l = conj_transpose (density_formula c occ) ! i ! l"
      using il by (simp add: conj_transpose_nth [OF d(1) nao] d(2))
  qed
  then show ?thesis by (simp add: hermitian_def)
qed

lemma dm_block:
  assumes c: "is_mat nao nmo c" and nao: "0 < nao" and nmo: "0 < nmo" and occ: "length occ = nmo"
  shows "bind_err (mul_last_axis c occ) (\<lambda>scaled. np_dot scaled (mat_conj (mat_T c)))
           = Inr (density_formula c occ)"
proof -
  note s = mul_last_axis_diag [OF c nao occ]
  have ct: "is_mat nmo nao (conj_transpose c)" using c nao by (rule is_mat_conj_transpose)
  have l1: "length (conj_transpose c) = nmo" using ct by (simp add: is_mat_def)
  have d1: "dim1 (mat_mul c (diag_mat occ)) = nmo" using s(2) nao by (rule is_mat_dim1)
  show ?thesis
    by (simp add: s(1) bind_err_def np_dot_def conj_transpose_conv [symmetric] d1 l1
        density_formula_def)
qed

lemma traverse_all_Inr:
  "(\<And>x. x \<in> set xs \<Longrightarrow> f x = Inr (g x)) \<Longrightarrow> traverse f xs = Inr (map g xs)"
  by (induction xs) (simp_all add: bind_err_def)

lemma make_dm_formula:
  assumes nao: "0 < nao" and nmo: "0 < nmo"
    and lm: "length mos = nkpts" and lo: "length occs = nkpts"
    and sh: "\<And>k. k < nkpts \<Longrightarrow> is_mat nao nmo (mos ! k) \<and> length (occs ! k) = nmo"
  shows "make_dm nkpts mos occs = Inr (map (\<lambda>k. density_formula (mos ! k) (occs ! k)) [0..<nkpts])"
  unfolding make_dm_def
proof (rule traverse_all_Inr)
  fix k assume "k \<in> set [0..<nkpts]"
  then have k: "k < nkpts" by simp
  have b: "bind_err (mul_last_axis (mos ! k) (occs ! k))
             (\<lambda>scaled. np_dot scaled (mat_conj (mat_T (mos ! k))))
           = Inr (density_formula (mos ! k) (occs ! k))"
    using sh [OF k] by (intro dm_block [OF _ nao nmo]) simp_all
  show "bind_err (py_index mos (int k)) (\<lambda>mo.
          bind_err (py_index occs (int k)) (\<lambda>occ.
          bind_err (mul_last_axis mo occ) (\<lambda>scaled. np_dot scaled (mat_conj (mat_T mo)))))
        = Inr (density_formula (mos ! k) (occs ! k))"
    using k lm lo b by (simp add: py_index_def bind_err_def)
qed

lemma make_rdm1_shape_blocks:
  assumes nao: "0 < nao" and nmo: "0 < nmo" and nk: "0 < nkpts"
    and la: "length (fst mo) = nkpts" and lb: "length (snd mo) = nkpts"
    and oa: "length (fst occ) = nkpts" and ob: "length (snd occ) = nkpts"
    and sa: "\<forall>k<nkpts. is_mat nao nmo (fst mo ! k) \<and> length (fst occ ! k) = nmo"
    and sb: "\<forall>k<nkpts. is_mat nao nmo (snd mo ! k) \<and> length (snd occ ! k) = nmo"
  shows "make_rdm1 mo occ =
           Inr (map (\<lambda>k. density_formula (fst mo ! k) (fst occ ! k)) [0..<nkpts],
                map (\<lambda>k. density_formula (snd mo ! k) (snd occ ! k)) [0..<nkpts])
         \<and> (\<forall>k<nkpts.
               is_mat nao nao (density_formula (fst mo ! k) (fst occ ! k))
             \<and> hermitian (density_formula (fst mo ! k) (fst occ ! k))
             \<and> is_mat nao nao (density_formula (snd mo ! k) (snd occ ! k))
             \<and> hermitian (density_formula (snd mo ! k) (snd occ ! k)))"
proof -
  let ?da = "map (\<lambda>k. density_formula (fst mo ! k) (fst occ ! k)) [0..<nkpts]"
  let ?db = "map (\<lambda>k. density_formula (snd mo ! k) (snd occ ! k)) [0..<nkpts]"
  have ma: "make_dm nkpts (fst mo) (fst occ) = Inr ?da"
    by (rule make_dm_formula [OF nao nmo la oa]) (use sa in simp)
  have mb: "make_dm nkpts (snd mo) (snd occ) = Inr ?db"
    by (rule make_dm_formula [OF nao nmo lb ob]) (use sb in simp)
  have blk: "\<forall>k<nkpts.
               is_mat nao nao (density_formula (fst mo ! k) (fst occ ! k))
             \<and> hermitian (density_formula (fst mo ! k) (fst occ ! k))
             \<and> is_mat nao nao (density_formula (snd mo ! k) (snd occ ! k))
             \<and> hermitian (density_formula (snd mo ! k) (snd occ ! k))"
  proof (intro allI impI)
    fix k assume k: "k < nkpts"
    have a: "is_mat nao nmo (fst mo ! k)" "length (fst occ ! k) = nmo"
      and b: "is_mat nao nmo (snd mo ! k)" "length (snd occ ! k) = nmo"
      using sa sb k by simp_all
    show "is_mat nao nao (density_formula (fst mo ! k) (fst occ ! k))
        \<and> hermitian (density_formula (fst mo ! k) (fst occ ! k))
        \<and> is_mat nao nao (density_formula (snd mo ! k) (snd occ ! k))
        \<and> hermitian (density_formula (snd mo ! k) (snd occ ! k))"
      using density_formula_shape(1) [OF a(1) nao nmo a(2)]
        density_formula_hermitian [OF a(1) nao nmo a(2)]
        density_formula_shape(1) [OF b(1) nao nmo b(2)]
        density_formula_hermitian [OF b(1) nao nmo b(2)]
      by simp
  qed
  have first: "py_index (fst mo) 0 = Inr (fst mo ! 0)"
    using nk la by (simp add: py_index_def)
  have n0: "length (fst mo ! 0) = nao"
    using sa nk by (simp add: is_mat_def)
  have all: "list_all (is_mat nao nao) (?da @ ?db)"
    using blk by (auto simp: list_all_iff)
  have "reshape_spin (?da @ ?db) nkpts nao = Inr (?da, ?db)"
    using all by (simp add: reshape_spin_def)
  then have "make_rdm1 mo occ = Inr (?da, ?db)"
    by (simp add: make_rdm1_def oa first n0 ma mb bind_err_def)
  with blk show ?thesis by simp
qed

lemma make_rdm1_value:
  assumes nao: "0 < nao" and nmo: "0 < nmo" and nk: "0 < nkpts"
    and la: "length (fst mo) = nkpts" and lb: "length (snd mo) = nkpts"
    and oa: "length (fst occ) = nkpts" and ob: "length (snd occ) = nkpts"
    and sa: "\<forall>k<nkpts. is_mat nao nmo (fst mo ! k) \<and> length (fst occ ! k) = nmo"
    and sb: "\<forall>k<nkpts. is_mat nao nmo (snd mo ! k) \<and> length (snd occ ! k) = nmo"
  shows "make_rdm1 mo occ =
           Inr (map (\<lambda>k. density_formula (fst mo ! k) (fst occ ! k)) [0..<nkpts],
                map (\<lambda>k. density_formula (snd mo ! k) (snd occ ! k)) [0..<nkpts])"
  using make_rdm1_shape_blocks [OF assms] by simp

text \<open>
  Claim C3. For complex orbital coefficients and real occupations of consistent shape
  (\<open>nkpts\<close> k-points per spin, every coefficient matrix \<open>nao \<times> nmo\<close>, every
  occupation array of length \<open>nmo\<close>), \<open>make_rdm1\<close> returns the array of shape
  \<open>(2, nkpts, nao, nao)\<close> whose block for spin \<open>s\<close> and k-point \<open>k\<close> is
  \<open>C[s][k] \<cdot> diag(occ[s][k]) \<cdot> C[s][k]\<^sup>H\<close>, and every block is Hermitian.
  The list representation keeps no shape for an array with an axis of length zero, so
  the axes are taken to be non-empty.
\<close>

theorem make_rdm1_blocks:
  assumes nao: "0 < nao" and nmo: "0 < nmo" and nk: "0 < nkpts"
    and la: "length (fst mo) = nkpts" and lb: "length (snd mo) = nkpts"
    and oa: "length (fst occ) = nkpts" and ob: "length (snd occ) = nkpts"
    and sa: "\<forall>k<nkpts. is_mat nao nmo (fst mo ! k) \<and> length (fst occ ! k) = nmo"
    and sb: "\<forall>k<nkpts. is_mat nao nmo (snd mo ! k) \<and> length (snd occ ! k) = nmo"
  shows "make_rdm1 mo occ =
           Inr (map (\<lambda>k. density_formula (fst mo ! k) (fst occ ! k)) [0..<nkpts],
                map (\<lambda>k. density_formula (snd mo ! k) (snd occ ! k)) [0..<nkpts])
         \<and> (\<forall>k<nkpts.
               is_mat nao nao (density_formula (fst mo ! k) (fst occ ! k))
             \<and> hermitian (density_formula (fst mo ! k) (fst occ ! k))
             \<and> is_mat nao nao (density_formula (snd mo ! k) (snd occ ! k))
             \<and> hermitian (density_formula (snd mo ! k) (snd occ ! k)))"
  using make_rdm1_shape_blocks [OF assms] .

theorem make_rdm1_blocks_witness:
  "make_rdm1 ([[[1, 0], [\<i>, 1]]], [[[1, 1], [0, \<i>]]]) ([[1, 0]], [[1, 1]])
     = Inr ([[[1, - \<i>], [\<i>, 1]]], [[[2, - \<i>], [\<i>, 1]]])
   \<and> hermitian [[1, - \<i>], [\<i>, 1]] \<and> hermitian [[2, - \<i>], [\<i>, 1]]"
  using make_rdm1_blocks [of 2 2 1 "([[[1, 0], [\<i>, 1]]], [[[1, 1], [0, \<i>]]])" "([[1, 0]], [[1, 1]])"]
  by (simp add: is_mat_def density_formula_def mat_mul_def diag_mat_def conj_transpose_def dim1_def
      upt_rec [of _ "numeral _"] upt_rec [of 0 1] upt_rec [of 1 1])



subsection \<open>Fock matrix\<close>

lemma shift_spin_all:
  assumes "length s_kpts \<le> length dm" "length s_kpts \<le> length f"
  shows "shift_spin lshift s_kpts dm f x
           = Inr (map (\<lambda>k. lshift (s_kpts ! k) (dm ! k) (f ! k) x) [0..<length s_kpts])"
  unfolding shift_spin_def
  by (rule traverse_all_Inr) (use assms in \<open>simp add: py_index_def bind_err_def\<close>)

text \<open>
  With a single number as level shift of magnitude above \<open>1e-4\<close> (and no extrapolator)
  every (spin, k-point) block of \<open>h1e + veff\<close> goes through the level-shift routine.
\<close>

lemma get_fock_scalar_shift:
  assumes sh: "add_spin h1e_kpts vhf_kpts = Inr f"
    and x: "1 / 10 ^ 4 < \<bar>x\<bar>"
    and ls: "length s_kpts = length h1e_kpts"
    and ld: "length (fst dm_kpts) = length h1e_kpts" "length (snd dm_kpts) = length h1e_kpts"
  shows "get_fock lshift mf h1e_kpts s_kpts vhf_kpts dm_kpts cycle None start (Some (LS_float x)) dmp
           = Inr (map (\<lambda>k. lshift (s_kpts ! k) (fst dm_kpts ! k)
                               (mat_add (h1e_kpts ! k) (fst vhf_kpts ! k)) x) [0..<length s_kpts],
                  map (\<lambda>k. lshift (s_kpts ! k) (snd dm_kpts ! k)
                               (mat_add (h1e_kpts ! k) (snd vhf_kpts ! k)) x) [0..<length s_kpts])"
proof -
  have f: "f = (map2 mat_add h1e_kpts (fst vhf_kpts), map2 mat_add h1e_kpts (snd vhf_kpts))"
    and s1: "same_shape3 h1e_kpts (fst vhf_kpts)" and s2: "same_shape3 h1e_kpts (snd vhf_kpts)"
    using sh by (auto simp: add_spin_def split: if_splits)
  have lv: "length (fst vhf_kpts) = length h1e_kpts" "length (snd vhf_kpts) = length h1e_kpts"
    using s1 s2 by (simp_all add: same_shape3_def is_arr3_def)
  have a: "shift_spin lshift s_kpts (fst dm_kpts) (fst f) x
         = Inr (map (\<lambda>k. lshift (s_kpts ! k) (fst dm_kpts ! k) (fst f ! k) x) [0..<length s_kpts])"
    by (rule shift_spin_all) (simp_all add: f ls ld lv)
  have b: "shift_spin lshift s_kpts (snd dm_kpts) (snd f) x
         = Inr (map (\<lambda>k. lshift (s_kpts ! k) (snd dm_kpts ! k) (snd f ! k) x) [0..<length s_kpts])"
    by (rule shift_spin_all) (simp_all add: f ls ld lv)
  have "get_fock lshift mf h1e_kpts s_kpts vhf_kpts dm_kpts cycle None start (Some (LS_float x)) dmp
      = Inr (map (\<lambda>k. lshift (s_kpts ! k) (fst dm_kpts ! k) (fst f ! k) x) [0..<length s_kpts],
             map (\<lambda>k. lshift (s_kpts ! k) (snd dm_kpts ! k) (snd f ! k) x) [0..<length s_kpts])"
    using x by (simp add: get_fock_def unpack_shift_def shift_exceeds_def sh bind_err_def a b)
  then show ?thesis
    by (simp add: f ls lv cong: map_cong)
qed

text \<open>
  Claim C5. The claim covers a per-spin pair of shifts. The code unpacks the pair into
  \<open>shifta\<close> and \<open>shiftb\<close>, but then tests \<^verbatim>\<open>abs(level_shift_factor) > 1e-4\<close> on the pair
  itself: for the tuple \<open>(0.5, 0.3)\<close> this is a TypeError, for an ndarray a ValueError,
  and no level shift is applied. The number \<open>0.5\<close> on the same input is applied to both
  spins.
\<close>

theorem get_fock_pair_shift_raises:
  "get_fock lshift mf [[[1]]] [[[1]]] ([[[0]]], [[[0]]]) ([[[1]]], [[[0]]]) 0 None None
       (Some (LS_seq [1 / 2, 3 / 10])) None = Inl TypeError
   \<and> get_fock lshift mf [[[1]]] [[[1]]] ([[[0]]], [[[0]]]) ([[[1]]], [[[0]]]) 0 None None
       (Some (LS_ndarray [1 / 2, 3 / 10])) None = Inl ValueError
   \<and> get_fock lshift mf [[[1]]] [[[1]]] ([[[0]]], [[[0]]]) ([[[1]]], [[[0]]]) 0 None None
       (Some (LS_float (1 / 2))) None
       = Inr ([lshift [[1]] [[1]] [[1]] (1 / 2)], [lshift [[1]] [[0]] [[1]] (1 / 2)])"
  by (simp add: get_fock_def unpack_shift_def shift_exceeds_def add_spin_def same_shape3_def
      is_arr3_def is_mat_def dim1_def dim2_def mat_add_def bind_err_def shift_spin_def py_index_def)



subsection \<open>Initial guess\<close>

lemma contract_trace:
  assumes "is_mat n n a" "is_mat n n b"
  shows "contract_ij_ji a b = trace (mat_mul a b)"
  using assms is_mat_square_dim1 [OF assms(1)]
  by (simp add: contract_ij_ji_def trace_mat_mul [OF assms] is_mat_def)

lemma map2_nth_upt:
  "length xs = n \<Longrightarrow> map2 f xs (map g [0..<n]) = map (\<lambda>k. f (xs ! k) (g k)) [0..<n]"
  by (rule nth_equalityI) simp_all

lemma list_ex_map_upt: "list_ex P (map g [0..<n]) = (\<exists>k<n. P (g k))"
  by (auto simp: list_ex_iff)


lemma einsum_xkij_kji_trace:
  assumes a: "is_arr3 nkpts nao nao (fst dm)" and b: "is_arr3 nkpts nao nao (snd dm)"
    and s: "is_arr3 nkpts nao nao ovlp"
  shows "einsum_xkij_kji dm ovlp
           = Inr (map (ne_formula (fst dm) ovlp) [0..<nkpts], map (ne_formula (snd dm) ovlp) [0..<nkpts])"
proof -
  have len: "length (fst dm) = nkpts" "length (snd dm) = nkpts" "length ovlp = nkpts"
    using a b s by (simp_all add: is_arr3_def)
  have dims: "dim1 (fst dm) = dim2 ovlp \<and> dim2 (fst dm) = dim1 ovlp
            \<and> dim1 (snd dm) = dim2 ovlp \<and> dim2 (snd dm) = dim1 ovlp"
  proof (cases "nkpts = 0")
    case True
    with len show ?thesis by (simp add: dim1_def dim2_def)
  next
    case False
    with is_arr3_dims [OF a] is_arr3_dims [OF b] is_arr3_dims [OF s] show ?thesis by simp
  qed
  have ca: "map (\<lambda>k. contract_ij_ji (fst dm ! k) (ovlp ! k)) [0..<nkpts]
          = map (ne_formula (fst dm) ovlp) [0..<nkpts]"
    using a s by (auto simp: ne_formula_def intro!: contract_trace is_arr3_nth)
  have cb: "map (\<lambda>k. contract_ij_ji (snd dm ! k) (ovlp ! k)) [0..<nkpts]
          = map (ne_formula (snd dm) ovlp) [0..<nkpts]"
    using b s by (auto simp: ne_formula_def intro!: contract_trace is_arr3_nth)
  show ?thesis
    using dims by (simp add: einsum_xkij_kji_def len ca cb)
qed

lemmas eval_guess = get_init_guess_def choose_guess_def init_guess_by_1e_def spread_guess_def
  einsum_xkij_kji_def contract_ij_ji_def nelec_mismatch_def ne_mean_def rescale_nelec_def
  rescale_values_def result_type_def
  mat_scale_def lower_def lower_char_def startswith_def bind_err_def ne_formula_def

text \<open>
  The renormalisation of a low-dimensional cell when the in-place product is accepted:
  the density has complex entries or the overlap has real ones, and no count is zero.
  The counts are \<open>ne[s,k] = tr(dm[s,k] \<cdot> S[k])\<close>; a deviation above \<open>1e-7\<close> appends the
  warning and multiplies block \<open>(s, k)\<close> by \<open>nelec[s] / ne[s,k]\<close>, otherwise the density
  is returned as it is.
\<close>

lemma get_init_guess_low_dim_castable:
  assumes dim: "cell_dimension c < 3"
    and g: "choose_guess env c key = Inr (msgs, g)"
    and d: "(case g of Inl dm \<Rightarrow> spread_guess (length (kpts mf)) dm | Inr dk \<Rightarrow> Inr dk)
              = Inr (ty, dm_kpts)"
    and a: "is_arr3 nkpts nao nao (fst dm_kpts)" and b: "is_arr3 nkpts nao nao (snd dm_kpts)"
    and s: "is_arr3 nkpts nao nao (snd (get_ovlp env))"
    and cast: "ty = Complex128 \<or> fst (get_ovlp env) = Float64"
    and nz: "\<forall>k<nkpts. ne_formula (fst dm_kpts) (snd (get_ovlp env)) k \<noteq> 0
                      \<and> ne_formula (snd dm_kpts) (snd (get_ovlp env)) k \<noteq> 0"
  shows "get_init_guess env mf c key =
     (if \<exists>k<nkpts.
            1 / 10 ^ 7 < cmod (ne_formula (fst dm_kpts) (snd (get_ovlp env)) k - of_int (fst (cell_nelec c)))
          \<or> 1 / 10 ^ 7 < cmod (ne_formula (snd dm_kpts) (snd (get_ovlp env)) k - of_int (snd (cell_nelec c)))
      then Inr (msgs @ [Warn_nelec_error
                          (ne_mean (map (ne_formula (fst dm_kpts) (snd (get_ovlp env))) [0..<nkpts],
                                    map (ne_formula (snd dm_kpts) (snd (get_ovlp env))) [0..<nkpts]))],
                Finite_dm (ty,
                  (map (\<lambda>k. mat_scale (fst dm_kpts ! k)
                             (of_int (fst (cell_nelec c)) / ne_formula (fst dm_kpts) (snd (get_ovlp env)) k))
                     [0..<nkpts],
                   map (\<lambda>k. mat_scale (snd dm_kpts ! k)
                             (of_int (snd (cell_nelec c)) / ne_formula (snd dm_kpts) (snd (get_ovlp env)) k))
                     [0..<nkpts])))
      else Inr (msgs, Finite_dm (ty, dm_kpts)))"
proof -
  let ?S = "snd (get_ovlp env)"
  let ?ne = "(map (ne_formula (fst dm_kpts) ?S) [0..<nkpts], map (ne_formula (snd dm_kpts) ?S) [0..<nkpts])"
  have len: "length (fst dm_kpts) = nkpts" "length (snd dm_kpts) = nkpts"
    using a b by (simp_all add: is_arr3_def)
  have mm: "nelec_mismatch ?ne (cell_nelec c)
        = (\<exists>k<nkpts.
            1 / 10 ^ 7 < cmod (ne_formula (fst dm_kpts) ?S k - of_int (fst (cell_nelec c)))
          \<or> 1 / 10 ^ 7 < cmod (ne_formula (snd dm_kpts) ?S k - of_int (snd (cell_nelec c))))"
    unfolding nelec_mismatch_def fst_conv snd_conv list_ex_map_upt by blast
  have nozero: "\<not> (list_ex (\<lambda>x. x = 0) (fst ?ne) \<or> list_ex (\<lambda>x. x = 0) (snd ?ne))"
    unfolding fst_conv snd_conv list_ex_map_upt using nz by blast
  have nocast: "\<not> (ty = Float64 \<and> result_type ty (fst (get_ovlp env)) = Complex128)"
    using cast by (cases ty; cases "fst (get_ovlp env)") (simp_all add: result_type_def)
  have rs: "rescale_nelec (cell_nelec c) (result_type ty (fst (get_ovlp env)), ?ne) (ty, dm_kpts)
        = Inr (Finite_dm (ty,
                  (map (\<lambda>k. mat_scale (fst dm_kpts ! k)
                             (of_int (fst (cell_nelec c)) / ne_formula (fst dm_kpts) ?S k)) [0..<nkpts],
                   map (\<lambda>k. mat_scale (snd dm_kpts ! k)
                             (of_int (snd (cell_nelec c)) / ne_formula (snd dm_kpts) ?S k)) [0..<nkpts])))"
    unfolding rescale_nelec_def rescale_values_def fst_conv snd_conv
      map2_nth_upt [OF len(1)] map2_nth_upt [OF len(2)]
    using nozero nocast by simp
  show ?thesis
    unfolding get_init_guess_def g bind_err_def sum.case prod.case d fst_conv snd_conv
      einsum_xkij_kji_trace [OF a b s] mm rs
    using dim by simp
qed

text \<open>
  Claim C8. The claim says that for a cell of dimension below 3 a deviation of the electron
  count is repaired by rescaling and never raises. It does raise when the guess has real
  entries and the overlap matrices complex ones, as they have away from the gamma point:
  the minao guess \<open>[[1]]\<close> for both spins, one k-point \<open>(1/2, 0, 0)\<close> with the
  \<open>complex128\<close> overlap \<open>[[1]]\<close>, one electron per spin and a cell of dimension 2. The
  counts \<open>1.01\<close> and \<open>0.99\<close> deviate, the factor \<open>nelec/ne\<close> is \<open>complex128\<close>, and the
  in-place product into the \<open>float64\<close> density is a TypeError.
\<close>

theorem get_init_guess_low_dim_rescale_raises:
  "get_init_guess
     \<lparr>mol_init_guess_by_1e = Inl TypeError, init_guess_by_atom = (Float64, [[1]], [[1]]),
      init_guess_by_minao = (Float64, [[1]], [[1]]), from_chk = Inl IOError,
      get_ovlp = (Complex128, [[[1]]])\<rparr>
     \<lparr>nelec = (1, 1), kpts = [[1 / 2, 0, 0]], verbose_debug = False,
      diis_start_cycle = 1, level_shift = LS_float 0, damp = 0\<rparr>
     \<lparr>cell_natm = 1, cell_dimension = 2, cell_nelec = (1, 1)\<rparr> ''minao''
   = Inl TypeError"
  by (simp add: eval_guess eval_arr norm_divide)

text \<open>
  The same call with overlap matrices of real entries is repaired as the claim says.
\<close>

lemma get_init_guess_low_dim_rescale_real_overlap:
  "get_init_guess
     \<lparr>mol_init_guess_by_1e = Inl TypeError, init_guess_by_atom = (Float64, [[1]], [[1]]),
      init_guess_by_minao = (Float64, [[1]], [[1]]), from_chk = Inl IOError,
      get_ovlp = (Float64, [[[1]]])\<rparr>
     \<lparr>nelec = (1, 1), kpts = [[0, 0, 0]], verbose_debug = False,
      diis_start_cycle = 1, level_shift = LS_float 0, damp = 0\<rparr>
     \<lparr>cell_natm = 1, cell_dimension = 2, cell_nelec = (1, 1)\<rparr> ''minao''
   = Inr ([Warn_nelec_error 1], Finite_dm (Float64, [[[1]]], [[[1]]]))"
  using get_init_guess_low_dim_castable [of
     "\<lparr>cell_natm = 1, cell_dimension = 2, cell_nelec = (1, 1)\<rparr>"
     "\<lparr>mol_init_guess_by_1e = Inl TypeError, init_guess_by_atom = (Float64, [[1]], [[1]]),
      init_guess_by_minao = (Float64, [[1]], [[1]]), from_chk = Inl IOError,
      get_ovlp = (Float64, [[[1]]])\<rparr>"
     "''minao''" "[]" "Inl (Float64, [[1]], [[1]])"
     "\<lparr>nelec = (1, 1), kpts = [[0, 0, 0]], verbose_debug = False,
      diis_start_cycle = 1, level_shift = LS_float 0, damp = 0\<rparr>"
     Float64 "([[[101 / 100]]], [[[99 / 100]]])" 1 1]
  by (simp add: eval_guess eval_arr norm_divide)

text \<open>
  The keys that lead to the 1e guess (the key \<open>'1e'\<close>, or any key when the cell has no
  atom) pass on what \<^verbatim>\<open>mol_uhf.UHF.init_guess_by_1e(cell)\<close> raises.
\<close>

lemma get_init_guess_1e_raises:
  assumes "lower key = ''1e'' \<or> cell_natm c = 0" and "mol_init_guess_by_1e env = Inl e"
  shows "get_init_guess env mf c key = Inl e"
  using assms
  by (auto simp: get_init_guess_def choose_guess_def init_guess_by_1e_def bind_err_def)

text \<open>
  Claim C7, as amended. For the keys \<open>'atom'\<close> and \<open>'minao'\<close> (compared in lower case) and
  a cell with at least one atom, \<open>get_init_guess\<close> takes one k-point-independent pair of
  matrices (the atom or the minao guess), repeats it for every k-point and multiplies
  the alpha copies by 1.01 and the beta copies by 0.99. This array is what is returned,
  with nothing logged, when the cell has dimension 3 or more, or when the electron-count
  check of a lower-dimensional cell finds no deviation.
\<close>

theorem get_init_guess_replicates_scaled_guess:
  fixes env :: guess_env and mf :: kuhf and c :: cell and key :: string
  defines "tdm \<equiv> (if lower key = ''atom'' then init_guess_by_atom env
                    else init_guess_by_minao env)"
  defines "dm_kpts \<equiv> (replicate (length (kpts mf)) (mat_scale (fst (snd tdm)) (101 / 100)),
                         replicate (length (kpts mf)) (mat_scale (snd (snd tdm)) (99 / 100)))"
  assumes key: "lower key = ''atom'' \<or> lower key = ''minao''"
    and atoms: "cell_natm c \<noteq> 0"
    and sq: "is_mat nao nao (fst (snd tdm))" "is_mat nao nao (snd (snd tdm))"
    and pass: "3 \<le> cell_dimension c
               \<or> (\<exists>ne. einsum_xkij_kji dm_kpts (snd (get_ovlp env)) = Inr ne
                        \<and> \<not> nelec_mismatch ne (cell_nelec c))"
  shows "get_init_guess env mf c key = Inr ([], Finite_dm (fst tdm, dm_kpts))"
proof -
  have ne1: "lower key \<noteq> ''1e''" using key by auto
  have ch: "choose_guess env c key = Inr ([], Inl tdm)"
    using key atoms ne1 by (auto simp: choose_guess_def tdm_def startswith_def)
  have d1: "dim1 (fst (snd tdm)) = nao" using sq(1) by (rule is_mat_square_dim1)
  have sp: "spread_guess (length (kpts mf)) tdm = Inr (fst tdm, dm_kpts)"
    using sq by (simp add: spread_guess_def d1 dm_kpts_def Let_def)
  show ?thesis
    using pass by (auto simp: get_init_guess_def ch sp bind_err_def)
qed

theorem get_init_guess_replicates_scaled_guess_witness:
  "get_init_guess
     \<lparr>mol_init_guess_by_1e = Inl TypeError, init_guess_by_atom = (Float64, [[2]], [[1]]),
      init_guess_by_minao = (Float64, [[1]], [[1]]), from_chk = Inl IOError,
      get_ovlp = (Complex128, [[[1]], [[1]]])\<rparr>
     \<lparr>nelec = (2, 1), kpts = [[0, 0, 0], [1 / 2, 0, 0]], verbose_debug = False,
      diis_start_cycle = 1, level_shift = LS_float 0, damp = 0\<rparr>
     \<lparr>cell_natm = 1, cell_dimension = 3, cell_nelec = (2, 1)\<rparr> ''Atom''
   = Inr ([], Finite_dm (Float64, [[[202 / 100]], [[202 / 100]]], [[[99 / 100]], [[99 / 100]]]))"
  using get_init_guess_replicates_scaled_guess [where key = "''Atom''" and nao = 1
     and c = "\<lparr>cell_natm = 1, cell_dimension = 3, cell_nelec = (2, 1)\<rparr>"
     and env = "\<lparr>mol_init_guess_by_1e = Inl TypeError, init_guess_by_atom = (Float64, [[2]], [[1]]),
      init_guess_by_minao = (Float64, [[1]], [[1]]), from_chk = Inl IOError,
      get_ovlp = (Complex128, [[[1]], [[1]]])\<rparr>"
     and mf = "\<lparr>nelec = (2, 1), kpts = [[0, 0, 0], [1 / 2, 0, 0]], verbose_debug = False,
      diis_start_cycle = 1, level_shift = LS_float 0, damp = 0\<rparr>"]
  by (simp add: eval_guess eval_arr)

text \<open>
  Claim C7 as stated fails for a cell of dimension below 3: the scaled copies miss the
  electron count by one percent, so they are renormalised and the returned alpha block
  is \<open>[[2]]\<close>, not \<open>1.01 \<cdot> [[2]]\<close>.
\<close>

theorem get_init_guess_low_dim_not_scaled_guess:
  "get_init_guess
     \<lparr>mol_init_guess_by_1e = Inl TypeError, init_guess_by_atom = (Float64, [[2]], [[1]]),
      init_guess_by_minao = (Float64, [[1]], [[1]]), from_chk = Inl IOError,
      get_ovlp = (Float64, [[[1]]])\<rparr>
     \<lparr>nelec = (2, 1), kpts = [[0, 0, 0]], verbose_debug = False,
      diis_start_cycle = 1, level_shift = LS_float 0, damp = 0\<rparr>
     \<lparr>cell_natm = 1, cell_dimension = 1, cell_nelec = (2, 1)\<rparr> ''atom''
   = Inr ([Warn_nelec_error (301 / 200)], Finite_dm (Float64, [[[2]]], [[[1]]]))
   \<and> mat_scale [[2]] (101 / 100) \<noteq> [[2]]"
  by (simp add: eval_guess eval_arr norm_divide)



subsection \<open>Initial guess from a checkpoint\<close>

lemma purely_real_dm_real: "purely_real (dm_real dm)"
  by (simp add: purely_real_def dm_real_def mat_real_def list_all_iff)

lemma allclose_zero_iff:
  "allclose_zero ks = (\<forall>row\<in>set ks. \<forall>x\<in>set row. \<bar>x\<bar> \<le> 1 / 10 ^ 8)"
  by (simp add: allclose_zero_def isclose_def list_all_iff)

text \<open>
  Claim C9, as amended. Whenever the density has been built for the target k-points
  \<open>ks\<close>, \<open>init_guess_by_chkfile\<close> returns its real part (a purely real density) if every
  component of every target k-point is within \<open>1e-8\<close> of zero, in particular if all of them
  are exactly zero, and it returns the density unmodified if some component exceeds
  \<open>1e-8\<close> in magnitude.
\<close>

theorem init_guess_by_chkfile_real_within_tolerance:
  assumes "chk_density P project r kpts_arg = Inr (ks, dm)"
  shows "((\<forall>row\<in>set ks. \<forall>x\<in>set row. \<bar>x\<bar> \<le> 1 / 10 ^ 8) \<longrightarrow>
            init_guess_by_chkfile P project r kpts_arg = Inr (dm_real dm) \<and> purely_real (dm_real dm))
       \<and> ((\<forall>row\<in>set ks. \<forall>x\<in>set row. x = 0) \<longrightarrow>
            init_guess_by_chkfile P project r kpts_arg = Inr (dm_real dm))
       \<and> ((\<exists>row\<in>set ks. \<exists>x\<in>set row. 1 / 10 ^ 8 < \<bar>x\<bar>) \<longrightarrow>
            init_guess_by_chkfile P project r kpts_arg = Inr dm)"
proof -
  have "init_guess_by_chkfile P project r kpts_arg = Inr (if allclose_zero ks then dm_real dm else dm)"
    by (simp add: init_guess_by_chkfile_def assms bind_err_def)
  note r = this
  have near: "(\<forall>row\<in>set ks. \<forall>x\<in>set row. \<bar>x\<bar> \<le> 1 / 10 ^ 8) = allclose_zero ks"
    by (simp only: allclose_zero_iff)
  have zero: "(\<forall>row\<in>set ks. \<forall>x\<in>set row. x = 0) \<Longrightarrow> allclose_zero ks"
    unfolding allclose_zero_iff by fastforce
  have far: "(\<exists>row\<in>set ks. \<exists>x\<in>set row. 1 / 10 ^ 8 < \<bar>x\<bar>) \<Longrightarrow> \<not> allclose_zero ks"
    unfolding allclose_zero_iff by (meson not_le)
  show ?thesis
  proof (cases "allclose_zero ks")
    case True
    with r far show ?thesis
      unfolding near by (auto simp only: if_True purely_real_dm_real)
  next
    case False
    with r zero show ?thesis
      unfolding near by (auto simp only: if_False)
  qed
qed

lemmas eval_chk = init_guess_by_chkfile_def chk_density_def target_kpts_def chk_kpts_of_def
  chk_orbitals_def getitem_def expand_single_def
  same_shape2_def allclose_def allclose_zero_def isclose_def makedm_same_mesh_def
  makedm_other_mesh_def unpack2_def index01_def py_index_def nearest_def argmin_def
  vec_sub_def lib_norm_def split_occ_def gt_mask_def dm_real_def mat_real_def
  make_rdm1_def make_dm_def mul_last_axis_def np_dot_def mat_mul_def mat_T_def mat_conj_def
  reshape_spin_def bind_err_def is_mat_def dim1_def enumerate_eq_zip
  upt_rec [of _ "numeral _"] upt_rec [of 0 1] upt_rec [of 1 1] upt_rec [of 0 "Suc _"] upt_rec [of "Suc _" "Suc _"]

text \<open>
  A KUHF checkpoint at the gamma point with the complex orbital \<open>(1, i)\<close>, read without
  projection for the same k-point and for the k-point \<open>(1/2, 0, 0)\<close>.
\<close>

lemma chk_density_gamma_example:
  "chk_density \<lparr>project_single = (\<lambda>m. m), project_list = (\<lambda>ms ds. ms)\<rparr> False
     \<lparr>rec_kpt = None, rec_kpts = Some [[0, 0, 0]],
      rec_mo_coeff = Some (Mo4 [[[[1], [\<i>]]], [[[1], [\<i>]]]]),
      rec_mo_occ = Some (Occ3 [[[1]], [[1]]])\<rparr> (Some [[0, 0, 0]])
   = Inr ([[0, 0, 0]], ([[[1, - \<i>], [\<i>, 1]]], [[[1, - \<i>], [\<i>, 1]]]))"
  by (simp add: eval_chk)

lemma chk_density_half_example:
  "chk_density \<lparr>project_single = (\<lambda>m. m), project_list = (\<lambda>ms ds. ms)\<rparr> False
     \<lparr>rec_kpt = None, rec_kpts = Some [[0, 0, 0]],
      rec_mo_coeff = Some (Mo4 [[[[1], [\<i>]]], [[[1], [\<i>]]]]),
      rec_mo_occ = Some (Occ3 [[[1]], [[1]]])\<rparr> (Some [[1 / 2, 0, 0]])
   = Inr ([[1 / 2, 0, 0]], ([[[1, - \<i>], [\<i>, 1]]], [[[1, - \<i>], [\<i>, 1]]]))"
  by (simp add: eval_chk)

theorem init_guess_by_chkfile_real_within_tolerance_witness:
  "init_guess_by_chkfile \<lparr>project_single = (\<lambda>m. m), project_list = (\<lambda>ms ds. ms)\<rparr> False
     \<lparr>rec_kpt = None, rec_kpts = Some [[0, 0, 0]],
      rec_mo_coeff = Some (Mo4 [[[[1], [\<i>]]], [[[1], [\<i>]]]]),
      rec_mo_occ = Some (Occ3 [[[1]], [[1]]])\<rparr> (Some [[0, 0, 0]])
   = Inr ([[[1, 0], [0, 1]]], [[[1, 0], [0, 1]]])
   \<and> init_guess_by_chkfile \<lparr>project_single = (\<lambda>m. m), project_list = (\<lambda>ms ds. ms)\<rparr> False
     \<lparr>rec_kpt = None, rec_kpts = Some [[0, 0, 0]],
      rec_mo_coeff = Some (Mo4 [[[[1], [\<i>]]], [[[1], [\<i>]]]]),
      rec_mo_occ = Some (Occ3 [[[1]], [[1]]])\<rparr> (Some [[1 / 2, 0, 0]])
   = Inr ([[[1, - \<i>], [\<i>, 1]]], [[[1, - \<i>], [\<i>, 1]]])"
  using init_guess_by_chkfile_real_within_tolerance [OF chk_density_gamma_example]
    init_guess_by_chkfile_real_within_tolerance [OF chk_density_half_example]
  by (simp add: dm_real_def mat_real_def)

text \<open>
  Claim C9 as stated fails: the target k-point \<open>(1e-9, 0, 0)\<close> is not the zero vector,
  yet it passes \<^verbatim>\<open>np.allclose(kpts, 0)\<close> and the complex density is replaced by its real
  part.
\<close>

theorem init_guess_by_chkfile_real_for_tiny_nonzero_kpt:
  "init_guess_by_chkfile \<lparr>project_single = (\<lambda>m. m), project_list = (\<lambda>ms ds. ms)\<rparr> False
     \<lparr>rec_kpt = None, rec_kpts = Some [[0, 0, 0]],
      rec_mo_coeff = Some (Mo4 [[[[1], [\<i>]]], [[[1], [\<i>]]]]),
      rec_mo_occ = Some (Occ3 [[[1]], [[1]]])\<rparr> (Some [[1 / 10 ^ 9, 0, 0]])
   = Inr ([[[1, 0], [0, 1]]], [[[1, 0], [0, 1]]])
   \<and> chk_density \<lparr>project_single = (\<lambda>m. m), project_list = (\<lambda>ms ds. ms)\<rparr> False
     \<lparr>rec_kpt = None, rec_kpts = Some [[0, 0, 0]],
      rec_mo_coeff = Some (Mo4 [[[[1], [\<i>]]], [[[1], [\<i>]]]]),
      rec_mo_occ = Some (Occ3 [[[1]], [[1]]])\<rparr> (Some [[1 / 10 ^ 9, 0, 0]])
   = Inr ([[1 / 10 ^ 9, 0, 0]], ([[[1, - \<i>], [\<i>, 1]]], [[[1, - \<i>], [\<i>, 1]]]))
   \<and> (1 / 10 ^ 9 :: real) \<noteq> 0"
  by (simp add: eval_chk)



text \<open>
  The scan behind \<^verbatim>\<open>np.argmin\<close> ends on a position whose entry is least.
\<close>

lemma argmin_from_least:
  assumes "ys = pre @ xs" "i = length pre" "b < i" "v = ys ! b" "\<forall>y\<in>set pre. v \<le> y"
    "\<forall>j<b. v < ys ! j"
  shows "argmin_from b v i xs < length ys
       \<and> (\<forall>y\<in>set ys. ys ! argmin_from b v i xs \<le> y)
       \<and> (\<forall>j<argmin_from b v i xs. ys ! argmin_from b v i xs < ys ! j)"
  using assms
proof (induction xs arbitrary: pre b v i)
  case Nil
  then show ?case by simp
next
  case (Cons x xs)
  have ys: "ys = (pre @ [x]) @ xs" using Cons.prems(1) by simp
  have i': "Suc i = length (pre @ [x])" using Cons.prems(2) by simp
  show ?case
  proof (cases "x < v")
    case True
    have xi: "x = ys ! i" using Cons.prems(1,2) by simp
    have le: "\<forall>y\<in>set (pre @ [x]). x \<le> y"
      using Cons.prems(5) True by fastforce
    have "\<forall>j<i. x < ys ! j"
    proof (intro allI impI)
      fix j assume j: "j < i"
      then have "ys ! j \<in> set pre"
        using Cons.prems(1,2) by (simp add: nth_append)
      with Cons.prems(5) True show "x < ys ! j" by fastforce
    qed
    from Cons.IH [OF ys i' _ xi le this] True show ?thesis by simp
  next
    case False
    have "\<forall>y\<in>set (pre @ [x]). v \<le> y"
      using Cons.prems(5) False by auto
    from Cons.IH [OF ys i' _ Cons.prems(4) this Cons.prems(6)] Cons.prems(3) False
    show ?thesis by simp
  qed
qed

lemma argmin_least:
  assumes "xs \<noteq> []"
  obtains w where "argmin xs = Inr w" "w < length xs" "\<forall>j<length xs. xs ! w \<le> xs ! j"
    "\<forall>j<w. xs ! w < xs ! j"
proof -
  from assms obtain x rest where xs: "xs = x # rest" by (cases xs) auto
  have "argmin_from 0 x 1 rest < length xs
      \<and> (\<forall>y\<in>set xs. xs ! argmin_from 0 x 1 rest \<le> y)
      \<and> (\<forall>j<argmin_from 0 x 1 rest. xs ! argmin_from 0 x 1 rest < xs ! j)"
    by (rule argmin_from_least [where pre = "[x]"]) (simp_all add: xs)
  then have "argmin_from 0 x 1 rest < length xs"
    and "\<forall>j<length xs. xs ! argmin_from 0 x 1 rest \<le> xs ! j"
    and "\<forall>j<argmin_from 0 x 1 rest. xs ! argmin_from 0 x 1 rest < xs ! j"
    by (auto simp only: all_set_conv_all_nth)
  moreover have "argmin xs = Inr (argmin_from 0 x 1 rest)"
    by (simp add: argmin_def xs)
  ultimately show ?thesis using that by blast
qed

lemma nearest_least:
  assumes "chk_kpts \<noteq> []"
  obtains w where "nearest chk_kpts kpt = Inr w" "first_nearest chk_kpts kpt w"
proof -
  let ?d = "map (\<lambda>c. lib_norm (vec_sub c kpt)) chk_kpts"
  have "?d \<noteq> []" using assms by simp
  then obtain w where w: "argmin ?d = Inr w" "w < length ?d" "\<forall>j<length ?d. ?d ! w \<le> ?d ! j"
    "\<forall>j<w. ?d ! w < ?d ! j"
    by (rule argmin_least)
  have "first_nearest chk_kpts kpt w"
    using w(2-4) by (simp add: first_nearest_def lib_norm_def vec_sub_def kdist_def)
  with w(1) show ?thesis
    using that [of w] by (simp add: nearest_def)
qed

lemma first_nearest_unique:
  assumes "first_nearest chk_kpts kpt w" "first_nearest chk_kpts kpt w'"
  shows "w = w'"
proof (rule ccontr)
  assume "w \<noteq> w'"
  then consider "w < w'" | "w' < w" by linarith
  then show False
  proof cases
    case 1
    with assms have "kdist (chk_kpts ! w') kpt < kdist (chk_kpts ! w) kpt"
      and "kdist (chk_kpts ! w) kpt \<le> kdist (chk_kpts ! w') kpt"
      by (simp_all add: first_nearest_def)
    then show False by simp
  next
    case 2
    with assms have "kdist (chk_kpts ! w) kpt < kdist (chk_kpts ! w') kpt"
      and "kdist (chk_kpts ! w') kpt \<le> kdist (chk_kpts ! w) kpt"
      by (simp_all add: first_nearest_def)
    then show False by simp
  qed
qed

lemma traverse_nearest:
  assumes "chk_kpts \<noteq> []"
  shows "\<exists>ws. traverse (nearest chk_kpts) tk = Inr ws \<and> length ws = length tk
           \<and> (\<forall>i<length tk. first_nearest chk_kpts (tk ! i) (ws ! i))"
proof (induction tk)
  case Nil
  then show ?case by simp
next
  case (Cons kpt tk)
  then obtain ws where ws: "traverse (nearest chk_kpts) tk = Inr ws" "length ws = length tk"
    "\<forall>i<length tk. first_nearest chk_kpts (tk ! i) (ws ! i)"
    by blast
  obtain w where w: "nearest chk_kpts kpt = Inr w" "first_nearest chk_kpts kpt w"
    using assms by (rule nearest_least)
  have "\<forall>i<length (kpt # tk). first_nearest chk_kpts ((kpt # tk) ! i) ((w # ws) ! i)"
    using w(2) ws(3) by (auto simp: nth_Cons split: nat.splits)
  then show ?case
    using w(1) ws(1,2) by (intro exI [of _ "w # ws"]) (simp add: bind_err_def)
qed

lemma traverse_index:
  assumes "\<forall>w\<in>set ws. w < length xs"
  shows "traverse (\<lambda>w. py_index xs (int w)) ws = Inr (map ((!) xs) ws)"
  by (rule traverse_all_Inr) (use assms in \<open>simp add: py_index_def\<close>)

lemma traverse_dkpts:
  assumes "\<forall>w\<in>set ws. w < length chk_kpts"
  shows "traverse (\<lambda>(i, w). bind_err (py_index chk_kpts (int w)) (\<lambda>c. Inr (vec_sub c (tk ! i))))
           (enumerate 0 ws)
         = Inr (map (\<lambda>(i, w). vec_sub (chk_kpts ! w) (tk ! i)) (enumerate 0 ws))"
  by (rule traverse_all_Inr)
     (use assms in \<open>auto simp: py_index_def bind_err_def in_set_enumerate_eq\<close>)

lemma map_enumerate_upt:
  "map (\<lambda>(i, w). f i w) (enumerate 0 ws) = map (\<lambda>i. f i (ws ! i)) [0..<length ws]"
  by (rule nth_equalityI) (simp_all add: nth_enumerate_eq)

text \<open>
  Claim C10, as amended. Let the checkpoint hold orbitals \<open>moa\<close>, \<open>mob\<close> and
  occupations \<open>occa\<close>, \<open>occb\<close> per spin for each of its k-points (for a restricted
  checkpoint the occupations are the ones split at \<open>1e-8\<close>). When the target mesh does
  not have the shape of the checkpoint k-points or is not within the tolerance of
  \<^verbatim>\<open>np.allclose\<close> of them, and projection is on, then for every target k-point the
  first checkpoint k-point of least Euclidean distance is selected (\<open>first_nearest\<close>
  fixes the position uniquely), the orbitals of the selected k-points are projected with
  the displacements \<open>chk_kpt - target_kpt\<close>, the occupations of the selected k-points are
  copied, and the guess is \<open>make_rdm1\<close> of these (its real part when the target mesh is
  within \<open>1e-8\<close> of the origin).
\<close>

theorem init_guess_by_chkfile_nearest_kpoint:
  assumes tk: "target_kpts r kpts_arg = Inr tk"
    and ck: "chk_kpts_of r = Inr chk_kpts"
    and orb: "chk_orbitals r = Inr ([moa, mob], [occa, occb])"
    and other: "\<not> (same_shape2 tk chk_kpts \<and> allclose tk chk_kpts)"
    and ne: "chk_kpts \<noteq> []"
    and lens: "length moa = length chk_kpts" "length mob = length chk_kpts"
      "length occa = length chk_kpts" "length occb = length chk_kpts"
  shows "\<exists>ws. length ws = length tk
           \<and> (\<forall>i<length tk. first_nearest chk_kpts (tk ! i) (ws ! i))
           \<and> init_guess_by_chkfile P True r kpts_arg =
               bind_err
                 (make_rdm1
                    (project_list P (map ((!) moa) ws)
                       (map (\<lambda>i. vec_sub (chk_kpts ! (ws ! i)) (tk ! i)) [0..<length tk]),
                     project_list P (map ((!) mob) ws)
                       (map (\<lambda>i. vec_sub (chk_kpts ! (ws ! i)) (tk ! i)) [0..<length tk]))
                    (map ((!) occa) ws, map ((!) occb) ws))
                 (\<lambda>dm. Inr (if allclose_zero tk then dm_real dm else dm))"
proof -
  obtain ws where ws: "traverse (nearest chk_kpts) tk = Inr ws" "length ws = length tk"
    and near: "\<forall>i<length tk. first_nearest chk_kpts (tk ! i) (ws ! i)"
    using traverse_nearest [OF ne, of tk] by blast
  have inr: "\<forall>w\<in>set ws. w < length chk_kpts"
    using near ws(2) by (auto simp: in_set_conv_nth first_nearest_def)
  have dk: "traverse (\<lambda>(i, w). bind_err (py_index chk_kpts (int w)) (\<lambda>c. Inr (vec_sub c (tk ! i))))
              (enumerate 0 ws)
            = Inr (map (\<lambda>i. vec_sub (chk_kpts ! (ws ! i)) (tk ! i)) [0..<length tk])"
    using traverse_dkpts [OF inr, of tk] by (simp add: map_enumerate_upt ws(2))
  have sel: "traverse (\<lambda>w. py_index moa (int w)) ws = Inr (map ((!) moa) ws)"
    "traverse (\<lambda>w. py_index mob (int w)) ws = Inr (map ((!) mob) ws)"
    "traverse (\<lambda>w. py_index occa (int w)) ws = Inr (map ((!) occa) ws)"
    "traverse (\<lambda>w. py_index occb (int w)) ws = Inr (map ((!) occb) ws)"
    using inr lens by (simp_all add: traverse_index)
  have mk: "makedm_other_mesh P True chk_kpts tk [moa, mob] [occa, occb]
          = make_rdm1
              (project_list P (map ((!) moa) ws)
                 (map (\<lambda>i. vec_sub (chk_kpts ! (ws ! i)) (tk ! i)) [0..<length tk]),
               project_list P (map ((!) mob) ws)
                 (map (\<lambda>i. vec_sub (chk_kpts ! (ws ! i)) (tk ! i)) [0..<length tk]))
              (map ((!) occa) ws, map ((!) occb) ws)"
    by (simp add: makedm_other_mesh_def ws(1) unpack2_def dk [unfolded bind_err_def] sel
        bind_err_def)
  have "init_guess_by_chkfile P True r kpts_arg =
          bind_err (makedm_other_mesh P True chk_kpts tk [moa, mob] [occa, occb])
            (\<lambda>dm. Inr (if allclose_zero tk then dm_real dm else dm))"
    using other
    by (auto simp: init_guess_by_chkfile_def chk_density_def tk ck orb bind_err_def
        split: sum.splits)
  with ws(2) near show ?thesis
    unfolding mk by blast
qed

theorem init_guess_by_chkfile_nearest_kpoint_witness:
  "init_guess_by_chkfile \<lparr>project_single = (\<lambda>m. m), project_list = (\<lambda>ms ds. map (\<lambda>m. mat_scale m 2) ms)\<rparr> True
     \<lparr>rec_kpt = None, rec_kpts = Some [[0, 0, 0], [1 / 2, 0, 0]],
      rec_mo_coeff = Some (Mo4 [[[[1]], [[2]]], [[[1]], [[3]]]]),
      rec_mo_occ = Some (Occ3 [[[1], [1]], [[1], [1]]])\<rparr> (Some [[2 / 5, 0, 0]])
   = Inr ([[[16]]], [[[36]]])"
  using init_guess_by_chkfile_nearest_kpoint [where P = "\<lparr>project_single = (\<lambda>m. m), project_list = (\<lambda>ms ds. map (\<lambda>m. mat_scale m 2) ms)\<rparr>"
      and r = "\<lparr>rec_kpt = None, rec_kpts = Some [[0, 0, 0], [1 / 2, 0, 0]],
      rec_mo_coeff = Some (Mo4 [[[[1]], [[2]]], [[[1]], [[3]]]]),
      rec_mo_occ = Some (Occ3 [[[1], [1]], [[1], [1]]])\<rparr>"
      and kpts_arg = "Some [[2 / 5, 0, 0]]" and tk = "[[2 / 5, 0, 0]]"
      and chk_kpts = "[[0, 0, 0], [1 / 2, 0, 0]]"
      and moa = "[[[1]], [[2]]]" and mob = "[[[1]], [[3]]]"
      and occa = "[[1], [1]]" and occb = "[[1], [1]]"]
  by (simp add: eval_chk mat_scale_def)

text \<open>
  Claim C10 as stated fails. The target k-point \<open>(1e-9, 0, 0)\<close> differs from the
  checkpoint k-point \<open>(0, 0, 0)\<close>, but it is within the tolerance of \<^verbatim>\<open>np.allclose\<close>:
  the orbitals go through the projector one by one without a displacement, and with a
  projector that doubles the orbitals of a list the result is \<open>[[1]]\<close> where the
  displacement recipe gives \<open>[[4]]\<close>. With \<open>project=False\<close> nothing is projected either.
\<close>

theorem init_guess_by_chkfile_same_mesh_within_tolerance:
  "init_guess_by_chkfile \<lparr>project_single = (\<lambda>m. m), project_list = (\<lambda>ms ds. map (\<lambda>m. mat_scale m 2) ms)\<rparr> True
     \<lparr>rec_kpt = None, rec_kpts = Some [[0, 0, 0]],
      rec_mo_coeff = Some (Mo4 [[[[1]]], [[[1]]]]),
      rec_mo_occ = Some (Occ3 [[[1]], [[1]]])\<rparr> (Some [[1 / 10 ^ 9, 0, 0]])
   = Inr ([[[1]]], [[[1]]])
   \<and> make_rdm1
       (project_list \<lparr>project_single = (\<lambda>m. m), project_list = (\<lambda>ms ds. map (\<lambda>m. mat_scale m 2) ms)\<rparr> [[[1]]]
          [vec_sub [0, 0, 0] [1 / 10 ^ 9, 0, 0]],
        project_list \<lparr>project_single = (\<lambda>m. m), project_list = (\<lambda>ms ds. map (\<lambda>m. mat_scale m 2) ms)\<rparr> [[[1]]]
          [vec_sub [0, 0, 0] [1 / 10 ^ 9, 0, 0]])
       ([[1]], [[1]])
   = Inr ([[[4]]], [[[4]]])
   \<and> [[1 / 10 ^ 9, 0, 0]] \<noteq> [[0, 0, 0 :: real]]
   \<and> init_guess_by_chkfile \<lparr>project_single = (\<lambda>m. m), project_list = (\<lambda>ms ds. map (\<lambda>m. mat_scale m 2) ms)\<rparr> False
     \<lparr>rec_kpt = None, rec_kpts = Some [[0, 0, 0]],
      rec_mo_coeff = Some (Mo4 [[[[1]]], [[[1]]]]),
      rec_mo_occ = Some (Occ3 [[[1]], [[1]]])\<rparr> (Some [[1 / 2, 0, 0]])
   = Inr ([[[1]]], [[[1]]])"
  by (simp add: eval_chk mat_scale_def)



subsection \<open>Canonicalization\<close>

lemma length_scatter: "length (scatter idx vs xs) = length xs"
  by (induction idx vs xs rule: scatter.induct) simp_all

lemma length_select:
  "length idx = length xs \<Longrightarrow> length (select idx xs) = count_nonzero idx"
proof (induction idx arbitrary: xs)
  case Nil
  then show ?case by (simp add: select_def count_nonzero_def)
next
  case (Cons b bs)
  then obtain y ys where "xs = y # ys" by (cases xs) auto
  with Cons show ?case by (simp add: select_def count_nonzero_def)
qed

lemma select_Cons [simp]:
  "select (b # bs) (x # xs) = (if b then x # select bs xs else select bs xs)"
  by (simp add: select_def)

lemma select_Nil [simp]: "select [] xs = []" "select idx [] = []"
  by (simp_all add: select_def)

lemma count_nonzero_Cons [simp]:
  "count_nonzero (b # bs) = (if b then Suc (count_nonzero bs) else count_nonzero bs)"
  by (simp add: count_nonzero_def)

lemma count_nonzero_Nil [simp]: "count_nonzero [] = 0"
  by (simp add: count_nonzero_def)

lemma select_scatter:
  "length idx = length xs \<Longrightarrow> length vs = count_nonzero idx \<Longrightarrow>
     select idx (scatter idx vs xs) = vs"
proof (induction idx vs xs rule: scatter.induct)
  case (1 bs v vs x xs)
  then show ?case by simp
next
  case (2 bs vs x xs)
  then show ?case by simp
qed auto

lemma select_not_scatter:
  "length idx = length xs \<Longrightarrow>
     select (map Not idx) (scatter idx vs xs) = select (map Not idx) xs"
  by (induction idx vs xs rule: scatter.induct) auto

lemma select_scatter_not:
  assumes "length idx = length xs"
  shows "select idx (scatter (map Not idx) vs xs) = select idx xs"
proof -
  have "select (map Not (map Not idx)) (scatter (map Not idx) vs xs)
      = select (map Not (map Not idx)) xs"
    by (rule select_not_scatter) (simp add: assms)
  then show ?thesis by (simp add: comp_def)
qed

text \<open>
  With occupations that are 0 or 1, the occupation-weighted product of two rows is the
  plain product of their occupied parts.
\<close>


lemma weighted_sum_zip:
  assumes "length r = n" "length occ = n" "length r' = n"
  shows "(\<Sum>j\<leftarrow>[0..<n]. r ! j * of_real (occ ! j) * cnj (r' ! j))
       = sum_list (map (\<lambda>(x, w, y). x * of_real w * cnj y) (zip r (zip occ r')))"
proof -
  have "map (\<lambda>j. r ! j * of_real (occ ! j) * cnj (r' ! j)) [0..<n]
      = map (\<lambda>(x, w, y). x * of_real w * cnj y) (zip r (zip occ r'))"
    by (rule nth_equalityI) (simp_all add: assms)
  then show ?thesis by simp
qed

lemma weighted_sum_select:
  assumes "length r = length occ" "length occ = length r'" "\<forall>x\<in>set occ. x = 0 \<or> x = 1"
  shows "sum_list (map (\<lambda>(x, w, y). x * of_real w * cnj y) (zip r (zip occ r')))
       = row_dotc (select (map (\<lambda>x. x = 1) occ) r) (select (map (\<lambda>x. x = 1) occ) r')"
  using assms
proof (induction r occ r' rule: list_induct3)
  case Nil
  then show ?case by (simp add: row_dotc_def)
next
  case (Cons x xs w ws y ys)
  then show ?case by (auto simp: row_dotc_def)
qed



lemma mat_mul_rows: "mat_mul a b = map (\<lambda>r. row_times r b) a"
  by (rule nth_equalityI) (simp_all add: mat_mul_def row_times_def)

lemma sum_list_upt_sum: "(\<Sum>j\<leftarrow>[0..<n]. f j) = (\<Sum>j<n. f j)"
  by (simp add: interv_sum_list_conv_sum_set_nat atLeast0LessThan)

lemma row_dotc_sum:
  "length a = n \<Longrightarrow> length b = n \<Longrightarrow> row_dotc a b = (\<Sum>m<n. a ! m * cnj (b ! m))"
  by (simp add: row_dotc_def sum_list_sum_nth atLeast0LessThan)

lemma unitary_rows:
  assumes u: "unitary n U" and p: "p < n" and q: "q < n"
  shows "(\<Sum>m<n. U ! p ! m * cnj (U ! q ! m)) = (if p = q then 1 else 0)"
proof -
  have m: "is_mat n n U" and e: "mat_mul U (conj_transpose U) = mat_id n"
    using u by (simp_all add: unitary_def)
  have n: "0 < n" using p by simp
  have lu: "length U = n" using m by (simp add: is_mat_def)
  have ct: "is_mat n n (conj_transpose U)" using m n by (rule is_mat_conj_transpose)
  have d: "dim1 (conj_transpose U) = n" using ct by (rule is_mat_square_dim1)
  have l: "length (conj_transpose U) = n" using ct by (simp add: is_mat_def)
  have "mat_mul U (conj_transpose U) ! p ! q = (\<Sum>j\<leftarrow>[0..<n]. U ! p ! j * conj_transpose U ! j ! q)"
    using p q by (simp add: mat_mul_nth lu d l)
  also have "\<dots> = (\<Sum>j\<leftarrow>[0..<n]. U ! p ! j * cnj (U ! q ! j))"
    by (rule sum_list_map_cong) (use q in \<open>simp add: conj_transpose_nth [OF m n]\<close>)
  finally have "(\<Sum>j\<leftarrow>[0..<n]. U ! p ! j * cnj (U ! q ! j)) = mat_id n ! p ! q"
    by (simp add: e)
  then show ?thesis
    using p q by (simp add: sum_list_upt_sum mat_id_def)
qed

lemma row_dotc_unitary:
  assumes u: "unitary n U" and a: "length a = n" and b: "length b = n" and n: "0 < n"
  shows "row_dotc (row_times a U) (row_times b U) = row_dotc a b"
proof -
  have m: "is_mat n n U" using u by (simp add: unitary_def)
  have lu: "length U = n" using m by (simp add: is_mat_def)
  have du: "dim1 U = n" using m by (rule is_mat_square_dim1)
  have la: "length (row_times a U) = n" "length (row_times b U) = n"
    by (simp_all add: row_times_def du)
  have ra: "\<And>m. m < n \<Longrightarrow> row_times a U ! m = (\<Sum>p<n. a ! p * U ! p ! m)"
    and rb: "\<And>m. m < n \<Longrightarrow> row_times b U ! m = (\<Sum>q<n. b ! q * U ! q ! m)"
    by (simp_all add: row_times_def du lu sum_list_upt_sum)
  have "row_dotc (row_times a U) (row_times b U)
      = (\<Sum>m<n. (\<Sum>p<n. a ! p * U ! p ! m) * cnj (\<Sum>q<n. b ! q * U ! q ! m))"
    by (simp add: row_dotc_sum [OF la] ra rb)
  also have "\<dots> = (\<Sum>m<n. \<Sum>p<n. \<Sum>q<n. a ! p * cnj (b ! q) * (U ! p ! m * cnj (U ! q ! m)))"
    by (simp add: sum_product mult_ac)
  also have "\<dots> = (\<Sum>p<n. \<Sum>q<n. \<Sum>m<n. a ! p * cnj (b ! q) * (U ! p ! m * cnj (U ! q ! m)))"
  proof -
    have "(\<Sum>m<n. \<Sum>p<n. \<Sum>q<n. a ! p * cnj (b ! q) * (U ! p ! m * cnj (U ! q ! m)))
        = (\<Sum>p<n. \<Sum>m<n. \<Sum>q<n. a ! p * cnj (b ! q) * (U ! p ! m * cnj (U ! q ! m)))"
      by (rule sum.swap)
    also have "\<dots> = (\<Sum>p<n. \<Sum>q<n. \<Sum>m<n. a ! p * cnj (b ! q) * (U ! p ! m * cnj (U ! q ! m)))"
      by (rule sum.cong [OF refl]) (rule sum.swap)
    finally show ?thesis .
  qed
  also have "\<dots> = (\<Sum>p<n. \<Sum>q<n. a ! p * cnj (b ! q) * (if p = q then 1 else 0))"
    by (simp add: sum_distrib_left [symmetric] unitary_rows [OF u])
  also have "\<dots> = (\<Sum>p<n. a ! p * cnj (b ! p))"
  proof (rule sum.cong [OF refl])
    fix p assume "p \<in> {..<n}"
    then have "(\<Sum>q<n. if q = p then a ! p * cnj (b ! q) else 0) = a ! p * cnj (b ! p)"
      by (simp add: sum.delta)
    moreover have "(\<Sum>q<n. a ! p * cnj (b ! q) * (if p = q then 1 else 0))
                 = (\<Sum>q<n. if q = p then a ! p * cnj (b ! q) else 0)"
      by (rule sum.cong [OF refl]) simp
    ultimately show "(\<Sum>q<n. a ! p * cnj (b ! q) * (if p = q then 1 else 0)) = a ! p * cnj (b ! p)"
      by simp
  qed
  also have "\<dots> = row_dotc a b"
    by (simp add: row_dotc_sum [OF a b])
  finally show ?thesis .
qed


text \<open>
  The Fock matrix projected on a set of orbitals, \<open>orb\<^sup>H \<cdot> F \<cdot> orb\<close>, is Hermitian when
  \<open>F\<close> is.
\<close>

lemma hermitian_nth:
  assumes "hermitian F" "is_mat n n F" "a < n" "b < n"
  shows "cnj (F ! a ! b) = F ! b ! a"
proof -
  have n: "0 < n" using assms(3) by simp
  have "F ! b ! a = conj_transpose F ! b ! a"
    using assms(1) by (simp add: hermitian_def)
  then show ?thesis
    using assms by (simp add: conj_transpose_nth [OF assms(2) n])
qed

lemma projected_fock:
  assumes orb: "is_mat nao k orb" and nao: "0 < nao" and k: "0 < k"
    and F: "is_mat nao nao F" and h: "hermitian F"
  shows "np_dot (mat_conj (mat_T orb)) F = Inr (mat_mul (conj_transpose orb) F)"
    and "np_dot (mat_mul (conj_transpose orb) F) orb
           = Inr (mat_mul (mat_mul (conj_transpose orb) F) orb)"
    and "is_mat k k (mat_mul (mat_mul (conj_transpose orb) F) orb)"
    and "hermitian (mat_mul (mat_mul (conj_transpose orb) F) orb)"
proof -
  let ?A = "conj_transpose orb"
  let ?t = "mat_mul ?A F"
  let ?f = "mat_mul ?t orb"
  have A: "is_mat k nao ?A" using orb nao by (rule is_mat_conj_transpose)
  have lA: "length ?A = k" and dA: "dim1 ?A = nao"
    using A k by (simp_all add: is_mat_def is_mat_dim1)
  have lF: "length F = nao" and dF: "dim1 F = nao"
    using F by (simp_all add: is_mat_def is_mat_square_dim1)
  have lo: "length orb = nao" and dorb: "dim1 orb = k"
    using orb nao by (simp_all add: is_mat_def is_mat_dim1)
  have t: "is_mat k nao ?t" using is_mat_mat_mul [of ?A F] by (simp add: lA dF)
  have lt: "length ?t = k" and dt: "dim1 ?t = nao"
    using t k by (simp_all add: is_mat_def is_mat_dim1)
  show f: "is_mat k k ?f" using is_mat_mat_mul [of ?t orb] by (simp add: lt dorb)
  show "np_dot (mat_conj (mat_T orb)) F = Inr ?t"
    by (simp add: conj_transpose_conv [symmetric] np_dot_def dA lF)
  show "np_dot ?t orb = Inr ?f"
    by (simp add: np_dot_def dt lo)
  have tn: "\<And>p b. p < k \<Longrightarrow> b < nao \<Longrightarrow> ?t ! p ! b = (\<Sum>a<nao. cnj (orb ! a ! p) * F ! a ! b)"
  proof -
    fix p b assume pb: "p < k" "b < nao"
    have "(\<Sum>a\<leftarrow>[0..<nao]. ?A ! p ! a * F ! a ! b) = (\<Sum>a\<leftarrow>[0..<nao]. cnj (orb ! a ! p) * F ! a ! b)"
      by (rule sum_list_map_cong) (use pb in \<open>simp add: conj_transpose_nth [OF orb nao]\<close>)
    then show "?t ! p ! b = (\<Sum>a<nao. cnj (orb ! a ! p) * F ! a ! b)"
      using pb by (simp add: mat_mul_nth lA dF lF sum_list_upt_sum)
  qed
  have fn: "\<And>p q. p < k \<Longrightarrow> q < k \<Longrightarrow>
              ?f ! p ! q = (\<Sum>b<nao. \<Sum>a<nao. cnj (orb ! a ! p) * F ! a ! b * orb ! b ! q)"
  proof -
    fix p q assume pq: "p < k" "q < k"
    have "?f ! p ! q = (\<Sum>b<nao. ?t ! p ! b * orb ! b ! q)"
      using pq by (simp add: mat_mul_nth lt dorb lo sum_list_upt_sum)
    also have "\<dots> = (\<Sum>b<nao. (\<Sum>a<nao. cnj (orb ! a ! p) * F ! a ! b) * orb ! b ! q)"
      by (rule sum.cong [OF refl]) (use pq in \<open>simp add: tn\<close>)
    finally show "?f ! p ! q = (\<Sum>b<nao. \<Sum>a<nao. cnj (orb ! a ! p) * F ! a ! b * orb ! b ! q)"
      by (simp add: sum_distrib_right)
  qed
  have ct: "is_mat k k (conj_transpose ?f)" using f k by (rule is_mat_conj_transpose)
  have "?f = conj_transpose ?f"
  proof (rule is_mat_eqI [OF f ct])
    fix p q assume pq: "p < k" "q < k"
    have "cnj (?f ! q ! p) = (\<Sum>b<nao. \<Sum>a<nao. orb ! a ! q * cnj (F ! a ! b) * cnj (orb ! b ! p))"
      using pq by (simp add: fn)
    also have "\<dots> = (\<Sum>b<nao. \<Sum>a<nao. cnj (orb ! b ! p) * F ! b ! a * orb ! a ! q)"
      by (intro sum.cong refl) (simp add: hermitian_nth [OF h F] mult_ac)
    also have "\<dots> = (\<Sum>a<nao. \<Sum>b<nao. cnj (orb ! b ! p) * F ! b ! a * orb ! a ! q)"
      by (rule sum.swap)
    also have "\<dots> = ?f ! p ! q"
      using pq by (simp add: fn)
    finally show "?f ! p ! q = conj_transpose ?f ! p ! q"
      using pq by (simp add: conj_transpose_nth [OF f k])
  qed
  then show "hermitian ?f" by (simp add: hermitian_def)
qed


lemma is_mat_map_select:
  assumes "is_mat nao nmo mo" "length idx = nmo"
  shows "is_mat nao (count_nonzero idx) (map (select idx) mo)"
  using assms by (simp add: is_mat_def list_all_iff length_select)

text \<open>
  Storing into an array of element type \<open>d\<close> changes nothing when \<open>d\<close> is \<open>complex128\<close>
  or the stored numbers are real. Products and conjugate transposes of arrays of real
  numbers hold real numbers.
\<close>

lemma astype_id:
  assumes "d = Complex128 \<or> real_mat m"
  shows "astype d m = m"
proof -
  have "\<And>r. r \<in> set m \<Longrightarrow> map (cast_to d) r = r"
  proof -
    fix r assume r: "r \<in> set m"
    show "map (cast_to d) r = r"
    proof (rule map_idI)
      fix x assume x: "x \<in> set r"
      show "cast_to d x = x"
      proof (cases d)
        case Complex128
        then show ?thesis by (simp add: cast_to_def)
      next
        case Float64
        with assms have "real_mat m" by simp
        with r x have "Im x = 0" by (simp add: real_mat_def list_all_iff)
        with Float64 show ?thesis by (simp add: cast_to_def complex_eq_iff)
      qed
    qed
  qed
  then show ?thesis unfolding astype_def by (rule map_idI)
qed

lemma real_matI:
  assumes "is_mat r c m" "\<And>i j. i < r \<Longrightarrow> j < c \<Longrightarrow> Im (m ! i ! j) = 0"
  shows "real_mat m"
  using assms unfolding real_mat_def is_mat_def list_all_length by simp

lemma real_mat_nth:
  assumes "real_mat m" "is_mat r c m" "i < r" "j < c"
  shows "Im (m ! i ! j) = 0"
  using assms unfolding real_mat_def is_mat_def list_all_length by simp

lemma Im_sum_list_zero: "(\<And>x. x \<in> set xs \<Longrightarrow> Im (f x) = 0) \<Longrightarrow> Im (\<Sum>x\<leftarrow>xs. f x) = 0"
  by (induction xs) simp_all

lemma real_mat_mat_mul:
  assumes a: "is_mat r n a" and b: "is_mat n c b" and n: "0 < n"
    and ra: "real_mat a" and rb: "real_mat b"
  shows "real_mat (mat_mul a b)"
proof (rule real_matI [of r c])
  have la: "length a = r" and lb: "length b = n" using a b by (simp_all add: is_mat_def)
  have db: "dim1 b = c" using b n by (rule is_mat_dim1)
  show "is_mat r c (mat_mul a b)" using is_mat_mat_mul [of a b] by (simp add: la db)
  fix i j assume ij: "i < r" "j < c"
  have "Im (\<Sum>m\<leftarrow>[0..<n]. a ! i ! m * b ! m ! j) = 0"
    by (rule Im_sum_list_zero)
       (use ij in \<open>simp add: real_mat_nth [OF ra a] real_mat_nth [OF rb b]\<close>)
  then show "Im (mat_mul a b ! i ! j) = 0"
    using ij by (simp add: mat_mul_nth la lb db)
qed

lemma real_mat_conj_transpose:
  assumes m: "is_mat r c m" and r: "0 < r" and re: "real_mat m"
  shows "real_mat (conj_transpose m)"
proof (rule real_matI [OF is_mat_conj_transpose [OF m r]])
  fix i j assume "i < c" "j < r"
  then show "Im (conj_transpose m ! i ! j) = 0"
    by (simp add: conj_transpose_nth [OF m r] real_mat_nth [OF re m])
qed

lemma set_select: "set (select idx xs) \<subseteq> set xs"
  unfolding select_def by (auto dest: set_zip_rightD)

lemma real_mat_map_select: "real_mat m \<Longrightarrow> real_mat (map (select idx) m)"
  using set_select [of idx] unfolding real_mat_def list_all_iff by fastforce

text \<open>
  One call of \<^verbatim>\<open>eig_\<close> replaces the columns of the mask by a unitary rotation of the
  same columns of the orbitals, and leaves the other columns as they are, provided the
  element type of the coefficients can hold the rotated columns: it is \<open>complex128\<close>, or
  coefficients, Fock matrix and eigenvectors are all real.
\<close>

lemma eig_sub_step:
  assumes eigh: "eigh_unitary eigh"
    and nao: "0 < nao" and nmo: "0 < nmo"
    and mo: "is_mat nao nmo mo" and F: "is_mat nao nao F" and h: "hermitian F"
    and idx: "length idx = nmo"
    and es: "length es = nmo" and cs: "is_mat nao nmo cs"
    and stay: "d = Complex128 \<or> (eigh_real eigh \<and> real_mat mo \<and> real_mat F)"
  shows "\<exists>es' cs'. eig_sub eigh d F mo idx (es, cs) = Inr (es', cs')
           \<and> length es' = nmo \<and> is_mat nao nmo cs'
           \<and> map (select (map Not idx)) cs' = map (select (map Not idx)) cs
           \<and> rotated_within idx mo cs'"
proof (cases "count_nonzero idx = 0")
  case True
  have "rotated_within idx mo cs" using True by (simp add: rotated_within_def)
  then show ?thesis using True es cs by (simp add: eig_sub_def)
next
  case False
  define k where "k = count_nonzero idx"
  have k: "0 < k" using False by (simp add: k_def)
  define orb where "orb = map (select idx) mo"
  have orb: "is_mat nao k orb"
    unfolding orb_def k_def using mo idx by (rule is_mat_map_select)
  have dmo: "dim1 mo = nmo" using mo nao by (rule is_mat_dim1)
  have dcs: "dim1 cs = nmo" using cs nao by (rule is_mat_dim1)
  have lcs: "length cs = nao" using cs by (simp add: is_mat_def)
  have sel: "select_cols idx mo = Inr orb"
    by (simp add: select_cols_def idx dmo orb_def)
  define f1 where "f1 = mat_mul (mat_mul (conj_transpose orb) F) orb"
  note pf = projected_fock [OF orb nao k F h, folded f1_def]
  obtain e U where eU: "eigh f1 = (e, U)" by (cases "eigh f1") auto
  have "length (fst (eigh f1)) = k \<and> unitary k (snd (eigh f1))"
    using eigh k pf(3,4) unfolding eigh_unitary_def by blast
  then have le: "length e = k" and U: "unitary k U" by (simp_all add: eU)
  have Um: "is_mat k k U" using U by (simp add: unitary_def)
  have lU: "length U = k" and dU: "dim1 U = k"
    using Um by (simp_all add: is_mat_def is_mat_square_dim1)
  have lorb: "length orb = nao" and dorb: "dim1 orb = k"
    using orb nao by (simp_all add: is_mat_def is_mat_dim1)
  define oc where "oc = mat_mul orb U"
  have oc: "is_mat nao k oc"
    unfolding oc_def using is_mat_mat_mul [of orb U] by (simp add: lorb dU)
  have loc: "length oc = nao" and doc: "dim1 oc = k"
    using oc nao by (simp_all add: is_mat_def is_mat_dim1)
  have dot: "np_dot orb U = Inr oc"
    by (simp add: np_dot_def dorb lU oc_def)
  have fits: "astype d oc = oc"
  proof (rule astype_id, cases "d = Complex128")
    case True
    then show "d = Complex128 \<or> real_mat oc" by simp
  next
    case False
    with stay have re: "eigh_real eigh" "real_mat mo" "real_mat F" by simp_all
    have ro: "real_mat orb" unfolding orb_def using re(2) by (rule real_mat_map_select)
    have rc: "real_mat (conj_transpose orb)" using orb nao ro by (rule real_mat_conj_transpose)
    have ct: "is_mat k nao (conj_transpose orb)" using orb nao by (rule is_mat_conj_transpose)
    have rt: "real_mat (mat_mul (conj_transpose orb) F)"
      using ct F nao rc re(3) by (rule real_mat_mat_mul)
    have t: "is_mat k nao (mat_mul (conj_transpose orb) F)"
      using is_mat_mat_mul [of "conj_transpose orb" F] ct F
      by (simp add: is_mat_def is_mat_square_dim1 [OF F])
    have "real_mat f1" unfolding f1_def using t orb nao rt ro by (rule real_mat_mat_mul)
    then have "real_mat (snd (eigh f1))" using re(1) by (simp add: eigh_real_def)
    then have rU: "real_mat U" by (simp add: eU)
    have "real_mat oc" unfolding oc_def using orb Um k ro rU by (rule real_mat_mat_mul)
    then show "d = Complex128 \<or> real_mat oc" by simp
  qed
  have am: "assign_mask idx e es = Inr (scatter idx e es)"
    by (simp add: assign_mask_def idx es le k_def)
  define cs' where "cs' = map2 (scatter idx) oc cs"
  have ac: "assign_cols idx oc cs = Inr cs'"
    by (simp add: assign_cols_def idx dcs loc lcs doc k_def cs'_def)
  have run: "eig_sub eigh d F mo idx (es, cs) = Inr (scatter idx e es, cs')"
    using False
    by (simp add: eig_sub_def sel pf(1,2) eU am dot fits ac bind_err_def)
  have lcs': "length cs' = nao" by (simp add: cs'_def loc lcs)
  have row: "\<And>i. i < nao \<Longrightarrow> cs' ! i = scatter idx (oc ! i) (cs ! i)"
    by (simp add: cs'_def loc lcs)
  have rl: "\<And>i. i < nao \<Longrightarrow> length (cs ! i) = nmo \<and> length (oc ! i) = k"
    using cs oc by (simp add: is_mat_nth)
  have m': "is_mat nao nmo cs'"
    using rl by (simp add: is_mat_def list_all_length lcs' row length_scatter)
  have keep: "map (select (map Not idx)) cs' = map (select (map Not idx)) cs"
    by (rule nth_equalityI)
       (use rl in \<open>simp_all add: lcs' lcs row select_not_scatter idx\<close>)
  have "map (select idx) cs' = oc"
    by (rule nth_equalityI)
       (use rl in \<open>simp_all add: lcs' loc row select_scatter idx k_def\<close>)
  then have "rotated_within idx mo cs'"
    using False U by (auto simp: rotated_within_def k_def oc_def orb_def)
  with run m' keep es show ?thesis
    by (simp add: length_scatter)
qed


lemma canonicalize_block_rotates:
  assumes eigh: "eigh_unitary eigh"
    and nao: "0 < nao" and nmo: "0 < nmo"
    and mo: "is_mat nao nmo mo" and F: "is_mat nao nao F" and h: "hermitian F"
    and occ: "length occ = nmo"
    and stay: "d = Complex128 \<or> (eigh_real eigh \<and> real_mat mo \<and> real_mat F)"
  shows "\<exists>e c. canonicalize_block eigh d F mo occ = Inr (e, c)
           \<and> length e = nmo \<and> is_mat nao nmo c
           \<and> rotated_within (map (\<lambda>x. x = 1) occ) mo c
           \<and> rotated_within (map Not (map (\<lambda>x. x = 1) occ)) mo c"
proof -
  let ?o = "map (\<lambda>x. x = 1) occ"
  let ?v = "map Not ?o"
  let ?z = "map (map (\<lambda>_. 0 :: complex)) mo"
  have z: "is_mat nao nmo ?z" using mo by (simp add: is_mat_def list_all_iff)
  obtain es1 cs1 where s1: "eig_sub eigh d F mo ?o (map (\<lambda>_. 0) occ, ?z) = Inr (es1, cs1)"
    "length es1 = nmo" "is_mat nao nmo cs1" "rotated_within ?o mo cs1"
    using eig_sub_step [OF eigh nao nmo mo F h, of ?o "map (\<lambda>_. 0) occ" ?z d] occ z stay by auto
  obtain es2 cs2 where s2: "eig_sub eigh d F mo ?v (es1, cs1) = Inr (es2, cs2)"
    "length es2 = nmo" "is_mat nao nmo cs2"
    "map (select (map Not ?v)) cs2 = map (select (map Not ?v)) cs1" "rotated_within ?v mo cs2"
    using eig_sub_step [OF eigh nao nmo mo F h, of ?v es1 cs1 d] occ s1(2,3) stay by auto
  have "map Not ?v = ?o" by (simp add: comp_def)
  with s2(4) have "map (select ?o) cs2 = map (select ?o) cs1" by (simp only:)
  with s1(4) have "rotated_within ?o mo cs2" by (simp add: rotated_within_def)
  moreover have "canonicalize_block eigh d F mo occ = Inr (es2, cs2)"
    unfolding canonicalize_block_def Let_def
    by (simp only: s1(1) s2(1) bind_err_def sum.case)
  ultimately show ?thesis using s2(2,3,5) by blast
qed

lemma rotated_density:
  assumes nao: "0 < nao" and nmo: "0 < nmo"
    and mo: "is_mat nao nmo mo" and c: "is_mat nao nmo c"
    and occ: "length occ = nmo" and bin: "\<forall>x\<in>set occ. x = 0 \<or> x = 1"
    and rot: "rotated_within (map (\<lambda>x. x = 1) occ) mo c"
  shows "density_formula c occ = density_formula mo occ"
proof (rule is_mat_eqI [OF density_formula_shape(1) [OF c nao nmo occ]
                           density_formula_shape(1) [OF mo nao nmo occ]])
  let ?o = "map (\<lambda>x. x = 1) occ"
  fix i l assume il: "i < nao" "l < nao"
  have lc: "length (c ! i) = nmo" "length (c ! l) = nmo"
    and lm: "length (mo ! i) = nmo" "length (mo ! l) = nmo"
    using c mo il by (simp_all add: is_mat_nth)
  have dc: "density_formula c occ ! i ! l = row_dotc (select ?o (c ! i)) (select ?o (c ! l))"
    using il lc occ bin
    by (simp add: density_formula_shape(2) [OF c nao nmo occ] weighted_sum_zip
        weighted_sum_select)
  have dm: "density_formula mo occ ! i ! l = row_dotc (select ?o (mo ! i)) (select ?o (mo ! l))"
    using il lm occ bin
    by (simp add: density_formula_shape(2) [OF mo nao nmo occ] weighted_sum_zip
        weighted_sum_select)
  have "row_dotc (select ?o (c ! i)) (select ?o (c ! l))
      = row_dotc (select ?o (mo ! i)) (select ?o (mo ! l))"
  proof (cases "count_nonzero ?o = 0")
    case True
    then have "select ?o (c ! i) = []" "select ?o (mo ! i) = []"
      using length_select [of ?o "c ! i"] length_select [of ?o "mo ! i"] lc lm occ by simp_all
    then show ?thesis by (simp add: row_dotc_def)
  next
    case False
    then obtain U where U: "unitary (count_nonzero ?o) U"
      and eq: "map (select ?o) c = mat_mul (map (select ?o) mo) U"
      using rot by (auto simp: rotated_within_def)
    have lcm: "length c = nao" "length mo = nao" using c mo by (simp_all add: is_mat_def)
    have r: "\<And>j. j < nao \<Longrightarrow> select ?o (c ! j) = row_times (select ?o (mo ! j)) U"
    proof -
      fix j assume j: "j < nao"
      have "select ?o (c ! j) = map (select ?o) c ! j" using j lcm by simp
      also have "\<dots> = map (\<lambda>r. row_times r U) (map (select ?o) mo) ! j"
        by (simp add: eq mat_mul_rows)
      also have "\<dots> = row_times (select ?o (mo ! j)) U" using j lcm by simp
      finally show "select ?o (c ! j) = row_times (select ?o (mo ! j)) U" .
    qed
    have ls: "length (select ?o (mo ! i)) = count_nonzero ?o"
      "length (select ?o (mo ! l)) = count_nonzero ?o"
      using lm occ by (simp_all add: length_select)
    show ?thesis
      using False by (simp add: r il row_dotc_unitary [OF U ls])
  qed
  with dc dm show "density_formula c occ ! i ! l = density_formula mo occ ! i ! l" by simp
qed


lemma canonicalize_spin_rotates:
  assumes eigh: "eigh_unitary eigh" and nao: "0 < nao" and nmo: "0 < nmo"
    and lens: "length mos = nkpts" "length occs = nkpts" "length focks = nkpts"
    and sh: "\<forall>k<nkpts. is_mat nao nmo (mos ! k) \<and> length (occs ! k) = nmo
                      \<and> is_mat nao nao (focks ! k) \<and> hermitian (focks ! k)"
    and stay: "d = Complex128
               \<or> (eigh_real eigh \<and> (\<forall>k<nkpts. real_mat (mos ! k) \<and> real_mat (focks ! k)))"
  shows "\<exists>rs. canonicalize_spin eigh d mos occs focks = Inr rs \<and> length rs = nkpts
           \<and> (\<forall>k<nkpts. length (fst (rs ! k)) = nmo \<and> is_mat nao nmo (snd (rs ! k))
                 \<and> rotated_within (map (\<lambda>x. x = 1) (occs ! k)) (mos ! k) (snd (rs ! k))
                 \<and> rotated_within (map Not (map (\<lambda>x. x = 1) (occs ! k))) (mos ! k) (snd (rs ! k)))"
proof -
  define g where "g = (\<lambda>(k, mo). projr (canonicalize_block eigh d (focks ! k) mo (occs ! k)))"
  have blk: "\<And>k. k < nkpts \<Longrightarrow>
      canonicalize_block eigh d (focks ! k) (mos ! k) (occs ! k) = Inr (g (k, mos ! k))
      \<and> length (fst (g (k, mos ! k))) = nmo \<and> is_mat nao nmo (snd (g (k, mos ! k)))
      \<and> rotated_within (map (\<lambda>x. x = 1) (occs ! k)) (mos ! k) (snd (g (k, mos ! k)))
      \<and> rotated_within (map Not (map (\<lambda>x. x = 1) (occs ! k))) (mos ! k) (snd (g (k, mos ! k)))"
  proof -
    fix k assume k: "k < nkpts"
    from sh k have a: "is_mat nao nmo (mos ! k)" "length (occs ! k) = nmo"
      "is_mat nao nao (focks ! k)" "hermitian (focks ! k)" by simp_all
    from stay k have st: "d = Complex128 \<or> (eigh_real eigh \<and> real_mat (mos ! k) \<and> real_mat (focks ! k))"
      by blast
    from canonicalize_block_rotates [OF eigh nao nmo a(1,3,4,2) st]
    obtain e c where "canonicalize_block eigh d (focks ! k) (mos ! k) (occs ! k) = Inr (e, c)"
      "length e = nmo" "is_mat nao nmo c"
      "rotated_within (map (\<lambda>x. x = 1) (occs ! k)) (mos ! k) c"
      "rotated_within (map Not (map (\<lambda>x. x = 1) (occs ! k))) (mos ! k) c"
      by blast
    then show "canonicalize_block eigh d (focks ! k) (mos ! k) (occs ! k) = Inr (g (k, mos ! k))
      \<and> length (fst (g (k, mos ! k))) = nmo \<and> is_mat nao nmo (snd (g (k, mos ! k)))
      \<and> rotated_within (map (\<lambda>x. x = 1) (occs ! k)) (mos ! k) (snd (g (k, mos ! k)))
      \<and> rotated_within (map Not (map (\<lambda>x. x = 1) (occs ! k))) (mos ! k) (snd (g (k, mos ! k)))"
      by (simp add: g_def)
  qed
  have run: "canonicalize_spin eigh d mos occs focks = Inr (map g (enumerate 0 mos))"
    unfolding canonicalize_spin_def
  proof (rule traverse_all_Inr)
    fix x assume "x \<in> set (enumerate 0 mos)"
    then have "fst x < nkpts" "snd x = mos ! fst x"
      using lens(1) by (simp_all add: in_set_enumerate_eq)
    then obtain k where k: "k < nkpts" "x = (k, mos ! k)"
      by (metis prod.collapse)
    show "(case x of (k, mo) \<Rightarrow>
              bind_err (py_index occs (int k)) (\<lambda>occ.
              bind_err (py_index focks (int k)) (\<lambda>fock. canonicalize_block eigh d fock mo occ)))
          = Inr (g x)"
      using k lens blk [OF k(1)] by (simp add: py_index_def bind_err_def)
  qed
  have nth: "\<And>k. k < nkpts \<Longrightarrow> map g (enumerate 0 mos) ! k = g (k, mos ! k)"
    using lens(1) by (simp add: nth_enumerate_eq)
  have "\<forall>k<nkpts. length (fst (map g (enumerate 0 mos) ! k)) = nmo
          \<and> is_mat nao nmo (snd (map g (enumerate 0 mos) ! k))
          \<and> rotated_within (map (\<lambda>x. x = 1) (occs ! k)) (mos ! k) (snd (map g (enumerate 0 mos) ! k))
          \<and> rotated_within (map Not (map (\<lambda>x. x = 1) (occs ! k))) (mos ! k)
                (snd (map g (enumerate 0 mos) ! k))"
  proof (intro allI impI)
    fix k assume k: "k < nkpts"
    show "length (fst (map g (enumerate 0 mos) ! k)) = nmo
          \<and> is_mat nao nmo (snd (map g (enumerate 0 mos) ! k))
          \<and> rotated_within (map (\<lambda>x. x = 1) (occs ! k)) (mos ! k) (snd (map g (enumerate 0 mos) ! k))
          \<and> rotated_within (map Not (map (\<lambda>x. x = 1) (occs ! k))) (mos ! k)
                (snd (map g (enumerate 0 mos) ! k))"
      unfolding nth [OF k] using blk [OF k] by blast
  qed
  moreover have "length (map g (enumerate 0 mos)) = nkpts"
    using lens(1) by simp
  ultimately show ?thesis
    using run by blast
qed

lemma unitary_mat_id: "unitary n (mat_id n)"
proof -
  have m: "is_mat n n (mat_id n)" by (simp add: is_mat_def mat_id_def list_all_iff)
  have l: "length (mat_id n) = n" by (simp add: mat_id_def)
  have d: "dim1 (mat_id n) = n" using m by (rule is_mat_square_dim1)
  have ct: "conj_transpose (mat_id n) = mat_id n"
  proof (cases "n = 0")
    case True
    then show ?thesis by (simp add: conj_transpose_def mat_id_def dim1_def)
  next
    case False
    then have n: "0 < n" by simp
    show ?thesis
    proof (rule is_mat_eqI [OF is_mat_conj_transpose [OF m n] m])
      fix i j assume "i < n" "j < n"
      then show "conj_transpose (mat_id n) ! i ! j = mat_id n ! i ! j"
        by (simp add: conj_transpose_nth [OF m n]) (simp add: mat_id_def)
    qed
  qed
  have "mat_mul (mat_id n) (mat_id n) = mat_id n"
  proof (rule is_mat_eqI [OF _ m])
    show "is_mat n n (mat_mul (mat_id n) (mat_id n))"
      using is_mat_mat_mul [of "mat_id n" "mat_id n"] by (simp add: l d)
  next
    fix i j assume ij: "i < n" "j < n"
    have "(\<Sum>m\<leftarrow>[0..<n]. mat_id n ! i ! m * mat_id n ! m ! j)
        = (\<Sum>m\<leftarrow>[0..<n]. (if i = m then 1 else 0) * (if m = j then 1 else 0))"
      by (rule sum_list_map_cong) (use ij in \<open>simp add: mat_id_def\<close>)
    also have "\<dots> = (if i = j then 1 else 0) * 1"
      using ij(2) by (rule sum_list_delta)
    finally have "(\<Sum>m\<leftarrow>[0..<n]. mat_id n ! i ! m * mat_id n ! m ! j) = (if i = j then 1 else 0)"
      by simp
    moreover have "mat_id n ! i ! j = (if i = j then 1 else 0)"
      using ij by (simp add: mat_id_def)
    moreover have "mat_mul (mat_id n) (mat_id n) ! i ! j
                 = (\<Sum>m\<leftarrow>[0..<n]. mat_id n ! i ! m * mat_id n ! m ! j)"
      using ij by (simp add: mat_mul_nth l d)
    ultimately show "mat_mul (mat_id n) (mat_id n) ! i ! j = mat_id n ! i ! j"
      by (simp only:)
  qed
  then show ?thesis by (simp add: unitary_def m ct)
qed

text \<open>
  Where the element type of the coefficients can hold the rotated columns,
  canonicalization keeps the density. Let the orbital coefficients, the occupations
  (every entry exactly 0 or 1) and the supplied Fock matrix have consistent shapes, with
  every Fock block Hermitian, and let the eigensolver return unitary eigenvector
  matrices. Let the coefficients be \<open>complex128\<close>, or coefficients, Fock matrix and
  eigenvectors all be real. Then \<open>canonicalize\<close> returns, and \<open>make_rdm1\<close> of the
  canonicalized coefficients with the unchanged occupations is the density of the
  original coefficients (equal as exact numbers, so within any tolerance). For every
  spin and k-point the occupied columns of the result are a unitary rotation of the
  occupied columns of the input, and the virtual columns a unitary rotation of the
  virtual ones: the two sets are never mixed.
\<close>

lemma canonicalize_same_density:
  assumes eigh: "eigh_unitary eigh"
    and nao: "0 < nao" and nmo: "0 < nmo" and nk: "0 < nkpts"
    and la: "length (fst mo) = nkpts" and lb: "length (snd mo) = nkpts"
    and oa: "length (fst occ) = nkpts" and ob: "length (snd occ) = nkpts"
    and fa: "length (fst fock) = nkpts" and fb: "length (snd fock) = nkpts"
    and sa: "\<forall>k<nkpts. is_mat nao nmo (fst mo ! k) \<and> length (fst occ ! k) = nmo
                      \<and> (\<forall>x\<in>set (fst occ ! k). x = 0 \<or> x = 1)
                      \<and> is_mat nao nao (fst fock ! k) \<and> hermitian (fst fock ! k)"
    and sb: "\<forall>k<nkpts. is_mat nao nmo (snd mo ! k) \<and> length (snd occ ! k) = nmo
                      \<and> (\<forall>x\<in>set (snd occ ! k). x = 0 \<or> x = 1)
                      \<and> is_mat nao nao (snd fock ! k) \<and> hermitian (snd fock ! k)"
    and stay: "d = Complex128
               \<or> (eigh_real eigh
                  \<and> (\<forall>k<nkpts. real_mat (fst mo ! k) \<and> real_mat (fst fock ! k)
                               \<and> real_mat (snd mo ! k) \<and> real_mat (snd fock ! k)))"
  shows "\<exists>e c. canonicalize eigh build_fock (d, mo) occ (Some fock) = Inr (e, d, c)
           \<and> make_rdm1 c occ = make_rdm1 mo occ
           \<and> make_rdm1 mo occ =
               Inr (map (\<lambda>k. density_formula (fst mo ! k) (fst occ ! k)) [0..<nkpts],
                    map (\<lambda>k. density_formula (snd mo ! k) (snd occ ! k)) [0..<nkpts])
           \<and> (\<forall>k<nkpts.
                 rotated_within (map (\<lambda>x. x = 1) (fst occ ! k)) (fst mo ! k) (fst c ! k)
               \<and> rotated_within (map Not (map (\<lambda>x. x = 1) (fst occ ! k))) (fst mo ! k) (fst c ! k)
               \<and> rotated_within (map (\<lambda>x. x = 1) (snd occ ! k)) (snd mo ! k) (snd c ! k)
               \<and> rotated_within (map Not (map (\<lambda>x. x = 1) (snd occ ! k))) (snd mo ! k) (snd c ! k))"
proof -
  have sta: "d = Complex128
             \<or> (eigh_real eigh \<and> (\<forall>k<nkpts. real_mat (fst mo ! k) \<and> real_mat (fst fock ! k)))"
    and stb: "d = Complex128
             \<or> (eigh_real eigh \<and> (\<forall>k<nkpts. real_mat (snd mo ! k) \<and> real_mat (snd fock ! k)))"
    using stay by blast+
  obtain ra where ra: "canonicalize_spin eigh d (fst mo) (fst occ) (fst fock) = Inr ra"
    "length ra = nkpts"
    "\<forall>k<nkpts. length (fst (ra ! k)) = nmo \<and> is_mat nao nmo (snd (ra ! k))
        \<and> rotated_within (map (\<lambda>x. x = 1) (fst occ ! k)) (fst mo ! k) (snd (ra ! k))
        \<and> rotated_within (map Not (map (\<lambda>x. x = 1) (fst occ ! k))) (fst mo ! k) (snd (ra ! k))"
    using canonicalize_spin_rotates [OF eigh nao nmo la oa fa _ sta] sa by blast
  obtain rb where rb: "canonicalize_spin eigh d (snd mo) (snd occ) (snd fock) = Inr rb"
    "length rb = nkpts"
    "\<forall>k<nkpts. length (fst (rb ! k)) = nmo \<and> is_mat nao nmo (snd (rb ! k))
        \<and> rotated_within (map (\<lambda>x. x = 1) (snd occ ! k)) (snd mo ! k) (snd (rb ! k))
        \<and> rotated_within (map Not (map (\<lambda>x. x = 1) (snd occ ! k))) (snd mo ! k) (snd (rb ! k))"
    using canonicalize_spin_rotates [OF eigh nao nmo lb ob fb _ stb] sb by blast
  let ?e = "(map fst ra, map fst rb)"
  let ?c = "(map snd ra, map snd rb)"
  have run: "canonicalize eigh build_fock (d, mo) occ (Some fock) = Inr (?e, d, ?c)"
    by (simp add: canonicalize_def ra(1) rb(1) bind_err_def)
  have ca: "\<And>k. k < nkpts \<Longrightarrow> fst ?c ! k = snd (ra ! k)"
    and cb: "\<And>k. k < nkpts \<Longrightarrow> snd ?c ! k = snd (rb ! k)"
    using ra(2) rb(2) by simp_all
  have orig: "make_rdm1 mo occ =
               Inr (map (\<lambda>k. density_formula (fst mo ! k) (fst occ ! k)) [0..<nkpts],
                    map (\<lambda>k. density_formula (snd mo ! k) (snd occ ! k)) [0..<nkpts])"
    by (rule make_rdm1_value [OF nao nmo nk la lb oa ob]) (use sa sb in simp_all)
  have canon: "make_rdm1 ?c occ =
               Inr (map (\<lambda>k. density_formula (fst ?c ! k) (fst occ ! k)) [0..<nkpts],
                    map (\<lambda>k. density_formula (snd ?c ! k) (snd occ ! k)) [0..<nkpts])"
    by (rule make_rdm1_value [OF nao nmo nk _ _ oa ob])
       (use ra(2,3) rb(2,3) sa sb in simp_all)
  have da: "\<And>k. k < nkpts \<Longrightarrow>
              density_formula (fst ?c ! k) (fst occ ! k) = density_formula (fst mo ! k) (fst occ ! k)"
  proof -
    fix k assume k: "k < nkpts"
    show "density_formula (fst ?c ! k) (fst occ ! k) = density_formula (fst mo ! k) (fst occ ! k)"
      unfolding ca [OF k]
      by (rule rotated_density [OF nao nmo]) (use k sa ra(3) in simp_all)
  qed
  have db: "\<And>k. k < nkpts \<Longrightarrow>
              density_formula (snd ?c ! k) (snd occ ! k) = density_formula (snd mo ! k) (snd occ ! k)"
  proof -
    fix k assume k: "k < nkpts"
    show "density_formula (snd ?c ! k) (snd occ ! k) = density_formula (snd mo ! k) (snd occ ! k)"
      unfolding cb [OF k]
      by (rule rotated_density [OF nao nmo]) (use k sb rb(3) in simp_all)
  qed
  have same: "make_rdm1 ?c occ = make_rdm1 mo occ"
    unfolding orig canon using da db by (simp cong: map_cong)
  have rot: "\<forall>k<nkpts.
                 rotated_within (map (\<lambda>x. x = 1) (fst occ ! k)) (fst mo ! k) (fst ?c ! k)
               \<and> rotated_within (map Not (map (\<lambda>x. x = 1) (fst occ ! k))) (fst mo ! k) (fst ?c ! k)
               \<and> rotated_within (map (\<lambda>x. x = 1) (snd occ ! k)) (snd mo ! k) (snd ?c ! k)
               \<and> rotated_within (map Not (map (\<lambda>x. x = 1) (snd occ ! k))) (snd mo ! k) (snd ?c ! k)"
  proof (intro allI impI)
    fix k assume k: "k < nkpts"
    show "rotated_within (map (\<lambda>x. x = 1) (fst occ ! k)) (fst mo ! k) (fst ?c ! k)
               \<and> rotated_within (map Not (map (\<lambda>x. x = 1) (fst occ ! k))) (fst mo ! k) (fst ?c ! k)
               \<and> rotated_within (map (\<lambda>x. x = 1) (snd occ ! k)) (snd mo ! k) (snd ?c ! k)
               \<and> rotated_within (map Not (map (\<lambda>x. x = 1) (snd occ ! k))) (snd mo ! k) (snd ?c ! k)"
      unfolding ca [OF k] cb [OF k] using ra(3) rb(3) k by blast
  qed
  show ?thesis
    using run same orig rot by blast
qed

lemmas eval_canon = canonicalize_def canonicalize_spin_def canonicalize_block_def eig_sub_def
  select_cols_def select_def count_nonzero_def assign_mask_def assign_cols_def
  eigh_2x2_def fock_2x2_def astype_def cast_to_def
  mat_id_def np_dot_def mat_mul_def mat_T_def mat_conj_def conj_transpose_def bind_err_def
  py_index_def dim1_def enumerate_eq_zip make_rdm1_def make_dm_def mul_last_axis_def
  reshape_spin_def is_mat_def hermitian_def density_formula_def diag_mat_def
  upt_rec [of _ "numeral _"] upt_rec [of 0 1] upt_rec [of 1 1] upt_rec [of 0 "Suc _"]
  upt_rec [of "Suc _" "Suc _"]

text \<open>
  The example eigensolver returns unitary eigenvector matrices, whatever the phases.
\<close>

lemma eigh_2x2_unitary:
  assumes p: "cmod p = 1" and q: "cmod q = 1"
  shows "eigh_unitary (eigh_2x2 p q)"
proof -
  have pp: "p * cnj p = 1" "cnj p * p = 1" and qq: "q * cnj q = 1" "cnj q * q = 1"
    using p q complex_norm_square [of p] complex_norm_square [of q]
    by (simp_all add: mult.commute)
  have pa: "\<And>x. p * (cnj p * x) = x" "\<And>x. cnj p * (p * x) = x"
    and qa: "\<And>x. q * (cnj q * x) = x" "\<And>x. cnj q * (q * x) = x"
    using pp qq by (simp_all add: mult.assoc [symmetric])
  have two: "unitary 2 [[3 / 5 * p, 4 / 5 * \<i> * q], [4 / 5 * \<i> * p, 3 / 5 * q]]"
    unfolding unitary_def
    by (simp add: is_mat_def mat_mul_def conj_transpose_def mat_id_def dim1_def
        upt_rec [of _ "numeral _"] upt_rec [of 0 1] upt_rec [of 1 1] pp qq pa qa algebra_simps)
  show ?thesis
    unfolding eigh_unitary_def
  proof (intro allI impI)
    fix n m assume a: "0 < n \<and> is_mat n n m \<and> hermitian m"
    then have l: "length m = n" by (simp add: is_mat_def)
    show "length (fst (eigh_2x2 p q m)) = n \<and> unitary n (snd (eigh_2x2 p q m))"
    proof (cases "m = fock_2x2")
      case True
      with l have "n = 2" by (simp add: fock_2x2_def)
      with True two show ?thesis by (simp add: eigh_2x2_def)
    next
      case False
      then show ?thesis by (simp add: eigh_2x2_def l unitary_mat_id)
    qed
  qed
qed

text \<open>
  Claim C6. The claim says that for every coefficient set and every Hermitian Fock matrix
  the density of the canonicalized coefficients is the density of the original ones. It
  is not when the coefficients are \<open>float64\<close> and the Fock matrix is complex. One
  k-point, two orbitals, both occupied in the alpha channel; the coefficients are the
  \<open>float64\<close> identity, the alpha Fock matrix is the Hermitian \<open>fock_2x2\<close>. The rotated
  columns \<open>(3, 4i)/5\<close> and \<open>(4i, 3)/5\<close> are stored into the fresh \<open>float64\<close> array
  \<^verbatim>\<open>np.empty_like(mo)\<close>, which keeps their real parts \<open>(3/5, 0)\<close> and \<open>(0, 3/5)\<close>. The
  density of the returned coefficients is \<open>9/25\<close> times the identity; the density of the
  original ones is the identity.
\<close>

theorem canonicalize_float64_changes_density:
  "canonicalize (eigh_2x2 1 1) (\<lambda>dm. dm)
     (Float64, ([[[1, 0], [0, 1]]], [[[1, 0], [0, 1]]])) ([[1, 1]], [[1, 0]])
     (Some ([fock_2x2], [[[2, 0], [0, 3]]]))
   = Inr (([[0, 25]], [[2, 3]]),
          Float64, ([[[3 / 5, 0], [0, 3 / 5]]], [[[1, 0], [0, 1]]]))
   \<and> make_rdm1 ([[[3 / 5, 0], [0, 3 / 5]]], [[[1, 0], [0, 1]]]) ([[1, 1]], [[1, 0]])
     = Inr ([[[9 / 25, 0], [0, 9 / 25]]], [[[1, 0], [0, 0]]])
   \<and> make_rdm1 ([[[1, 0], [0, 1]]], [[[1, 0], [0, 1]]]) ([[1, 1]], [[1, 0]])
     = Inr ([[[1, 0], [0, 1]]], [[[1, 0], [0, 0]]])
   \<and> hermitian fock_2x2"
  by (simp add: eval_canon)

text \<open>
  The same call with \<open>complex128\<close> coefficients keeps the density.
\<close>

lemma canonicalize_complex128_keeps_density:
  "canonicalize (eigh_2x2 1 1) (\<lambda>dm. dm)
     (Complex128, ([[[1, 0], [0, 1]]], [[[1, 0], [0, 1]]])) ([[1, 1]], [[1, 0]])
     (Some ([fock_2x2], [[[2, 0], [0, 3]]]))
   = Inr (([[0, 25]], [[2, 3]]),
          Complex128, ([[[3 / 5, 4 / 5 * \<i>], [4 / 5 * \<i>, 3 / 5]]], [[[1, 0], [0, 1]]]))
   \<and> make_rdm1 ([[[3 / 5, 4 / 5 * \<i>], [4 / 5 * \<i>, 3 / 5]]], [[[1, 0], [0, 1]]]) ([[1, 1]], [[1, 0]])
     = Inr ([[[1, 0], [0, 1]]], [[[1, 0], [0, 0]]])"
  using canonicalize_same_density [OF eigh_2x2_unitary [of 1 1], of 2 2 1
      "([[[1, 0], [0, 1]]], [[[1, 0], [0, 1]]])" "([[1, 1]], [[1, 0]])"
      "([fock_2x2], [[[2, 0], [0, 3]]])" Complex128 "\<lambda>dm. dm"]
  by (simp add: eval_canon)

text \<open>
  The loss does not depend on the phases that the eigensolver gives the eigenvectors:
  with any factors \<open>p\<close>, \<open>q\<close> of modulus one, the real parts of the two columns have
  squared lengths that add up to less than two, so the density of the returned
  coefficients is never the identity.
\<close>

lemma canonicalize_any_phase_changes_density:
  assumes p: "cmod p = 1" and q: "cmod q = 1"
  shows "\<exists>e c. canonicalize (eigh_2x2 p q) (\<lambda>dm. dm)
                 (Float64, ([[[1, 0], [0, 1]]], [[[1, 0], [0, 1]]])) ([[1, 1]], [[1, 0]])
                 (Some ([fock_2x2], [[[2, 0], [0, 3]]])) = Inr (e, Float64, c)
           \<and> make_rdm1 c ([[1, 1]], [[1, 0]])
             \<noteq> make_rdm1 ([[[1, 0], [0, 1]]], [[[1, 0], [0, 1]]]) ([[1, 1]], [[1, 0]])"
proof -
  define c :: spin_arr where
    "c = ([[[complex_of_real (3 / 5 * Re p), complex_of_real (- (4 / 5 * Im q))],
            [complex_of_real (- (4 / 5 * Im p)), complex_of_real (3 / 5 * Re q)]]],
          [[[1, 0], [0, 1]]])"
  have run: "canonicalize (eigh_2x2 p q) (\<lambda>dm. dm)
                 (Float64, ([[[1, 0], [0, 1]]], [[[1, 0], [0, 1]]])) ([[1, 1]], [[1, 0]])
                 (Some ([fock_2x2], [[[2, 0], [0, 3]]])) = Inr (([[0, 25]], [[2, 3]]), Float64, c)"
    by (simp add: eval_canon c_def)
  have pq: "(Re p)\<^sup>2 + (Im p)\<^sup>2 = 1" "(Re q)\<^sup>2 + (Im q)\<^sup>2 = 1"
    using p q by (simp_all add: cmod_power2 [symmetric])
  have "make_rdm1 c ([[1, 1]], [[1, 0]])
          \<noteq> make_rdm1 ([[[1, 0], [0, 1]]], [[[1, 0], [0, 1]]]) ([[1, 1]], [[1, 0]])"
  proof
    assume eq: "make_rdm1 c ([[1, 1]], [[1, 0]])
          = make_rdm1 ([[[1, 0], [0, 1]]], [[[1, 0], [0, 1]]]) ([[1, 1]], [[1, 0]])"
    then have "(3 / 5 * Re p)\<^sup>2 + (4 / 5 * Im q)\<^sup>2 = 1 \<and> (4 / 5 * Im p)\<^sup>2 + (3 / 5 * Re q)\<^sup>2 = 1"
      by (simp add: eval_canon c_def complex_eq_iff power2_eq_square)
    then have "9 * ((Re p)\<^sup>2 + (Re q)\<^sup>2) + 16 * ((Im p)\<^sup>2 + (Im q)\<^sup>2) = 50"
      by (simp add: power_mult_distrib power2_eq_square algebra_simps)
    moreover have "(Re p)\<^sup>2 = 1 - (Im p)\<^sup>2" "(Re q)\<^sup>2 = 1 - (Im q)\<^sup>2" using pq by simp_all
    ultimately have "7 * ((Im p)\<^sup>2 + (Im q)\<^sup>2) = 32" by simp
    moreover have "(Im p)\<^sup>2 \<le> 1" "(Im q)\<^sup>2 \<le> 1"
      using pq zero_le_power2 [of "Re p"] zero_le_power2 [of "Re q"] by linarith+
    ultimately show False by simp
  qed
  with run show ?thesis by blast
qed


end
